theory Spec2Isabelle
  imports Complex_Main "HOL-Library.Word"
begin

section \<open>C floating-point values\<close>

text \<open>
  The firmware computes in C \<^verbatim>\<open>float\<close>, the desktop curve fit in \<^verbatim>\<open>float\<close> and
  \<^verbatim>\<open>double\<close>. Both are modelled by one type: a not-a-number value, the two infinities
  and the finite values, which are taken to be exact reals. The rounding of the
  results of arithmetic, overflow to infinity and the sign of zero are not modelled, so
  an equation between computed values below is one up to that rounding; a decimal literal
  of the sources has the value the compiler gives it. What is modelled is every case
  distinction the code makes on such values: comparisons with NaN are false, NaN
  propagates through arithmetic, \<^verbatim>\<open>log10f\<close> of zero is minus infinity and of a negative
  number NaN, and so on (IEEE 754 and Annex F of C99).
\<close>

datatype c_float = NaN | NInf | Fin real | PInf

fun isnanf :: "c_float \<Rightarrow> bool" where
  "isnanf NaN = True"
| "isnanf _ = False"

fun isinff :: "c_float \<Rightarrow> bool" where
  "isinff NInf = True"
| "isinff PInf = True"
| "isinff _ = False"

text \<open>Comparisons: \<^verbatim>\<open>a < b\<close>, \<^verbatim>\<open>a <= b\<close>, \<^verbatim>\<open>a > b\<close>, \<^verbatim>\<open>a >= b\<close>; false when an operand is NaN.\<close>

fun flt :: "c_float \<Rightarrow> c_float \<Rightarrow> bool" where
  "flt NaN _ = False"
| "flt _ NaN = False"
| "flt _ NInf = False"
| "flt NInf _ = True"
| "flt PInf _ = False"
| "flt (Fin a) PInf = True"
| "flt (Fin a) (Fin b) = (a < b)"

fun fle :: "c_float \<Rightarrow> c_float \<Rightarrow> bool" where
  "fle NaN _ = False"
| "fle _ NaN = False"
| "fle NInf _ = True"
| "fle _ PInf = True"
| "fle PInf _ = False"
| "fle (Fin a) NInf = False"
| "fle (Fin a) (Fin b) = (a \<le> b)"

definition fgt :: "c_float \<Rightarrow> c_float \<Rightarrow> bool" where
  "fgt a b = flt b a"

definition fge :: "c_float \<Rightarrow> c_float \<Rightarrow> bool" where
  "fge a b = fle b a"

text \<open>Arithmetic.\<close>

fun fneg :: "c_float \<Rightarrow> c_float" where
  "fneg NaN = NaN"
| "fneg NInf = PInf"
| "fneg PInf = NInf"
| "fneg (Fin a) = Fin (- a)"

fun fabsf :: "c_float \<Rightarrow> c_float" where
  "fabsf NaN = NaN"
| "fabsf NInf = PInf"
| "fabsf PInf = PInf"
| "fabsf (Fin a) = Fin \<bar>a\<bar>"

fun fadd :: "c_float \<Rightarrow> c_float \<Rightarrow> c_float" where
  "fadd NaN _ = NaN"
| "fadd _ NaN = NaN"
| "fadd PInf NInf = NaN"
| "fadd NInf PInf = NaN"
| "fadd PInf _ = PInf"
| "fadd _ PInf = PInf"
| "fadd NInf _ = NInf"
| "fadd _ NInf = NInf"
| "fadd (Fin a) (Fin b) = Fin (a + b)"

definition fsub :: "c_float \<Rightarrow> c_float \<Rightarrow> c_float" where
  "fsub a b = fadd a (fneg b)"

text \<open>An infinity times a finite value: NaN for zero, else the infinity of the right sign.\<close>

definition signed_inf :: "real \<Rightarrow> c_float" where
  "signed_inf a = (if a = 0 then NaN else if 0 < a then PInf else NInf)"

fun fmul :: "c_float \<Rightarrow> c_float \<Rightarrow> c_float" where
  "fmul NaN _ = NaN"
| "fmul _ NaN = NaN"
| "fmul PInf PInf = PInf"
| "fmul PInf NInf = NInf"
| "fmul NInf PInf = NInf"
| "fmul NInf NInf = PInf"
| "fmul PInf (Fin b) = signed_inf b"
| "fmul NInf (Fin b) = signed_inf (- b)"
| "fmul (Fin a) PInf = signed_inf a"
| "fmul (Fin a) NInf = signed_inf (- a)"
| "fmul (Fin a) (Fin b) = Fin (a * b)"

text \<open>
  Division. A finite zero stands for \<^verbatim>\<open>+0.0\<close>: a non-zero value divided by it is the
  infinity of the dividend's sign, and zero by zero is NaN.
\<close>

fun fdiv :: "c_float \<Rightarrow> c_float \<Rightarrow> c_float" where
  "fdiv NaN _ = NaN"
| "fdiv _ NaN = NaN"
| "fdiv PInf PInf = NaN"
| "fdiv PInf NInf = NaN"
| "fdiv NInf PInf = NaN"
| "fdiv NInf NInf = NaN"
| "fdiv PInf (Fin b) = (if b < 0 then NInf else PInf)"
| "fdiv NInf (Fin b) = (if b < 0 then PInf else NInf)"
| "fdiv (Fin a) PInf = Fin 0"
| "fdiv (Fin a) NInf = Fin 0"
| "fdiv (Fin a) (Fin b) =
     (if b = 0 then (if a = 0 then NaN else if 0 < a then PInf else NInf)
      else Fin (a / b))"

text \<open>\<^verbatim>\<open>logf\<close>, \<^verbatim>\<open>log10f\<close>, \<^verbatim>\<open>expf\<close>.\<close>

fun logf :: "c_float \<Rightarrow> c_float" where
  "logf NaN = NaN"
| "logf NInf = NaN"
| "logf PInf = PInf"
| "logf (Fin a) = (if a < 0 then NaN else if a = 0 then NInf else Fin (ln a))"

fun log10f :: "c_float \<Rightarrow> c_float" where
  "log10f NaN = NaN"
| "log10f NInf = NaN"
| "log10f PInf = PInf"
| "log10f (Fin a) = (if a < 0 then NaN else if a = 0 then NInf else Fin (log 10 a))"

fun expf :: "c_float \<Rightarrow> c_float" where
  "expf NaN = NaN"
| "expf NInf = Fin 0"
| "expf PInf = PInf"
| "expf (Fin a) = Fin (exp a)"

text \<open>
  \<^verbatim>\<open>powf(x, y)\<close> with the special cases of C99 F.9.4.4: anything to the power zero is
  one, one to any power is one, a negative base needs an integral exponent.
\<close>

definition is_integral :: "real \<Rightarrow> bool" where
  "is_integral y = (y = of_int \<lfloor>y\<rfloor>)"

definition is_odd_integral :: "real \<Rightarrow> bool" where
  "is_odd_integral y = (is_integral y \<and> odd \<lfloor>y\<rfloor>)"

fun powf :: "c_float \<Rightarrow> c_float \<Rightarrow> c_float" where
  "powf x (Fin y) =
     (if y = 0 then Fin 1
      else case x of
        NaN \<Rightarrow> NaN
      | Fin a \<Rightarrow>
          (if 0 < a then Fin (a powr y)
           else if a = 0 then (if 0 < y then Fin 0 else PInf)
           else if is_odd_integral y then Fin (- (\<bar>a\<bar> powr y))
           else if is_integral y then Fin (\<bar>a\<bar> powr y)
           else NaN)
      | PInf \<Rightarrow> (if 0 < y then PInf else Fin 0)
      | NInf \<Rightarrow> (if 0 < y then (if is_odd_integral y then NInf else PInf) else Fin 0))"
| "powf x NaN = (if x = Fin 1 then Fin 1 else NaN)"
| "powf x PInf =
     (case x of
        NaN \<Rightarrow> NaN
      | Fin a \<Rightarrow> (if \<bar>a\<bar> = 1 then Fin 1 else if \<bar>a\<bar> < 1 then Fin 0 else PInf)
      | _ \<Rightarrow> PInf)"
| "powf x NInf =
     (case x of
        NaN \<Rightarrow> NaN
      | Fin a \<Rightarrow> (if \<bar>a\<bar> = 1 then Fin 1 else if \<bar>a\<bar> < 1 then PInf else Fin 0)
      | _ \<Rightarrow> Fin 0)"

text \<open>
  The decimal literals of the sources that are not binary fractions. A literal with the
  suffix \<^verbatim>\<open>F\<close> is the single-precision number nearest to the decimal: \<^verbatim>\<open>0.01F\<close> lies
  just below the decimal it is written as, \<^verbatim>\<open>0.001F\<close>, \<^verbatim>\<open>0.1F\<close> and \<^verbatim>\<open>0.98F\<close> just
  above. The other literals of the sources (\<^verbatim>\<open>0.75F\<close>, \<^verbatim>\<open>2.50F\<close>, \<^verbatim>\<open>4.00F\<close>, ...)
  are binary fractions and have the value they are written as.
\<close>

definition float_0_01F :: real where
  "float_0_01F = 5368709 / 536870912"

definition float_0_001F :: real where
  "float_0_001F = 8589935 / 8589934592"

definition float_0_1F :: real where
  "float_0_1F = 13421773 / 134217728"

definition float_0_98F :: real where
  "float_0_98F = 2055209 / 2097152"

section \<open>The density computation engine (densitometer.c)\<close>

datatype densitometer_result_t =
  DENSITOMETER_OK | DENSITOMETER_CAL_ERROR | DENSITOMETER_SENSOR_ERROR

datatype HAL_StatusTypeDef = HAL_OK | HAL_ERROR | HAL_BUSY | HAL_TIMEOUT

text \<open>
  \<^verbatim>\<open>light.h\<close> is not among the sources: the two idle brightness levels it defines are
  parameters of every procedure that uses them.
\<close>

record light_h =
  LIGHT_REFLECTION_IDLE :: nat
  LIGHT_TRANSMISSION_IDLE :: nat

text \<open>
  The state the procedures of densitometer.c read and write: the two file-scope
  variables holding the last readings, the brightness last given to
  \<^verbatim>\<open>light_set_reflection\<close> and \<^verbatim>\<open>light_set_transmission\<close>, and the calibration values
  of the settings store, each a density and a reading as \<^verbatim>\<open>settings_get_cal_...\<close>
  returns them and \<^verbatim>\<open>settings_set_cal_...\<close> stores them.
\<close>

record dens_state =
  densitometer_reflection_d :: c_float
  densitometer_transmission_d :: c_float
  light_reflection :: nat
  light_transmission :: nat
  cal_reflection_lo :: "c_float \<times> c_float"
  cal_reflection_hi :: "c_float \<times> c_float"
  cal_transmission_zero :: c_float
  cal_transmission_hi :: "c_float \<times> c_float"

text \<open>
  The initialisers of the two globals: \<^verbatim>\<open>float densitometer_reflection_d = NAN;\<close> and
  \<^verbatim>\<open>float densitometer_transmission_d = NAN;\<close>. The lights and the settings at start-up
  are whatever the rest of the firmware left there.
\<close>

definition densitometer_startup ::
  "nat \<Rightarrow> nat \<Rightarrow> c_float \<times> c_float \<Rightarrow> c_float \<times> c_float \<Rightarrow> c_float \<Rightarrow> c_float \<times> c_float
     \<Rightarrow> dens_state" where
  "densitometer_startup lr lt rlo rhi tz thi =
     \<lparr>densitometer_reflection_d = NaN, densitometer_transmission_d = NaN,
      light_reflection = lr, light_transmission = lt,
      cal_reflection_lo = rlo, cal_reflection_hi = rhi,
      cal_transmission_zero = tz, cal_transmission_hi = thi\<rparr>"

definition densitometer_reflection_get_last_reading :: "dens_state \<Rightarrow> c_float" where
  "densitometer_reflection_get_last_reading s = densitometer_reflection_d s"

definition densitometer_transmission_get_last_reading :: "dens_state \<Rightarrow> c_float" where
  "densitometer_transmission_get_last_reading s = densitometer_transmission_d s"

definition light_set_reflection :: "nat \<Rightarrow> dens_state \<Rightarrow> dens_state" where
  "light_set_reflection v s = s\<lparr>light_reflection := v\<rparr>"

definition light_set_transmission :: "nat \<Rightarrow> dens_state \<Rightarrow> dens_state" where
  "light_set_transmission v s = s\<lparr>light_transmission := v\<rparr>"

text \<open>
  \<^verbatim>\<open>sensor_read(iterations, &ch0_basic, &ch1_basic)\<close> is not among the sources either.
  What it gives back to its caller, the status and the two basic counts it stored
  through the pointers, is a parameter \<open>rd\<close> of each procedure.

  \<^verbatim>\<open>if (ch1_basic >= ch0_basic) { ch1_basic = 0; } meas_value = ch0_basic - ch1_basic;\<close>
  is shared by all six procedures.
\<close>

definition meas_value_of :: "c_float \<Rightarrow> c_float \<Rightarrow> c_float" where
  "meas_value_of ch0_basic ch1_basic =
     (let ch1_basic = (if fge ch1_basic ch0_basic then Fin 0 else ch1_basic)
      in fsub ch0_basic ch1_basic)"

definition densitometer_reflection_measure ::
  "light_h \<Rightarrow> HAL_StatusTypeDef \<times> c_float \<times> c_float \<Rightarrow> dens_state
     \<Rightarrow> densitometer_result_t \<times> dens_state" where
  "densitometer_reflection_measure lh rd s =
     (let (cal_lo_d, cal_lo_value) = cal_reflection_lo s;
          (cal_hi_d, cal_hi_value) = cal_reflection_hi s
      in if flt cal_lo_d (Fin 0) \<or> fle cal_hi_d cal_lo_d
            \<or> flt cal_lo_value (Fin 0) \<or> fge cal_hi_value cal_lo_value
         then (DENSITOMETER_CAL_ERROR, s)
         else
           let s = light_set_reflection 128 s;
               s = light_set_transmission 0 s;
               (status, ch0_basic, ch1_basic) = rd
           in if status \<noteq> HAL_OK
              then (DENSITOMETER_SENSOR_ERROR,
                    light_set_reflection (LIGHT_REFLECTION_IDLE lh) s)
              else
                let meas_value = meas_value_of ch0_basic ch1_basic;
                    meas_ll = log10f meas_value;
                    cal_hi_ll = log10f cal_hi_value;
                    cal_lo_ll = log10f cal_lo_value;
                    m = fdiv (fsub cal_hi_d cal_lo_d) (fsub cal_hi_ll cal_lo_ll);
                    meas_d = fadd (fmul m (fsub meas_ll cal_lo_ll)) cal_lo_d;
                    s = s\<lparr>densitometer_reflection_d := meas_d\<rparr>;
                    s = light_set_reflection (LIGHT_REFLECTION_IDLE lh) s
                in (DENSITOMETER_OK, s))"

definition densitometer_transmission_measure ::
  "light_h \<Rightarrow> HAL_StatusTypeDef \<times> c_float \<times> c_float \<Rightarrow> dens_state
     \<Rightarrow> densitometer_result_t \<times> dens_state" where
  "densitometer_transmission_measure lh rd s =
     (let cal_zero_value = cal_transmission_zero s;
          (cal_hi_d, cal_hi_value) = cal_transmission_hi s
      in if fle cal_zero_value (Fin 0) \<or> fle cal_hi_d (Fin 0) \<or> fle cal_hi_value (Fin 0)
            \<or> fge cal_hi_value cal_zero_value
         then (DENSITOMETER_CAL_ERROR, s)
         else
           let s = light_set_reflection 0 s;
               s = light_set_transmission 128 s;
               (status, ch0_basic, ch1_basic) = rd
           in if status \<noteq> HAL_OK
              then (DENSITOMETER_SENSOR_ERROR,
                    light_set_transmission (LIGHT_TRANSMISSION_IDLE lh) s)
              else
                let meas_value = meas_value_of ch0_basic ch1_basic;
                    cal_hi_meas_d = fmul (Fin (- 1)) (log10f (fdiv cal_hi_value cal_zero_value));
                    meas_d = fmul (Fin (- 1)) (log10f (fdiv meas_value cal_zero_value));
                    adj_factor = fdiv cal_hi_d cal_hi_meas_d;
                    corr_d = fmul meas_d adj_factor;
                    s = s\<lparr>densitometer_transmission_d := corr_d\<rparr>;
                    s = light_set_transmission (LIGHT_TRANSMISSION_IDLE lh) s
                in (DENSITOMETER_OK, s))"

text \<open>The four point-calibration helpers; \<^verbatim>\<open>CAL_READ_ITERATIONS\<close> is 5.\<close>

definition densitometer_calibrate_reflection_lo ::
  "light_h \<Rightarrow> c_float \<Rightarrow> HAL_StatusTypeDef \<times> c_float \<times> c_float \<Rightarrow> dens_state
     \<Rightarrow> densitometer_result_t \<times> dens_state" where
  "densitometer_calibrate_reflection_lo lh cal_lo_d rd s =
     (if flt cal_lo_d (Fin 0) \<or> fgt cal_lo_d (Fin 2.5)
      then (DENSITOMETER_CAL_ERROR, s)
      else
        let s = light_set_reflection 128 s;
            s = light_set_transmission 0 s;
            (status, ch0_basic, ch1_basic) = rd
        in if status \<noteq> HAL_OK
           then (DENSITOMETER_SENSOR_ERROR,
                 light_set_reflection (LIGHT_REFLECTION_IDLE lh) s)
           else
             let meas_value = meas_value_of ch0_basic ch1_basic
             in if flt meas_value (Fin float_0_01F)
                then (DENSITOMETER_CAL_ERROR, s)
                else
                  let s = s\<lparr>cal_reflection_lo := (cal_lo_d, meas_value)\<rparr>;
                      s = light_set_reflection (LIGHT_REFLECTION_IDLE lh) s
                  in (DENSITOMETER_OK, s))"

definition densitometer_calibrate_reflection_hi ::
  "light_h \<Rightarrow> c_float \<Rightarrow> HAL_StatusTypeDef \<times> c_float \<times> c_float \<Rightarrow> dens_state
     \<Rightarrow> densitometer_result_t \<times> dens_state" where
  "densitometer_calibrate_reflection_hi lh cal_hi_d rd s =
     (if flt cal_hi_d (Fin 0) \<or> fgt cal_hi_d (Fin 2.5)
      then (DENSITOMETER_CAL_ERROR, s)
      else
        let s = light_set_reflection 128 s;
            s = light_set_transmission 0 s;
            (status, ch0_basic, ch1_basic) = rd
        in if status \<noteq> HAL_OK
           then (DENSITOMETER_SENSOR_ERROR,
                 light_set_reflection (LIGHT_REFLECTION_IDLE lh) s)
           else
             let meas_value = meas_value_of ch0_basic ch1_basic
             in if flt meas_value (Fin float_0_01F)
                then (DENSITOMETER_CAL_ERROR, s)
                else
                  let s = s\<lparr>cal_reflection_hi := (cal_hi_d, meas_value)\<rparr>;
                      s = light_set_reflection (LIGHT_REFLECTION_IDLE lh) s
                  in (DENSITOMETER_OK, s))"

definition densitometer_calibrate_transmission_zero ::
  "light_h \<Rightarrow> HAL_StatusTypeDef \<times> c_float \<times> c_float \<Rightarrow> dens_state
     \<Rightarrow> densitometer_result_t \<times> dens_state" where
  "densitometer_calibrate_transmission_zero lh rd s =
     (let s = light_set_reflection 0 s;
          s = light_set_transmission 128 s;
          (status, ch0_basic, ch1_basic) = rd
      in if status \<noteq> HAL_OK
         then (DENSITOMETER_SENSOR_ERROR,
               light_set_transmission (LIGHT_TRANSMISSION_IDLE lh) s)
         else
           let meas_value = meas_value_of ch0_basic ch1_basic
           in if flt meas_value (Fin float_0_01F)
              then (DENSITOMETER_CAL_ERROR, s)
              else
                let s = s\<lparr>cal_transmission_zero := meas_value\<rparr>;
                    s = light_set_transmission (LIGHT_TRANSMISSION_IDLE lh) s
                in (DENSITOMETER_OK, s))"

definition densitometer_calibrate_transmission_hi ::
  "light_h \<Rightarrow> c_float \<Rightarrow> HAL_StatusTypeDef \<times> c_float \<times> c_float \<Rightarrow> dens_state
     \<Rightarrow> densitometer_result_t \<times> dens_state" where
  "densitometer_calibrate_transmission_hi lh cal_hi_d rd s =
     (if flt cal_hi_d (Fin 0) \<or> fgt cal_hi_d (Fin 4)
      then (DENSITOMETER_CAL_ERROR, s)
      else
        let s = light_set_reflection 0 s;
            s = light_set_transmission 128 s;
            (status, ch0_basic, ch1_basic) = rd
        in if status \<noteq> HAL_OK
           then (DENSITOMETER_SENSOR_ERROR,
                 light_set_transmission (LIGHT_TRANSMISSION_IDLE lh) s)
           else
             let meas_value = meas_value_of ch0_basic ch1_basic
             in if flt meas_value (Fin float_0_01F)
                then (DENSITOMETER_CAL_ERROR, s)
                else
                  let s = s\<lparr>cal_transmission_hi := (cal_hi_d, meas_value)\<rparr>;
                      s = light_set_transmission (LIGHT_TRANSMISSION_IDLE lh) s
                  in (DENSITOMETER_OK, s))"

text \<open>Two relations between a state and its successor, used to state what a procedure leaves alone.\<close>

definition same_calibration :: "dens_state \<Rightarrow> dens_state \<Rightarrow> bool" where
  "same_calibration s s' =
     (cal_reflection_lo s' = cal_reflection_lo s \<and> cal_reflection_hi s' = cal_reflection_hi s
      \<and> cal_transmission_zero s' = cal_transmission_zero s
      \<and> cal_transmission_hi s' = cal_transmission_hi s)"

definition same_last_readings :: "dens_state \<Rightarrow> dens_state \<Rightarrow> bool" where
  "same_last_readings s s' =
     (densitometer_reflection_get_last_reading s' = densitometer_reflection_get_last_reading s
      \<and> densitometer_transmission_get_last_reading s' = densitometer_transmission_get_last_reading s)"

section \<open>The sensor module (sensor.c)\<close>

text \<open>
  The types of \<^verbatim>\<open>tsl2591.h\<close>, \<^verbatim>\<open>sensor.h\<close> and \<^verbatim>\<open>cmsis_os.h\<close>, as sensor.c uses them.
  The gain settings are compared as integers in \<^verbatim>\<open>gain_low >= gain_high\<close>: their order
  is the order of the enumeration.
\<close>

datatype tsl2591_gain_t =
  TSL2591_GAIN_LOW | TSL2591_GAIN_MEDIUM | TSL2591_GAIN_HIGH | TSL2591_GAIN_MAXIMUM

fun gain_value :: "tsl2591_gain_t \<Rightarrow> nat" where
  "gain_value TSL2591_GAIN_LOW = 0"
| "gain_value TSL2591_GAIN_MEDIUM = 1"
| "gain_value TSL2591_GAIN_HIGH = 2"
| "gain_value TSL2591_GAIN_MAXIMUM = 3"

datatype tsl2591_time_t =
  TSL2591_TIME_100MS | TSL2591_TIME_200MS | TSL2591_TIME_300MS
  | TSL2591_TIME_400MS | TSL2591_TIME_500MS | TSL2591_TIME_600MS

datatype osStatus_t =
  osOK | osError | osErrorTimeout | osErrorResource | osErrorParameter
  | osErrorNoMemory | osErrorISR

datatype sensor_light_t =
  SENSOR_LIGHT_OFF | SENSOR_LIGHT_REFLECTION | SENSOR_LIGHT_TRANSMISSION

datatype sensor_gain_calibration_status_t =
  SENSOR_GAIN_CALIBRATION_STATUS_INIT
  | SENSOR_GAIN_CALIBRATION_STATUS_MEDIUM
  | SENSOR_GAIN_CALIBRATION_STATUS_HIGH
  | SENSOR_GAIN_CALIBRATION_STATUS_MAXIMUM
  | SENSOR_GAIN_CALIBRATION_STATUS_LED
  | SENSOR_GAIN_CALIBRATION_STATUS_COOLDOWN
  | SENSOR_GAIN_CALIBRATION_STATUS_FAILED
  | SENSOR_GAIN_CALIBRATION_STATUS_DONE

record sensor_reading_t =
  ch0_val :: "16 word"
  ch1_val :: "16 word"
  gain :: tsl2591_gain_t
  time :: tsl2591_time_t
  reading_ticks :: "32 word"
  reading_count :: "32 word"

record settings_cal_light_t =
  reflection :: "8 word"
  transmission :: "8 word"

record settings_cal_gain_t =
  ch0_medium :: c_float
  ch1_medium :: c_float
  ch0_high :: c_float
  ch1_high :: c_float
  ch0_maximum :: c_float
  ch1_maximum :: c_float

record settings_cal_slope_t =
  b0 :: c_float
  b1 :: c_float
  b2 :: c_float

text \<open>
  The constants of \<^verbatim>\<open>tsl2591.h\<close>, which is not among the sources, are parameters: the
  two saturation ceilings (assigned to a \<^verbatim>\<open>uint16_t\<close> in the code), and the least,
  greatest and typical gain of each setting above the lowest.
\<close>

record tsl2591_saturation =
  TSL2591_ANALOG_SATURATION :: "16 word"
  TSL2591_DIGITAL_SATURATION :: "16 word"

record tsl2591_gain_limits =
  TSL2591_GAIN_MEDIUM_MIN :: real
  TSL2591_GAIN_MEDIUM_MAX :: real
  TSL2591_GAIN_MEDIUM_TYP :: real
  TSL2591_GAIN_HIGH_MIN :: real
  TSL2591_GAIN_HIGH_MAX :: real
  TSL2591_GAIN_HIGH_TYP :: real
  TSL2591_GAIN_MAXIMUM_CH0_MIN :: real
  TSL2591_GAIN_MAXIMUM_CH0_MAX :: real
  TSL2591_GAIN_MAXIMUM_CH0_TYP :: real
  TSL2591_GAIN_MAXIMUM_CH1_MIN :: real
  TSL2591_GAIN_MAXIMUM_CH1_MAX :: real
  TSL2591_GAIN_MAXIMUM_CH1_TYP :: real

text \<open>
  What sensor.c calls and does not define: \<^verbatim>\<open>sensor_set_config\<close>, \<^verbatim>\<open>sensor_start\<close>,
  \<^verbatim>\<open>sensor_stop\<close>, \<^verbatim>\<open>sensor_set_light_mode\<close>, \<^verbatim>\<open>sensor_get_next_reading\<close>, the settings
  store and the caller's progress callback. Their answers are the environment of a run:
  the status of a configuration request and of a start request, whether the settings
  store accepts a table, and the callback (\<open>None\<close> for a null pointer; its
  \<^verbatim>\<open>user_data\<close> is left out). The readings the driver will deliver are part of the
  state below.
\<close>

record sensor_env =
  set_config_status :: "tsl2591_gain_t \<Rightarrow> tsl2591_time_t \<Rightarrow> osStatus_t"
  start_status :: osStatus_t
  callback :: "(sensor_gain_calibration_status_t \<Rightarrow> int \<Rightarrow> bool) option"
  cal_light_accepted :: "settings_cal_light_t \<Rightarrow> bool"
  cal_gain_accepted :: "settings_cal_gain_t \<Rightarrow> bool"

text \<open>
  The state of the hardware and of the settings store: the answers the next calls of
  \<^verbatim>\<open>sensor_get_next_reading\<close> will give (a status and the reading stored through the
  pointer; when the list is used up the call times out), the arguments of the last
  \<^verbatim>\<open>sensor_set_light_mode\<close>, whether the sensor was started, and the two persisted
  tables.
\<close>

record sensor_state =
  pending :: "(osStatus_t \<times> sensor_reading_t) list"
  light_mode :: "sensor_light_t \<times> bool \<times> 8 word"
  running :: bool
  stored_cal_light :: settings_cal_light_t
  stored_cal_gain :: settings_cal_gain_t

definition no_reading :: sensor_reading_t where
  "no_reading = \<lparr>ch0_val = 0, ch1_val = 0, gain = TSL2591_GAIN_LOW, time = TSL2591_TIME_100MS,
                  reading_ticks = 0, reading_count = 0\<rparr>"

definition sensor_get_next_reading ::
  "sensor_state \<Rightarrow> osStatus_t \<times> sensor_reading_t \<times> sensor_state" where
  "sensor_get_next_reading st =
     (case pending st of
        [] \<Rightarrow> (osErrorTimeout, no_reading, st)
      | (ret, reading) # rest \<Rightarrow> (ret, reading, st\<lparr>pending := rest\<rparr>))"

definition sensor_set_config ::
  "sensor_env \<Rightarrow> tsl2591_gain_t \<Rightarrow> tsl2591_time_t \<Rightarrow> sensor_state \<Rightarrow> osStatus_t \<times> sensor_state" where
  "sensor_set_config env g t st = (set_config_status env g t, st)"

definition sensor_start :: "sensor_env \<Rightarrow> sensor_state \<Rightarrow> osStatus_t \<times> sensor_state" where
  "sensor_start env st =
     (start_status env, if start_status env = osOK then st\<lparr>running := True\<rparr> else st)"

definition sensor_stop :: "sensor_state \<Rightarrow> sensor_state" where
  "sensor_stop st = st\<lparr>running := False\<rparr>"

definition sensor_set_light_mode ::
  "sensor_light_t \<Rightarrow> bool \<Rightarrow> 8 word \<Rightarrow> sensor_state \<Rightarrow> sensor_state" where
  "sensor_set_light_mode light next_cycle val st = st\<lparr>light_mode := (light, next_cycle, val)\<rparr>"

definition settings_set_cal_light ::
  "sensor_env \<Rightarrow> settings_cal_light_t \<Rightarrow> sensor_state \<Rightarrow> bool \<times> sensor_state" where
  "settings_set_cal_light env cal st =
     (if cal_light_accepted env cal then (True, st\<lparr>stored_cal_light := cal\<rparr>) else (False, st))"

definition settings_set_cal_gain ::
  "sensor_env \<Rightarrow> settings_cal_gain_t \<Rightarrow> sensor_state \<Rightarrow> bool \<times> sensor_state" where
  "settings_set_cal_gain env cal st =
     (if cal_gain_accepted env cal then (True, st\<lparr>stored_cal_gain := cal\<rparr>) else (False, st))"

text \<open>\<^verbatim>\<open>(float)\<close> of a \<^verbatim>\<open>uint16_t\<close>.\<close>

definition float_of_u16 :: "16 word \<Rightarrow> c_float" where
  "float_of_u16 w = Fin (real (unat w))"

subsection \<open>Saturation and the read loop\<close>

text \<open>
  \<^verbatim>\<open>sensor_is_reading_saturated\<close>, for a reading that exists; every call in this file
  passes the address of a local variable, so the branch for a null pointer is left out.
\<close>

definition sensor_is_reading_saturated :: "tsl2591_saturation \<Rightarrow> sensor_reading_t \<Rightarrow> bool" where
  "sensor_is_reading_saturated k reading =
     (let limit = (if time reading = TSL2591_TIME_100MS then TSL2591_ANALOG_SATURATION k
                   else TSL2591_DIGITAL_SATURATION k)
      in if ch0_val reading \<ge> limit \<or> ch1_val reading \<ge> limit then True else False)"

text \<open>
  The \<^verbatim>\<open>for\<close> loop of \<^verbatim>\<open>sensor_raw_read_loop\<close>, by the number of iterations left. It
  gives the status, the saturation flag and the two sums of logarithms.
\<close>

fun raw_read_iterations ::
  "tsl2591_saturation \<Rightarrow> nat \<Rightarrow> c_float \<Rightarrow> c_float \<Rightarrow> sensor_state
     \<Rightarrow> osStatus_t \<times> bool \<times> c_float \<times> c_float \<times> sensor_state" where
  "raw_read_iterations k 0 ch0_sum ch1_sum st = (osOK, False, ch0_sum, ch1_sum, st)"
| "raw_read_iterations k (Suc n) ch0_sum ch1_sum st =
     (case sensor_get_next_reading st of (ret, reading, st) \<Rightarrow>
        if ret \<noteq> osOK then (ret, False, ch0_sum, ch1_sum, st)
        else if sensor_is_reading_saturated k reading then (osOK, True, ch0_sum, ch1_sum, st)
        else raw_read_iterations k n
               (fadd ch0_sum (logf (float_of_u16 (ch0_val reading))))
               (fadd ch1_sum (logf (float_of_u16 (ch1_val reading)))) st)"

text \<open>
  \<^verbatim>\<open>sensor_raw_read_loop(count, &ch0_avg, &ch1_avg)\<close>. \<open>Inr\<close> holds the two averages it
  stores when it returns \<^verbatim>\<open>osOK\<close>; \<open>Inl\<close> the status it returns otherwise, the
  averages untouched. \<open>count\<close> is a \<^verbatim>\<open>uint8_t\<close>. A caller that passes a null pointer
  for an average, as the brightness search does for channel 1, ignores that component.
\<close>

definition sensor_raw_read_loop ::
  "tsl2591_saturation \<Rightarrow> nat \<Rightarrow> sensor_state \<Rightarrow> (osStatus_t + c_float \<times> c_float) \<times> sensor_state" where
  "sensor_raw_read_loop k count st =
     (if count = 0 then (Inl osErrorParameter, st)
      else
        case raw_read_iterations k count (Fin 0) (Fin 0) st of
          (ret, saturation, ch0_sum, ch1_sum, st) \<Rightarrow>
            if ret = osOK
            then (Inr (if saturation then NaN else expf (fdiv ch0_sum (Fin (real count))),
                       if saturation then NaN else expf (fdiv ch1_sum (Fin (real count)))), st)
            else (Inl ret, st))"

subsection \<open>Gain calibration\<close>

text \<open>The two target factors of the brightness searches, \<^verbatim>\<open>(0.98F)\<close> and \<^verbatim>\<open>(0.75F)\<close>.\<close>

definition LIGHT_CAL_CH0_TARGET_FACTOR :: c_float where
  "LIGHT_CAL_CH0_TARGET_FACTOR = Fin float_0_98F"

definition GAIN_CAL_CH0_TARGET_FACTOR :: c_float where
  "GAIN_CAL_CH0_TARGET_FACTOR = Fin 0.75"

definition gain_status_callback ::
  "sensor_env \<Rightarrow> sensor_gain_calibration_status_t \<Rightarrow> int \<Rightarrow> bool" where
  "gain_status_callback env status param =
     (case callback env of Some cb \<Rightarrow> cb status param | None \<Rightarrow> True)"

text \<open>Five callbacks a second apart; false as soon as one of them asks to stop.\<close>

definition sensor_gain_calibration_cooldown :: "sensor_env \<Rightarrow> bool" where
  "sensor_gain_calibration_cooldown env =
     list_all (\<lambda>i. gain_status_callback env SENSOR_GAIN_CALIBRATION_STATUS_COOLDOWN i)
       [0, 1, 2, 3, 4]"

text \<open>The last lines of \<^verbatim>\<open>sensor_gain_calibration_loop\<close>, for one channel.\<close>

definition gain_ratio :: "c_float \<Rightarrow> c_float \<Rightarrow> c_float" where
  "gain_ratio avg_high avg_low =
     (if fle avg_high (Fin 0) \<or> fle avg_low (Fin 0) then Fin 0 else fdiv avg_high avg_low)"

definition sensor_gain_calibration_loop ::
  "sensor_env \<Rightarrow> tsl2591_saturation \<Rightarrow> tsl2591_gain_t \<Rightarrow> tsl2591_gain_t \<Rightarrow> tsl2591_time_t
     \<Rightarrow> 8 word \<Rightarrow> sensor_gain_calibration_status_t \<Rightarrow> sensor_state
     \<Rightarrow> (osStatus_t + c_float \<times> c_float) \<times> sensor_state" where
  "sensor_gain_calibration_loop env k gain_low gain_high t led_brightness callback_status st =
     (if gain_value gain_low \<ge> gain_value gain_high then (Inl osErrorParameter, st)
      else if \<not> gain_status_callback env callback_status 0 then (Inl osError, st)
      else
        case sensor_set_config env gain_high t st of (ret, st) \<Rightarrow>
        if ret \<noteq> osOK then (Inl ret, st) else
        case sensor_get_next_reading st of (ret, discard_reading, st) \<Rightarrow>
        if ret \<noteq> osOK then (Inl ret, st) else
        let st = sensor_set_light_mode SENSOR_LIGHT_TRANSMISSION True led_brightness st in
        case sensor_get_next_reading st of (ret, discard_reading, st) \<Rightarrow>
        if ret \<noteq> osOK then (Inl ret, st) else
        case sensor_raw_read_loop k 5 st of (high, st) \<Rightarrow>
        (case high of
           Inl ret \<Rightarrow> (Inl ret, st)
         | Inr (ch0_avg_high, ch1_avg_high) \<Rightarrow>
            (let st = sensor_set_light_mode SENSOR_LIGHT_OFF False 0 st in
             if \<not> sensor_gain_calibration_cooldown env then (Inl osError, st)
             else if \<not> gain_status_callback env callback_status 1 then (Inl osError, st)
             else
               case sensor_set_config env gain_low t st of (ret, st) \<Rightarrow>
               if ret \<noteq> osOK then (Inl ret, st) else
               case sensor_get_next_reading st of (ret, discard_reading, st) \<Rightarrow>
               if ret \<noteq> osOK then (Inl ret, st) else
               let st = sensor_set_light_mode SENSOR_LIGHT_TRANSMISSION True led_brightness st in
               case sensor_get_next_reading st of (ret, discard_reading, st) \<Rightarrow>
               if ret \<noteq> osOK then (Inl ret, st) else
               case sensor_raw_read_loop k 5 st of (low, st) \<Rightarrow>
               (case low of
                  Inl ret \<Rightarrow> (Inl ret, st)
                | Inr (ch0_avg_low, ch1_avg_low) \<Rightarrow>
                   (let st = sensor_set_light_mode SENSOR_LIGHT_OFF False 0 st
                    in (Inr (gain_ratio ch0_avg_high ch0_avg_low,
                             gain_ratio ch1_avg_high ch1_avg_low), st))))))"


subsection \<open>The brightness search\<close>

text \<open>
  How the \<^verbatim>\<open>while (i != end_brightness)\<close> loop of \<^verbatim>\<open>sensor_find_gain_brightness\<close>
  ends: it is left, by \<^verbatim>\<open>break\<close> or by its condition, with a status and the closest
  brightness found, or the function returns from inside it.
\<close>

datatype brightness_scan = Scan_Left osStatus_t "8 word" | Scan_Returned osStatus_t

function find_brightness_loop ::
  "sensor_env \<Rightarrow> tsl2591_saturation \<Rightarrow> bool \<Rightarrow> c_float \<Rightarrow> 8 word \<Rightarrow> 8 word \<Rightarrow> 8 word \<Rightarrow> c_float
     \<Rightarrow> sensor_state \<Rightarrow> brightness_scan \<times> sensor_state" where
  "find_brightness_loop env k count_upward target_ch0 end_brightness i closest_led closest_ch0 st =
     (if i = end_brightness then (Scan_Left osOK closest_led, st)
      else
        let st = sensor_set_light_mode SENSOR_LIGHT_TRANSMISSION True i st in
        case sensor_get_next_reading st of (ret, discard_reading, st) \<Rightarrow>
        if ret \<noteq> osOK then (Scan_Left ret closest_led, st) else
        case sensor_get_next_reading st of (ret, discard_reading, st) \<Rightarrow>
        if ret \<noteq> osOK then (Scan_Left ret closest_led, st) else
        case sensor_raw_read_loop k 2 st of (avg, st) \<Rightarrow>
        (case avg of
           Inl ret \<Rightarrow> (Scan_Left ret closest_led, st)
         | Inr (ch0_avg, ch1_avg) \<Rightarrow>
            (if count_upward then
               (if isnanf ch0_avg then (Scan_Left osOK closest_led, st)
                else if closest_led = 0 then
                  (let st = sensor_set_light_mode SENSOR_LIGHT_OFF False 0 st in
                   if \<not> gain_status_callback env SENSOR_GAIN_CALIBRATION_STATUS_LED (uint (i + 1))
                   then (Scan_Returned osError, st)
                   else find_brightness_loop env k count_upward target_ch0 end_brightness
                          (i + 1) i ch0_avg st)
                else if flt (fabsf (fsub target_ch0 ch0_avg)) (fabsf (fsub target_ch0 closest_ch0))
                then
                  (let st = sensor_set_light_mode SENSOR_LIGHT_OFF False 0 st in
                   if \<not> gain_status_callback env SENSOR_GAIN_CALIBRATION_STATUS_LED (uint (i + 1))
                   then (Scan_Returned osError, st)
                   else find_brightness_loop env k count_upward target_ch0 end_brightness
                          (i + 1) i ch0_avg st)
                else (Scan_Left osOK closest_led, st))
             else
               (if \<not> isnanf ch0_avg \<and> fle ch0_avg target_ch0 then (Scan_Left osOK i, st)
                else
                  (let st = sensor_set_light_mode SENSOR_LIGHT_OFF False 0 st in
                   if \<not> gain_status_callback env SENSOR_GAIN_CALIBRATION_STATUS_LED (uint (i - 1))
                   then (Scan_Returned osError, st)
                   else find_brightness_loop env k count_upward target_ch0 end_brightness
                          (i - 1) closest_led closest_ch0 st)))))"
  by pat_completeness auto

termination
proof (relation "measure (\<lambda>(env, k, up, target, e, i, cl, cc, st).
                    if up then unat (e - i) else unat (i - e))", goal_cases)
  case 1
  show ?case by simp
next
  case (2 env k up target e i)
  have "unat (e - i - 1) < unat (e - i)"
    using 2(1) by (simp add: unat_minus_one unat_gt_0)
  moreover have "e - (i + 1) = e - i - 1" by simp
  ultimately have "unat (e - (i + 1)) < unat (e - i)" by (simp only:)
  thus ?case using 2 by simp
next
  case (3 env k up target e i)
  have "unat (e - i - 1) < unat (e - i)"
    using 3(1) by (simp add: unat_minus_one unat_gt_0)
  moreover have "e - (i + 1) = e - i - 1" by simp
  ultimately have "unat (e - (i + 1)) < unat (e - i)" by (simp only:)
  thus ?case using 3 by simp
next
  case (4 env k up target e i)
  have "unat (i - e - 1) < unat (i - e)"
    using 4(1) by (simp add: unat_minus_one unat_gt_0)
  moreover have "i - 1 - e = i - e - 1" by simp
  ultimately have "unat (i - 1 - e) < unat (i - e)" by (simp only:)
  thus ?case using 4 by simp
qed

declare find_brightness_loop.simps [simp del]


text \<open>
  \<^verbatim>\<open>sensor_find_gain_brightness\<close>: \<open>Inr\<close> holds the brightness it stores when it returns
  \<^verbatim>\<open>osOK\<close>. The LED is switched off after the loop, except where the function returns
  from inside it.
\<close>

definition sensor_find_gain_brightness ::
  "sensor_env \<Rightarrow> tsl2591_saturation \<Rightarrow> tsl2591_gain_t \<Rightarrow> tsl2591_time_t \<Rightarrow> 8 word \<Rightarrow> 8 word
     \<Rightarrow> c_float \<Rightarrow> sensor_state \<Rightarrow> (osStatus_t + 8 word) \<times> sensor_state" where
  "sensor_find_gain_brightness env k g t start_brightness end_brightness target_factor st =
     (if start_brightness = 0 \<or> start_brightness = end_brightness
         \<or> isnanf target_factor \<or> flt target_factor (Fin float_0_1F) \<or> fgt target_factor (Fin 1)
      then (Inl osErrorParameter, st)
      else
        let target_ch0 =
              (if t = TSL2591_TIME_100MS
               then fmul (float_of_u16 (TSL2591_ANALOG_SATURATION k)) target_factor
               else fmul (float_of_u16 (TSL2591_DIGITAL_SATURATION k)) target_factor);
            count_upward = (start_brightness < end_brightness)
        in
        if \<not> gain_status_callback env SENSOR_GAIN_CALIBRATION_STATUS_LED 0
        then (Inl osError, st)
        else
          case sensor_set_config env g t st of (ret, st) \<Rightarrow>
          if ret \<noteq> osOK
          then (Inl ret, sensor_set_light_mode SENSOR_LIGHT_OFF False 0 st) else
          case sensor_get_next_reading st of (ret, discard_reading, st) \<Rightarrow>
          if ret \<noteq> osOK
          then (Inl ret, sensor_set_light_mode SENSOR_LIGHT_OFF False 0 st) else
          if \<not> gain_status_callback env SENSOR_GAIN_CALIBRATION_STATUS_LED
                 (uint start_brightness)
          then (Inl osError, st)
          else
            case find_brightness_loop env k count_upward target_ch0 end_brightness
                   start_brightness 0 NaN st of (scan, st) \<Rightarrow>
            (case scan of
               Scan_Returned ret \<Rightarrow> (Inl ret, st)
             | Scan_Left ret closest_led \<Rightarrow>
                (let st = sensor_set_light_mode SENSOR_LIGHT_OFF False 0 st
                 in if ret = osOK then (Inr closest_led, st) else (Inl ret, st))))"

text \<open>
  The range check that follows each gain measurement in \<^verbatim>\<open>sensor_gain_calibration\<close>:
  \<^verbatim>\<open>if (g < MIN || g > MAX) { g = TYP; }\<close>.
\<close>

definition replace_out_of_range :: "c_float \<Rightarrow> real \<Rightarrow> real \<Rightarrow> real \<Rightarrow> c_float" where
  "replace_out_of_range g lo hi typ = (if flt g (Fin lo) \<or> fgt g (Fin hi) then Fin typ else g)"

text \<open>
  The \<^verbatim>\<open>do { ... } while (0)\<close> block of \<^verbatim>\<open>sensor_gain_calibration\<close>. It gives the values
  the block leaves in \<^verbatim>\<open>ret\<close>, in \<^verbatim>\<open>measurement_led_brightness\<close> and in the six gain
  variables, which start as NaN.
\<close>

definition gain_calibration_block ::
  "sensor_env \<Rightarrow> tsl2591_saturation \<Rightarrow> tsl2591_gain_limits \<Rightarrow> sensor_state
     \<Rightarrow> (osStatus_t \<times> 8 word \<times> settings_cal_gain_t) \<times> sensor_state" where
  "gain_calibration_block env k limits st =
     (let g = \<lparr>ch0_medium = NaN, ch1_medium = NaN, ch0_high = NaN, ch1_high = NaN,
                ch0_maximum = NaN, ch1_maximum = NaN\<rparr> in
      case sensor_set_config env TSL2591_GAIN_MAXIMUM TSL2591_TIME_100MS st of (ret, st) \<Rightarrow>
      if ret \<noteq> osOK then ((ret, 0, g), st) else
      case sensor_start env st of (ret, st) \<Rightarrow>
      if ret \<noteq> osOK then ((ret, 0, g), st) else
      case sensor_find_gain_brightness env k TSL2591_GAIN_HIGH TSL2591_TIME_200MS 128 64
             LIGHT_CAL_CH0_TARGET_FACTOR st of (found, st) \<Rightarrow>
      (case found of
         Inl ret \<Rightarrow> ((ret, 0, g), st)
       | Inr measurement_led_brightness \<Rightarrow>
          (if measurement_led_brightness = 0 then ((osOK, measurement_led_brightness, g), st)
           else if \<not> sensor_gain_calibration_cooldown env
           then ((osError, measurement_led_brightness, g), st)
           else
             case sensor_gain_calibration_loop env k TSL2591_GAIN_LOW TSL2591_GAIN_MEDIUM
                    TSL2591_TIME_600MS 128 SENSOR_GAIN_CALIBRATION_STATUS_MEDIUM st
             of (med, st) \<Rightarrow>
             (case med of
                Inl ret \<Rightarrow> ((ret, measurement_led_brightness, g), st)
              | Inr (gain_med_ch0, gain_med_ch1) \<Rightarrow>
                 (let gain_med_ch0 = replace_out_of_range gain_med_ch0
                        (TSL2591_GAIN_MEDIUM_MIN limits) (TSL2591_GAIN_MEDIUM_MAX limits)
                        (TSL2591_GAIN_MEDIUM_TYP limits);
                      gain_med_ch1 = replace_out_of_range gain_med_ch1
                        (TSL2591_GAIN_MEDIUM_MIN limits) (TSL2591_GAIN_MEDIUM_MAX limits)
                        (TSL2591_GAIN_MEDIUM_TYP limits);
                      g = g\<lparr>ch0_medium := gain_med_ch0, ch1_medium := gain_med_ch1\<rparr>
                  in
                  if \<not> sensor_gain_calibration_cooldown env
                  then ((osError, measurement_led_brightness, g), st)
                  else
                    case sensor_gain_calibration_loop env k TSL2591_GAIN_MEDIUM
                           TSL2591_GAIN_HIGH TSL2591_TIME_200MS measurement_led_brightness
                           SENSOR_GAIN_CALIBRATION_STATUS_HIGH st
                    of (high, st) \<Rightarrow>
                    (case high of
                       Inl ret \<Rightarrow> ((ret, measurement_led_brightness, g), st)
                     | Inr (gain_high_ch0, gain_high_ch1) \<Rightarrow>
                        (let gain_high_ch0 = fmul gain_high_ch0 gain_med_ch0;
                             gain_high_ch1 = fmul gain_high_ch1 gain_med_ch1;
                             gain_high_ch0 = replace_out_of_range gain_high_ch0
                               (TSL2591_GAIN_HIGH_MIN limits) (TSL2591_GAIN_HIGH_MAX limits)
                               (TSL2591_GAIN_HIGH_TYP limits);
                             gain_high_ch1 = replace_out_of_range gain_high_ch1
                               (TSL2591_GAIN_HIGH_MIN limits) (TSL2591_GAIN_HIGH_MAX limits)
                               (TSL2591_GAIN_HIGH_TYP limits);
                             g = g\<lparr>ch0_high := gain_high_ch0, ch1_high := gain_high_ch1\<rparr>
                         in
                         if \<not> sensor_gain_calibration_cooldown env
                         then ((osError, measurement_led_brightness, g), st)
                         else
                           case sensor_find_gain_brightness env k TSL2591_GAIN_MAXIMUM
                                  TSL2591_TIME_200MS 4 16 GAIN_CAL_CH0_TARGET_FACTOR st
                           of (found, st) \<Rightarrow>
                           (case found of
                              Inl ret \<Rightarrow> ((ret, measurement_led_brightness, g), st)
                            | Inr max_gain_led_brightness \<Rightarrow>
                               (if max_gain_led_brightness = 0
                                then ((osOK, measurement_led_brightness, g), st)
                                else if \<not> sensor_gain_calibration_cooldown env
                                then ((osError, measurement_led_brightness, g), st)
                                else
                                  case sensor_gain_calibration_loop env k TSL2591_GAIN_HIGH
                                         TSL2591_GAIN_MAXIMUM TSL2591_TIME_200MS
                                         max_gain_led_brightness
                                         SENSOR_GAIN_CALIBRATION_STATUS_MAXIMUM st
                                  of (mx, st) \<Rightarrow>
                                  (case mx of
                                     Inl ret \<Rightarrow> ((ret, measurement_led_brightness, g), st)
                                   | Inr (gain_max_ch0, gain_max_ch1) \<Rightarrow>
                                      (let gain_max_ch0 = fmul gain_max_ch0 gain_high_ch0;
                                           gain_max_ch1 = fmul gain_max_ch1 gain_high_ch1;
                                           gain_max_ch0 = replace_out_of_range gain_max_ch0
                                             (TSL2591_GAIN_MAXIMUM_CH0_MIN limits)
                                             (TSL2591_GAIN_MAXIMUM_CH0_MAX limits)
                                             (TSL2591_GAIN_MAXIMUM_CH0_TYP limits);
                                           gain_max_ch1 = replace_out_of_range gain_max_ch1
                                             (TSL2591_GAIN_MAXIMUM_CH1_MIN limits)
                                             (TSL2591_GAIN_MAXIMUM_CH1_MAX limits)
                                             (TSL2591_GAIN_MAXIMUM_CH1_TYP limits);
                                           g = g\<lparr>ch0_maximum := gain_max_ch0,
                                                  ch1_maximum := gain_max_ch1\<rparr>
                                       in ((osOK, measurement_led_brightness, g), st))))))))))))"

text \<open>
  \<^verbatim>\<open>sensor_gain_calibration\<close>: the status it returns and the state it leaves. The two
  tables are handed to the settings store only when the status is \<^verbatim>\<open>osOK\<close>. The
  delays, the log output and the unused result of \<^verbatim>\<open>settings_get_cal_light\<close> at the start
  have no part in the state and are left out.
\<close>

definition sensor_gain_calibration ::
  "sensor_env \<Rightarrow> tsl2591_saturation \<Rightarrow> tsl2591_gain_limits \<Rightarrow> sensor_state
     \<Rightarrow> osStatus_t \<times> sensor_state" where
  "sensor_gain_calibration env k limits st =
     (if \<not> gain_status_callback env SENSOR_GAIN_CALIBRATION_STATUS_INIT 0 then (osError, st)
      else
        let st = sensor_set_light_mode SENSOR_LIGHT_OFF False 0 st in
        case gain_calibration_block env k limits st of
          ((ret, measurement_led_brightness, g), st) \<Rightarrow>
        let ret =
              (if ret = osOK
               then (if \<not> gain_status_callback env SENSOR_GAIN_CALIBRATION_STATUS_DONE 0
                     then osError else ret)
               else (if \<not> gain_status_callback env SENSOR_GAIN_CALIBRATION_STATUS_FAILED 0
                     then osError else ret));
            st = sensor_stop st;
            st = sensor_set_light_mode SENSOR_LIGHT_OFF False 0 st
        in
        if ret = osOK
        then
          let cal_light = \<lparr>reflection = 128, transmission = measurement_led_brightness\<rparr>;
              st = snd (settings_set_cal_light env cal_light st);
              st = snd (settings_set_cal_gain env g st)
          in (ret, st)
        else (ret, st))"

subsection \<open>Slope correction\<close>

text \<open>
  \<^verbatim>\<open>sensor_apply_slope_calibration\<close>. What \<^verbatim>\<open>settings_get_cal_slope\<close> returns, the
  validity flag and the coefficients, is a parameter.
\<close>

definition sensor_apply_slope_calibration ::
  "bool \<times> settings_cal_slope_t \<Rightarrow> c_float \<Rightarrow> c_float" where
  "sensor_apply_slope_calibration stored basic_reading =
     (let (valid, cal_slope) = stored in
      if isnanf basic_reading \<or> isinff basic_reading \<or> fle basic_reading (Fin 0)
      then basic_reading
      else if \<not> valid then basic_reading
      else
        let l_reading = log10f basic_reading;
            l_expected = fadd (fadd (b0 cal_slope) (fmul (b1 cal_slope) l_reading))
                              (fmul (b2 cal_slope) (powf l_reading (Fin 2)));
            corr_reading = powf (Fin 10) l_expected
        in corr_reading)"

section \<open>The calibration curve fit (slopecalibrationdialog.cpp)\<close>

text \<open>
  The table of the dialog: a list of rows of two cells, density and raw reading. A cell
  is what \<^verbatim>\<open>QString::toFloat\<close> makes of its text: \<open>None\<close> when the cell has no item or its
  text is not a number. The constructor makes 22 rows; the functions below take the
  row count from the table.
\<close>

type_synonym table_cell = "c_float option"

type_synonym table_model = "(table_cell \<times> table_cell) list"

definition itemValueAsFloat :: "table_model \<Rightarrow> nat \<Rightarrow> nat \<Rightarrow> c_float" where
  "itemValueAsFloat model row col =
     (if row < length model
      then (case (if col = 0 then fst (model ! row) else snd (model ! row)) of
              Some v \<Rightarrow> v
            | None \<Rightarrow> NaN)
      else NaN)"

text \<open>
  The \<^verbatim>\<open>for\<close> loop of \<^verbatim>\<open>onCalculateResults\<close> from row \<open>row\<close> on, with the two lists and
  the base measurement collected so far.
\<close>

function calculate_rows ::
  "table_model \<Rightarrow> nat \<Rightarrow> c_float list \<Rightarrow> c_float list \<Rightarrow> c_float
     \<Rightarrow> c_float list \<times> c_float list" where
  "calculate_rows model row xList yList base_measurement =
     (if row < length model then
        let density = itemValueAsFloat model row 0;
            measurement = itemValueAsFloat model row 1
        in if isnanf density \<or> isnanf measurement then (xList, yList)
           else if row = 0 then
             (if flt density (Fin 0) \<or> fgt density (Fin float_0_001F) then (xList, yList)
              else
                let x = log10f measurement
                in calculate_rows model (row + 1) (xList @ [x]) (yList @ [x]) measurement)
           else
             let x = log10f measurement;
                 y = log10f (fdiv base_measurement (powf (Fin 10) density))
             in calculate_rows model (row + 1) (xList @ [x]) (yList @ [y]) base_measurement
      else (xList, yList))"
  by pat_completeness auto

termination
  by (relation "measure (\<lambda>(model, row, xList, yList, base). length model - row)") auto

declare calculate_rows.simps [simp del]

text \<open>
  \<^verbatim>\<open>gaussEliminationLS(m, n, a, x)\<close> on a matrix of \<open>m\<close> rows of length \<open>n\<close>: for each
  column, the rows below the diagonal are swapped in when their entry is larger in
  magnitude, then eliminated; then back-substitution. The array \<open>x\<close> is not
  initialised in the source, and no entry of it is read before it is written.
\<close>

definition pivot_rows :: "nat \<Rightarrow> nat \<Rightarrow> c_float list list \<Rightarrow> c_float list list" where
  "pivot_rows m i a =
     foldl (\<lambda>a k. if flt (fabsf (a ! i ! i)) (fabsf (a ! k ! i))
                   then a[i := a ! k, k := a ! i] else a)
       a [i + 1 ..< m]"

definition eliminate_rows :: "nat \<Rightarrow> nat \<Rightarrow> nat \<Rightarrow> c_float list list \<Rightarrow> c_float list list" where
  "eliminate_rows m n i a =
     foldl (\<lambda>a k. let term = fdiv (a ! k ! i) (a ! i ! i)
                   in a[k := map (\<lambda>j. fsub (a ! k ! j) (fmul term (a ! i ! j))) [0 ..< n]])
       a [i + 1 ..< m]"

definition back_substitute :: "nat \<Rightarrow> nat \<Rightarrow> c_float list list \<Rightarrow> c_float list" where
  "back_substitute m n a =
     foldl (\<lambda>x i. x[i := fdiv (foldl (\<lambda>xi j. fsub xi (fmul (a ! i ! j) (x ! j)))
                                  (a ! i ! (n - 1)) [i + 1 ..< n - 1])
                            (a ! i ! i)])
       (replicate m NaN) (rev [0 ..< m])"

definition gaussEliminationLS :: "nat \<Rightarrow> nat \<Rightarrow> c_float list list \<Rightarrow> c_float list" where
  "gaussEliminationLS m n a =
     back_substitute m n
       (foldl (\<lambda>a i. eliminate_rows m n i (pivot_rows m i a)) a [0 ..< m - 1])"

text \<open>
  \<^verbatim>\<open>polyfit\<close> for degree 2: the sums of powers \<open>X\<close>, the right-hand sides \<open>Y\<close>, the
  augmented normal matrix \<open>B\<close> and its solution. \<^verbatim>\<open>std::pow(x, i)\<close> with an integer
  \<open>i\<close> is \<^verbatim>\<open>pow\<close> at the exponent converted to \<^verbatim>\<open>double\<close>.
\<close>

definition polyfit :: "c_float list \<Rightarrow> c_float list \<Rightarrow> c_float \<times> c_float \<times> c_float" where
  "polyfit xList yList =
     (if xList = [] \<or> length xList \<noteq> length yList then (NaN, NaN, NaN)
      else
        let X = map (\<lambda>i. foldl (\<lambda>acc x. fadd acc (powf x (Fin (real i)))) (Fin 0) xList)
                  [0 ..< 5];
            Y = map (\<lambda>i. foldl (\<lambda>acc (x, y). fadd acc (fmul (powf x (Fin (real i))) y))
                        (Fin 0) (zip xList yList))
                  [0 ..< 3];
            B = map (\<lambda>i. map (\<lambda>j. X ! (i + j)) [0 ..< 3] @ [Y ! i]) [0 ..< 3];
            A = gaussEliminationLS 3 4 B
        in (A ! 0, A ! 1, A ! 2))"

text \<open>
  The state of the dialog that \<^verbatim>\<open>onCalculateResults\<close> writes: the member
  \<^verbatim>\<open>calValues_\<close>, the numbers shown in the three line edits (their formatting as text
  is left out; \<open>None\<close> while nothing was written) and whether the Ok button is enabled.
\<close>

record slope_dialog =
  calValues :: "c_float \<times> c_float \<times> c_float"
  lineEdits :: "(c_float \<times> c_float \<times> c_float) option"
  okEnabled :: bool

definition onCalculateResults :: "table_model \<Rightarrow> slope_dialog \<Rightarrow> slope_dialog" where
  "onCalculateResults model d =
     (let (xList, yList) = calculate_rows model 0 [] [] NaN
      in if length xList < 5 then d
         else
           let beta = polyfit xList yList
           in d\<lparr>calValues := beta, lineEdits := Some beta, okEnabled := True\<rparr>)"

text \<open>
  The rows the specification lets the fit use: the longest prefix of the table in which
  both the density and the reading are present.
\<close>

definition spec_usable_rows :: "table_model \<Rightarrow> (c_float \<times> c_float) list" where
  "spec_usable_rows model =
     takeWhile (\<lambda>(density, reading). \<not> isnanf density \<and> \<not> isnanf reading)
       (map (\<lambda>(c0, c1). (case c0 of Some v \<Rightarrow> v | None \<Rightarrow> NaN,
                          case c1 of Some v \<Rightarrow> v | None \<Rightarrow> NaN)) model)"

text \<open>The two values of every row, as \<^verbatim>\<open>itemValueAsFloat\<close> reads them.\<close>

definition row_values :: "table_model \<Rightarrow> (c_float \<times> c_float) list" where
  "row_values model =
     map (\<lambda>(c0, c1). (case c0 of Some v \<Rightarrow> v | None \<Rightarrow> NaN,
                        case c1 of Some v \<Rightarrow> v | None \<Rightarrow> NaN)) model"

subsection \<open>What a least-squares fit is\<close>

text \<open>
  The notions in which the result of \<^verbatim>\<open>polyfit\<close> is stated, for data that are numbers:
  the sums of powers of the x-values and of their products with the y-values, the
  determinant of the normal matrix, and the sum of the squared residuals of a quadratic
  with coefficients \<open>c0\<close>, \<open>c1\<close>, \<open>c2\<close>.
\<close>

definition spec_power_sum :: "nat \<Rightarrow> real list \<Rightarrow> real" where
  "spec_power_sum k xs = (\<Sum>x\<leftarrow>xs. x ^ k)"

definition spec_moment_sum :: "nat \<Rightarrow> (real \<times> real) list \<Rightarrow> real" where
  "spec_moment_sum k ps = (\<Sum>(x, y)\<leftarrow>ps. x ^ k * y)"

definition spec_normal_det :: "real list \<Rightarrow> real" where
  "spec_normal_det xs =
     (let S = (\<lambda>k. spec_power_sum k xs)
      in S 0 * (S 2 * S 4 - S 3 * S 3) - S 1 * (S 1 * S 4 - S 3 * S 2)
         + S 2 * (S 1 * S 3 - S 2 * S 2))"

definition spec_squared_error :: "real \<Rightarrow> real \<Rightarrow> real \<Rightarrow> (real \<times> real) list \<Rightarrow> real" where
  "spec_squared_error c0 c1 c2 ps = (\<Sum>(x, y)\<leftarrow>ps. (c0 + c1 * x + c2 * x\<^sup>2 - y)\<^sup>2)"

text \<open>
  A row of the augmented 3 by 4 matrix whose entries are numbers: one linear equation in
  three unknowns. \<open>frow\<close> is the row as the code holds it, \<open>eqn_minus t p q\<close> the row
  \<open>q - t * p\<close> that an elimination step writes, \<open>det3\<close> the determinant of the
  coefficients of three rows.
\<close>

datatype equation3 = Eqn (k0: real) (k1: real) (k2: real) (kr: real)

definition frow :: "equation3 \<Rightarrow> c_float list" where
  "frow e = [Fin (k0 e), Fin (k1 e), Fin (k2 e), Fin (kr e)]"

definition eqn_minus :: "real \<Rightarrow> equation3 \<Rightarrow> equation3 \<Rightarrow> equation3" where
  "eqn_minus t p q =
     Eqn (k0 q - t * k0 p) (k1 q - t * k1 p) (k2 q - t * k2 p) (kr q - t * kr p)"

definition det3 :: "equation3 \<Rightarrow> equation3 \<Rightarrow> equation3 \<Rightarrow> real" where
  "det3 p q r =
     k0 p * (k1 q * k2 r - k2 q * k1 r) - k1 p * (k0 q * k2 r - k2 q * k0 r)
     + k2 p * (k0 q * k1 r - k1 q * k0 r)"

definition solves :: "real \<Rightarrow> real \<Rightarrow> real \<Rightarrow> equation3 \<Rightarrow> bool" where
  "solves x0 x1 x2 e = (k0 e * x0 + k1 e * x1 + k2 e * x2 = kr e)"


section \<open>Facts about the float operations\<close>

lemma flt_fabsf: "flt (fabsf v) (Fin c) \<Longrightarrow> flt v (Fin c)"
  by (cases v) auto

lemma fmul_minus_one: "fmul (Fin (- 1)) x = fneg x"
  by (cases x) (simp_all add: signed_inf_def)

lemma in_range_iff:
  "\<not> isnanf x \<Longrightarrow> (flt x (Fin a) \<or> fgt x (Fin b)) \<longleftrightarrow> \<not> (fle (Fin a) x \<and> fle x (Fin b))"
  by (cases x) (auto simp: fgt_def)

lemma log10_less: "0 < a \<Longrightarrow> a < b \<Longrightarrow> log 10 a < log 10 b"
  by (subst log_less_cancel_iff) simp_all

lemma log10f_fdiv_pos:
  assumes "0 < a" "0 < b"
  shows "log10f (fdiv (Fin a) (Fin b)) = Fin (log 10 (a / b))"
proof -
  have "0 < a / b" using assms by simp
  hence "\<not> a / b < 0" "a / b \<noteq> 0" by linarith+
  thus ?thesis using assms by simp
qed





lemma log10_thousandth: "log 10 (1 / 1000) = - 3"
proof -
  have e: "(1::real) / 1000 = 10 powr (- 3)"
    by (simp add: powr_minus)
  show ?thesis unfolding e by simp
qed

lemma log10_power_of_ten: "log 10 (10 ^ n) = real n"
  by (rule log_pow_cancel) simp_all

lemma log10_of_powers:
  "log 10 1000000 = 6" "log 10 100000 = 5" "log 10 10000 = 4" "log 10 1000 = 3"
  "log 10 100 = 2"
  using log10_power_of_ten[of 6] log10_power_of_ten[of 5] log10_power_of_ten[of 4]
    log10_power_of_ten[of 3] log10_power_of_ten[of 2]
  by simp_all

lemma powf_square: "powf (Fin l) (Fin 2) = Fin (l\<^sup>2)"
proof -
  have i2: "is_integral 2" "\<not> is_odd_integral 2"
    by (simp_all add: is_integral_def is_odd_integral_def)
  consider "0 < l" | "l = 0" | "l < 0" by linarith
  thus ?thesis
  proof cases
    case 1 thus ?thesis by simp
  next
    case 2 thus ?thesis by simp
  next
    case 3
    hence "\<bar>l\<bar> powr 2 = l\<^sup>2" by simp
    thus ?thesis using 3 i2 by simp
  qed
qed

lemma powf_ten: "powf (Fin 10) (Fin y) = Fin (10 powr y)"
  by simp

lemma neg_power_split:
  fixes a :: real
  assumes "a < 0"
  shows "a ^ n = (if odd n then - (\<bar>a\<bar> ^ n) else \<bar>a\<bar> ^ n)"
proof -
  have abs: "\<bar>a\<bar> = - a" using assms by simp
  show ?thesis
  proof (cases "odd n")
    case True
    hence "(- (- a)) ^ n = - ((- a) ^ n)" by (rule power_minus_odd)
    thus ?thesis using True by (simp add: abs)
  next
    case False
    hence "(- (- a)) ^ n = (- a) ^ n" by simp
    thus ?thesis using False by (simp add: abs)
  qed
qed

lemma powf_nat_power: "powf (Fin a) (Fin (real n)) = Fin (a ^ n)"
proof (cases "n = 0")
  case True
  thus ?thesis by simp
next
  case False
  hence n: "0 < real n" "real n \<noteq> 0" by simp_all
  have int: "is_integral (real n)" by (simp add: is_integral_def)
  have odd: "is_odd_integral (real n) \<longleftrightarrow> odd n"
    by (simp add: is_odd_integral_def is_integral_def)
  consider "0 < a" | "a = 0" | "a < 0" by linarith
  thus ?thesis
  proof cases
    case 1
    thus ?thesis using n by (simp add: powr_realpow)
  next
    case 2
    thus ?thesis using n False by simp
  next
    case 3
    hence abs: "\<bar>a\<bar> powr real n = \<bar>a\<bar> ^ n" by (simp add: powr_realpow)
    have "powf (Fin a) (Fin (real n))
        = (if is_odd_integral (real n) then Fin (- (\<bar>a\<bar> powr real n))
           else Fin (\<bar>a\<bar> powr real n))"
      using 3 n int by simp
    also have "\<dots> = (if odd n then Fin (- (\<bar>a\<bar> ^ n)) else Fin (\<bar>a\<bar> ^ n))"
      by (simp only: odd abs)
    also have "\<dots> = Fin (a ^ n)"
      unfolding neg_power_split[OF 3, of n] by (rule if_distrib [symmetric])
    finally show ?thesis .
  qed
qed

section \<open>Reflection and transmission density\<close>

lemmas dens_defs =
  light_set_reflection_def light_set_transmission_def
  densitometer_reflection_get_last_reading_def densitometer_transmission_get_last_reading_def

lemmas calibrate_defs =
  densitometer_calibrate_reflection_lo_def densitometer_calibrate_reflection_hi_def
  densitometer_calibrate_transmission_zero_def densitometer_calibrate_transmission_hi_def




text \<open>
  Claim C2. With transmission calibration values such that \<open>zero_reading > 0\<close>,
  \<open>hi_density > 0\<close>, \<open>hi_reading > 0\<close> and \<open>hi_reading < zero_reading\<close> (as the C
  comparisons decide them), and a successful sensor read with measured value \<open>v\<close>, the
  measurement returns \<open>DENSITOMETER_OK\<close> and the stored density is
  \<open>(- log10 (v / zero_reading)) * (hi_density / (- log10 (hi_reading / zero_reading)))\<close>;
  when all the values are finite and \<open>v\<close> is positive, that is the real number the
  formula denotes.
\<close>

theorem C2_transmission_density:
  assumes zero: "cal_transmission_zero s = zero_r"
      and hi: "cal_transmission_hi s = (hi_d, hi_r)"
      and valid: "fgt zero_r (Fin 0)" "fgt hi_d (Fin 0)" "fgt hi_r (Fin 0)" "flt hi_r zero_r"
      and rd: "rd = (HAL_OK, ch0, ch1)"
      and v: "v = fsub ch0 (if fge ch1 ch0 then Fin 0 else ch1)"
      and r: "r = densitometer_transmission_measure lh rd s"
  shows "fst r = DENSITOMETER_OK
       \<and> densitometer_transmission_get_last_reading (snd r)
           = fmul (fneg (log10f (fdiv v zero_r)))
                  (fdiv hi_d (fneg (log10f (fdiv hi_r zero_r))))
       \<and> (\<forall>x z h d. v = Fin x \<and> 0 < x \<and> zero_r = Fin z \<and> hi_r = Fin h \<and> hi_d = Fin d \<longrightarrow>
             densitometer_transmission_get_last_reading (snd r)
               = Fin ((- log 10 (x / z)) * (d / (- log 10 (h / z)))))"
proof -
  have pass: "\<not> (fle zero_r (Fin 0) \<or> fle hi_d (Fin 0) \<or> fle hi_r (Fin 0) \<or> fge hi_r zero_r)"
    using valid
    by (cases zero_r; cases hi_d; cases hi_r) (simp_all add: fgt_def fge_def)
  have mv: "meas_value_of ch0 ch1 = v"
    by (simp add: meas_value_of_def v Let_def)
  have ok: "fst r = DENSITOMETER_OK"
    and d: "densitometer_transmission_get_last_reading (snd r)
           = fmul (fneg (log10f (fdiv v zero_r)))
                  (fdiv hi_d (fneg (log10f (fdiv hi_r zero_r))))"
    using pass
    by (simp_all add: r densitometer_transmission_measure_def zero hi rd mv dens_defs
        fmul_minus_one Let_def)
  have fin: "densitometer_transmission_get_last_reading (snd r)
               = Fin ((- log 10 (x / z)) * (d' / (- log 10 (h / z))))"
    if "v = Fin x" "0 < x" "zero_r = Fin z" "hi_r = Fin h" "hi_d = Fin d'" for x z h d'
  proof -
    have z: "0 < z" and h: "0 < h" "h < z"
      using valid that by (simp_all add: fgt_def)
    have "log 10 (h / z) < log 10 1"
      using z h by (intro log10_less) simp_all
    hence ne: "log 10 (h / z) \<noteq> 0" by simp
    have lx: "log10f (fdiv (Fin x) (Fin z)) = Fin (log 10 (x / z))"
      using that(2) z by (rule log10f_fdiv_pos)
    have lh: "log10f (fdiv (Fin h) (Fin z)) = Fin (log 10 (h / z))"
      using h(1) z by (rule log10f_fdiv_pos)
    show ?thesis
      unfolding d that lx lh using ne by simp
  qed
  show ?thesis using ok d fin by blast
qed

text \<open>
  Witness of C2, the scenario of the specification: zero = 1000000, hi = (3.00, 1000)
  and a live reading of 1000 give density 3.
\<close>

theorem C2_transmission_density_witness:
  "fst (densitometer_transmission_measure
          \<lparr>LIGHT_REFLECTION_IDLE = 8, LIGHT_TRANSMISSION_IDLE = 8\<rparr>
          (HAL_OK, Fin 1000, Fin 0)
          (densitometer_startup 8 8 (NaN, NaN) (NaN, NaN) (Fin 1000000) (Fin 3, Fin 1000)))
     = DENSITOMETER_OK
   \<and> densitometer_transmission_get_last_reading
        (snd (densitometer_transmission_measure
          \<lparr>LIGHT_REFLECTION_IDLE = 8, LIGHT_TRANSMISSION_IDLE = 8\<rparr>
          (HAL_OK, Fin 1000, Fin 0)
          (densitometer_startup 8 8 (NaN, NaN) (NaN, NaN) (Fin 1000000) (Fin 3, Fin 1000))))
     = Fin 3"
proof -
  let ?s = "densitometer_startup 8 8 (NaN, NaN) (NaN, NaN) (Fin 1000000) (Fin 3, Fin 1000)"
  let ?lh = "\<lparr>LIGHT_REFLECTION_IDLE = 8, LIGHT_TRANSMISSION_IDLE = 8\<rparr>"
  have v: "Fin 1000 = fsub (Fin 1000) (if fge (Fin 0) (Fin 1000) then Fin 0 else Fin 0)"
    by (simp add: fsub_def)
  have "cal_transmission_zero ?s = Fin 1000000" "cal_transmission_hi ?s = (Fin 3, Fin 1000)"
    by (simp_all add: densitometer_startup_def)
  from C2_transmission_density[OF this _ _ _ _ refl v refl, of ?lh]
  show ?thesis by (simp add: fgt_def log10_thousandth signed_inf_def)
qed

lemma reflection_measure_of_number:
  assumes lo: "cal_reflection_lo s = (Fin lo_d, Fin lo_r)"
      and hi: "cal_reflection_hi s = (Fin hi_d, Fin hi_r)"
      and dens: "0 \<le> lo_d" "lo_d < hi_d"
      and rdng: "0 < hi_r" "hi_r < lo_r"
      and v: "meas_value_of ch0 ch1 = Fin x" "0 < x"
  shows "densitometer_reflection_d (snd (densitometer_reflection_measure lh (HAL_OK, ch0, ch1) s))
       = Fin ((hi_d - lo_d) / (log 10 hi_r - log 10 lo_r) * (log 10 x - log 10 lo_r) + lo_d)"
proof -
  have pos: "0 < lo_r" using rdng by simp
  have ne: "log 10 hi_r - log 10 lo_r \<noteq> 0" using log10_less[OF rdng] by simp
  have pass: "\<not> (flt (Fin lo_d) (Fin 0) \<or> fle (Fin hi_d) (Fin lo_d)
            \<or> flt (Fin lo_r) (Fin 0) \<or> fge (Fin hi_r) (Fin lo_r))"
    using dens rdng by (simp add: fge_def)
  show ?thesis
    using pass rdng pos ne v
    by (simp add: densitometer_reflection_measure_def lo hi dens_defs fsub_def Let_def)
qed

text \<open>
  Beyond the claims: for fixed valid calibration points the reflection density does not
  increase when the measured value increases.
\<close>

theorem reflection_density_antitone:
  assumes lo: "cal_reflection_lo s = (Fin lo_d, Fin lo_r)"
      and hi: "cal_reflection_hi s = (Fin hi_d, Fin hi_r)"
      and dens: "0 \<le> lo_d" "lo_d < hi_d"
      and rdng: "0 < hi_r" "hi_r < lo_r"
      and x: "meas_value_of p0 p1 = Fin x" "0 < x"
      and y: "meas_value_of q0 q1 = Fin y" "x \<le> y"
  shows "fle (densitometer_reflection_get_last_reading
                (snd (densitometer_reflection_measure lh (HAL_OK, q0, q1) s)))
             (densitometer_reflection_get_last_reading
                (snd (densitometer_reflection_measure lh (HAL_OK, p0, p1) s)))"
proof -
  have ypos: "0 < y" using x(2) y(2) by simp
  have m: "(hi_d - lo_d) / (log 10 hi_r - log 10 lo_r) < 0"
    using dens log10_less[OF rdng] by (simp add: divide_pos_neg)
  have "log 10 x \<le> log 10 y"
    using x(2) y(2) by simp
  hence "(hi_d - lo_d) / (log 10 hi_r - log 10 lo_r) * (log 10 y - log 10 lo_r)
       \<le> (hi_d - lo_d) / (log 10 hi_r - log 10 lo_r) * (log 10 x - log 10 lo_r)"
    using m by (intro mult_left_mono_neg) simp_all
  thus ?thesis
    unfolding densitometer_reflection_get_last_reading_def
      reflection_measure_of_number[OF lo hi dens rdng x]
      reflection_measure_of_number[OF lo hi dens rdng y(1) ypos]
    by simp
qed

text \<open>
  Witness: with lo = (0, 500000) and hi = (2, 5000), the density at a measured value of
  50000 is at most the density at 5000.
\<close>

theorem reflection_density_antitone_witness:
  "fle (densitometer_reflection_get_last_reading
         (snd (densitometer_reflection_measure
            \<lparr>LIGHT_REFLECTION_IDLE = 8, LIGHT_TRANSMISSION_IDLE = 8\<rparr>
            (HAL_OK, Fin 60000, Fin 10000)
            (densitometer_startup 8 8 (Fin 0, Fin 500000) (Fin 2, Fin 5000) NaN (NaN, NaN)))))
       (densitometer_reflection_get_last_reading
         (snd (densitometer_reflection_measure
            \<lparr>LIGHT_REFLECTION_IDLE = 8, LIGHT_TRANSMISSION_IDLE = 8\<rparr>
            (HAL_OK, Fin 5000, Fin 0)
            (densitometer_startup 8 8 (Fin 0, Fin 500000) (Fin 2, Fin 5000) NaN (NaN, NaN)))))"
proof -
  let ?s = "densitometer_startup 8 8 (Fin 0, Fin 500000) (Fin 2, Fin 5000) NaN (NaN, NaN)"
  have c: "cal_reflection_lo ?s = (Fin 0, Fin 500000)" "cal_reflection_hi ?s = (Fin 2, Fin 5000)"
    by (simp_all add: densitometer_startup_def)
  have v: "meas_value_of (Fin 5000) (Fin 0) = Fin 5000"
          "meas_value_of (Fin 60000) (Fin 10000) = Fin 50000"
    by (simp_all add: meas_value_of_def fge_def fsub_def)
  show ?thesis
    by (rule reflection_density_antitone[OF c _ _ _ _ v(1) _ v(2)]) simp_all
qed

section \<open>The point-calibration helpers\<close>

text \<open>
  Claim C8, as amended. In each of the four point-calibration helpers, when the sensor
  read succeeds and the measured value has magnitude below the constant the code compares
  it with, \<^verbatim>\<open>0.01F\<close> = 5368709 / 536870912 (the claim as written says 0.01), the helper
  returns \<open>DENSITOMETER_CAL_ERROR\<close> (the claim as written says a sensor error) and no
  calibration value of the settings store changes.
\<close>

theorem C8_small_reading_rejected:
  assumes rd: "rd = (HAL_OK, ch0, ch1)"
      and v: "v = fsub ch0 (if fge ch1 ch0 then Fin 0 else ch1)"
      and small: "flt (fabsf v) (Fin float_0_01F)"
  shows "fst (densitometer_calibrate_reflection_lo lh d rd s) = DENSITOMETER_CAL_ERROR
       \<and> same_calibration s (snd (densitometer_calibrate_reflection_lo lh d rd s))
       \<and> fst (densitometer_calibrate_reflection_hi lh d rd s) = DENSITOMETER_CAL_ERROR
       \<and> same_calibration s (snd (densitometer_calibrate_reflection_hi lh d rd s))
       \<and> fst (densitometer_calibrate_transmission_zero lh rd s) = DENSITOMETER_CAL_ERROR
       \<and> same_calibration s (snd (densitometer_calibrate_transmission_zero lh rd s))
       \<and> fst (densitometer_calibrate_transmission_hi lh d rd s) = DENSITOMETER_CAL_ERROR
       \<and> same_calibration s (snd (densitometer_calibrate_transmission_hi lh d rd s))"
proof -
  have "flt v (Fin float_0_01F)"
    using small by (rule flt_fabsf)
  hence "flt (meas_value_of ch0 ch1) (Fin float_0_01F)"
    by (simp add: meas_value_of_def v Let_def)
  thus ?thesis
    by (simp add: calibrate_defs rd same_calibration_def dens_defs Let_def)
qed

text \<open>
  Witness of C8: a transmission CAL-HI calibration at density 3 that reads 0.005 is
  rejected and the stored pair (3, 1000) stays.
\<close>

theorem C8_small_reading_rejected_witness:
  "fst (densitometer_calibrate_transmission_hi
          \<lparr>LIGHT_REFLECTION_IDLE = 8, LIGHT_TRANSMISSION_IDLE = 8\<rparr> (Fin 3)
          (HAL_OK, Fin 0.005, Fin 0)
          (densitometer_startup 8 8 (NaN, NaN) (NaN, NaN) (Fin 1000000) (Fin 3, Fin 1000)))
     = DENSITOMETER_CAL_ERROR
   \<and> cal_transmission_hi (snd (densitometer_calibrate_transmission_hi
          \<lparr>LIGHT_REFLECTION_IDLE = 8, LIGHT_TRANSMISSION_IDLE = 8\<rparr> (Fin 3)
          (HAL_OK, Fin 0.005, Fin 0)
          (densitometer_startup 8 8 (NaN, NaN) (NaN, NaN) (Fin 1000000) (Fin 3, Fin 1000))))
     = (Fin 3, Fin 1000)"
proof -
  have v: "Fin 0.005 = fsub (Fin 0.005) (if fge (Fin 0) (Fin 0.005) then Fin 0 else Fin 0)"
    by (simp add: fsub_def)
  have "flt (fabsf (Fin 0.005)) (Fin float_0_01F)"
    by (simp add: float_0_01F_def)
  from C8_small_reading_rejected[OF refl v this]
  show ?thesis by (simp add: same_calibration_def densitometer_startup_def)
qed

text \<open>
  Counterexample to C8 as written. A reflection CAL-LO calibration at density 0 whose
  read succeeds with both channels at 0 has a measured value of 0, and the helper does
  not return \<open>DENSITOMETER_SENSOR_ERROR\<close>. And a measured value equal to the constant
  \<^verbatim>\<open>0.01F\<close>, whose magnitude is below 0.01, is not rejected: the helper returns
  \<open>DENSITOMETER_OK\<close> and stores the pair.
\<close>

theorem C8_small_reading_rejected_counterexample:
  "fst (densitometer_calibrate_reflection_lo
          \<lparr>LIGHT_REFLECTION_IDLE = 8, LIGHT_TRANSMISSION_IDLE = 8\<rparr> (Fin 0)
          (HAL_OK, Fin 0, Fin 0)
          (densitometer_startup 8 8 (NaN, NaN) (NaN, NaN) NaN (NaN, NaN)))
     \<noteq> DENSITOMETER_SENSOR_ERROR
   \<and> flt (fabsf (Fin (5368709 / 536870912))) (Fin 0.01)
   \<and> fst (densitometer_calibrate_reflection_lo
          \<lparr>LIGHT_REFLECTION_IDLE = 8, LIGHT_TRANSMISSION_IDLE = 8\<rparr> (Fin 0)
          (HAL_OK, Fin (5368709 / 536870912), Fin 0)
          (densitometer_startup 8 8 (NaN, NaN) (NaN, NaN) NaN (NaN, NaN)))
     = DENSITOMETER_OK
   \<and> cal_reflection_lo (snd (densitometer_calibrate_reflection_lo
          \<lparr>LIGHT_REFLECTION_IDLE = 8, LIGHT_TRANSMISSION_IDLE = 8\<rparr> (Fin 0)
          (HAL_OK, Fin (5368709 / 536870912), Fin 0)
          (densitometer_startup 8 8 (NaN, NaN) (NaN, NaN) NaN (NaN, NaN))))
     = (Fin 0, Fin (5368709 / 536870912))"
  by (simp add: calibrate_defs densitometer_startup_def meas_value_of_def fge_def fgt_def fsub_def
      dens_defs float_0_01F_def)

text \<open>
  Beyond the claims: the comparison with the threshold is strict in each of the four
  helpers. A measured value equal to \<^verbatim>\<open>0.01F\<close> is accepted: the helper returns
  \<open>DENSITOMETER_OK\<close>, stores the pair and leaves its light at the idle level.
\<close>

theorem calibrate_accepts_threshold_value:
  "densitometer_calibrate_reflection_lo lh (Fin 0) (HAL_OK, Fin (5368709 / 536870912), Fin 0) s
     = (DENSITOMETER_OK,
        s\<lparr>light_reflection := LIGHT_REFLECTION_IDLE lh, light_transmission := 0,
          cal_reflection_lo := (Fin 0, Fin (5368709 / 536870912))\<rparr>)
   \<and> densitometer_calibrate_reflection_hi lh (Fin 2) (HAL_OK, Fin (5368709 / 536870912), Fin 0) s
     = (DENSITOMETER_OK,
        s\<lparr>light_reflection := LIGHT_REFLECTION_IDLE lh, light_transmission := 0,
          cal_reflection_hi := (Fin 2, Fin (5368709 / 536870912))\<rparr>)
   \<and> densitometer_calibrate_transmission_zero lh (HAL_OK, Fin (5368709 / 536870912), Fin 0) s
     = (DENSITOMETER_OK,
        s\<lparr>light_reflection := 0, light_transmission := LIGHT_TRANSMISSION_IDLE lh,
          cal_transmission_zero := Fin (5368709 / 536870912)\<rparr>)
   \<and> densitometer_calibrate_transmission_hi lh (Fin 3) (HAL_OK, Fin (5368709 / 536870912), Fin 0) s
     = (DENSITOMETER_OK,
        s\<lparr>light_reflection := 0, light_transmission := LIGHT_TRANSMISSION_IDLE lh,
          cal_transmission_hi := (Fin 3, Fin (5368709 / 536870912))\<rparr>)"
  by (simp add: calibrate_defs meas_value_of_def fge_def fgt_def fsub_def dens_defs
      float_0_01F_def)

text \<open>
  Claim C9 fails on the code. Each helper switches its light to the reading level 128
  before the sensor read, and its exit for a measured value below 0.01 returns
  \<open>DENSITOMETER_CAL_ERROR\<close> without calling \<^verbatim>\<open>light_set_...\<close> again: the light that was
  switched on stays at 128, whatever the idle levels and the state before the call. The
  input is a sensor read that succeeds with both channels at 0.
\<close>

theorem C9_light_left_at_reading_level:
  "fst (densitometer_calibrate_reflection_lo lh (Fin 0) (HAL_OK, Fin 0, Fin 0) s)
     = DENSITOMETER_CAL_ERROR
   \<and> light_reflection (snd (densitometer_calibrate_reflection_lo lh (Fin 0)
        (HAL_OK, Fin 0, Fin 0) s)) = 128
   \<and> fst (densitometer_calibrate_reflection_hi lh (Fin 2) (HAL_OK, Fin 0, Fin 0) s)
     = DENSITOMETER_CAL_ERROR
   \<and> light_reflection (snd (densitometer_calibrate_reflection_hi lh (Fin 2)
        (HAL_OK, Fin 0, Fin 0) s)) = 128
   \<and> fst (densitometer_calibrate_transmission_zero lh (HAL_OK, Fin 0, Fin 0) s)
     = DENSITOMETER_CAL_ERROR
   \<and> light_transmission (snd (densitometer_calibrate_transmission_zero lh
        (HAL_OK, Fin 0, Fin 0) s)) = 128
   \<and> fst (densitometer_calibrate_transmission_hi lh (Fin 3) (HAL_OK, Fin 0, Fin 0) s)
     = DENSITOMETER_CAL_ERROR
   \<and> light_transmission (snd (densitometer_calibrate_transmission_hi lh (Fin 3)
        (HAL_OK, Fin 0, Fin 0) s)) = 128"
  by (simp add: calibrate_defs meas_value_of_def fge_def fgt_def fsub_def dens_defs
      float_0_01F_def)

text \<open>
  Beyond the claims: what the other exits do with the lights. A measurement or a helper
  that returns success or a sensor error has set its own light to the idle level; a
  measurement that returns a calibration error has touched neither light.
\<close>

theorem light_idle_after_reading:
  "(fst (densitometer_reflection_measure lh rd s) \<noteq> DENSITOMETER_CAL_ERROR \<longrightarrow>
      light_reflection (snd (densitometer_reflection_measure lh rd s)) = LIGHT_REFLECTION_IDLE lh)
   \<and> (fst (densitometer_reflection_measure lh rd s) = DENSITOMETER_CAL_ERROR \<longrightarrow>
      light_reflection (snd (densitometer_reflection_measure lh rd s)) = light_reflection s
      \<and> light_transmission (snd (densitometer_reflection_measure lh rd s)) = light_transmission s)
   \<and> (fst (densitometer_transmission_measure lh rd s) \<noteq> DENSITOMETER_CAL_ERROR \<longrightarrow>
      light_transmission (snd (densitometer_transmission_measure lh rd s))
        = LIGHT_TRANSMISSION_IDLE lh)
   \<and> (fst (densitometer_transmission_measure lh rd s) = DENSITOMETER_CAL_ERROR \<longrightarrow>
      light_reflection (snd (densitometer_transmission_measure lh rd s)) = light_reflection s
      \<and> light_transmission (snd (densitometer_transmission_measure lh rd s))
          = light_transmission s)
   \<and> (fst (densitometer_calibrate_reflection_lo lh d rd s) \<noteq> DENSITOMETER_CAL_ERROR \<longrightarrow>
      light_reflection (snd (densitometer_calibrate_reflection_lo lh d rd s))
        = LIGHT_REFLECTION_IDLE lh)
   \<and> (fst (densitometer_calibrate_reflection_hi lh d rd s) \<noteq> DENSITOMETER_CAL_ERROR \<longrightarrow>
      light_reflection (snd (densitometer_calibrate_reflection_hi lh d rd s))
        = LIGHT_REFLECTION_IDLE lh)
   \<and> (fst (densitometer_calibrate_transmission_zero lh rd s) \<noteq> DENSITOMETER_CAL_ERROR \<longrightarrow>
      light_transmission (snd (densitometer_calibrate_transmission_zero lh rd s))
        = LIGHT_TRANSMISSION_IDLE lh)
   \<and> (fst (densitometer_calibrate_transmission_hi lh d rd s) \<noteq> DENSITOMETER_CAL_ERROR \<longrightarrow>
      light_transmission (snd (densitometer_calibrate_transmission_hi lh d rd s))
        = LIGHT_TRANSMISSION_IDLE lh)"
  by (simp add: densitometer_reflection_measure_def densitometer_transmission_measure_def
      calibrate_defs dens_defs Let_def split: prod.split)

text \<open>
  Witness: a successful reflection measurement and a transmission zero calibration whose
  read times out both leave their light at the idle level, here 8.
\<close>

theorem light_idle_after_reading_witness:
  "light_reflection (snd (densitometer_reflection_measure
      \<lparr>LIGHT_REFLECTION_IDLE = 8, LIGHT_TRANSMISSION_IDLE = 8\<rparr>
      (HAL_OK, Fin 50000, Fin 0)
      (densitometer_startup 0 0 (Fin 0, Fin 500000) (Fin 2, Fin 5000) NaN (NaN, NaN)))) = 8
   \<and> light_transmission (snd (densitometer_calibrate_transmission_zero
      \<lparr>LIGHT_REFLECTION_IDLE = 8, LIGHT_TRANSMISSION_IDLE = 8\<rparr>
      (HAL_TIMEOUT, Fin 0, Fin 0)
      (densitometer_startup 0 0 (Fin 0, Fin 500000) (Fin 2, Fin 5000) NaN (NaN, NaN)))) = 8"
proof -
  let ?lh = "\<lparr>LIGHT_REFLECTION_IDLE = 8, LIGHT_TRANSMISSION_IDLE = 8\<rparr>"
  let ?s = "densitometer_startup 0 0 (Fin 0, Fin 500000) (Fin 2, Fin 5000) NaN (NaN, NaN)"
  have a: "fst (densitometer_reflection_measure ?lh (HAL_OK, Fin 50000, Fin 0) ?s)
             \<noteq> DENSITOMETER_CAL_ERROR"
    by (simp add: densitometer_reflection_measure_def densitometer_startup_def fge_def Let_def)
  have b: "fst (densitometer_calibrate_transmission_zero ?lh (HAL_TIMEOUT, Fin 0, Fin 0) ?s)
             \<noteq> DENSITOMETER_CAL_ERROR"
    by (simp add: densitometer_calibrate_transmission_zero_def Let_def)
  from light_idle_after_reading[of ?lh "(HAL_OK, Fin 50000, Fin 0)" ?s "Fin 0"]
       light_idle_after_reading[of ?lh "(HAL_TIMEOUT, Fin 0, Fin 0)" ?s "Fin 0"] a b
  show ?thesis by simp
qed

section \<open>The last readings\<close>

text \<open>
  Claim C10. Both last-reading variables are NaN at start-up. A reflection or
  transmission measurement that does not return \<open>DENSITOMETER_OK\<close> leaves both getters'
  values as they were; a measurement never changes the value of the other kind; and
  the point-calibration helpers change neither. So only a successful measurement
  updates its last reading.
\<close>

theorem C10_last_reading_frame:
  "densitometer_reflection_get_last_reading (densitometer_startup lr lt rlo rhi tz thi) = NaN
   \<and> densitometer_transmission_get_last_reading (densitometer_startup lr lt rlo rhi tz thi) = NaN
   \<and> (fst (densitometer_reflection_measure lh rd s) \<noteq> DENSITOMETER_OK \<longrightarrow>
        same_last_readings s (snd (densitometer_reflection_measure lh rd s)))
   \<and> (fst (densitometer_transmission_measure lh rd s) \<noteq> DENSITOMETER_OK \<longrightarrow>
        same_last_readings s (snd (densitometer_transmission_measure lh rd s)))
   \<and> densitometer_transmission_get_last_reading (snd (densitometer_reflection_measure lh rd s))
       = densitometer_transmission_get_last_reading s
   \<and> densitometer_reflection_get_last_reading (snd (densitometer_transmission_measure lh rd s))
       = densitometer_reflection_get_last_reading s
   \<and> same_last_readings s (snd (densitometer_calibrate_reflection_lo lh d rd s))
   \<and> same_last_readings s (snd (densitometer_calibrate_reflection_hi lh d rd s))
   \<and> same_last_readings s (snd (densitometer_calibrate_transmission_zero lh rd s))
   \<and> same_last_readings s (snd (densitometer_calibrate_transmission_hi lh d rd s))"
  by (simp add: densitometer_startup_def densitometer_reflection_measure_def
      densitometer_transmission_measure_def calibrate_defs same_last_readings_def dens_defs
      Let_def split: prod.split)

text \<open>
  Witness of C10: a reflection measurement whose sensor read times out keeps the last
  reflection reading 1, and a transmission measurement refused for its calibration
  (zero reading 0) keeps the last transmission reading 2.
\<close>

theorem C10_last_reading_frame_witness:
  "fst (densitometer_reflection_measure
          \<lparr>LIGHT_REFLECTION_IDLE = 8, LIGHT_TRANSMISSION_IDLE = 8\<rparr>
          (HAL_TIMEOUT, Fin 0, Fin 0)
          ((densitometer_startup 8 8 (Fin 0, Fin 500000) (Fin 2, Fin 5000) (Fin 1000000)
             (Fin 3, Fin 1000))\<lparr>densitometer_reflection_d := Fin 1\<rparr>))
     = DENSITOMETER_SENSOR_ERROR
   \<and> densitometer_reflection_get_last_reading
       (snd (densitometer_reflection_measure
          \<lparr>LIGHT_REFLECTION_IDLE = 8, LIGHT_TRANSMISSION_IDLE = 8\<rparr>
          (HAL_TIMEOUT, Fin 0, Fin 0)
          ((densitometer_startup 8 8 (Fin 0, Fin 500000) (Fin 2, Fin 5000) (Fin 1000000)
             (Fin 3, Fin 1000))\<lparr>densitometer_reflection_d := Fin 1\<rparr>)))
     = Fin 1
   \<and> fst (densitometer_transmission_measure
          \<lparr>LIGHT_REFLECTION_IDLE = 8, LIGHT_TRANSMISSION_IDLE = 8\<rparr>
          (HAL_OK, Fin 1000, Fin 0)
          ((densitometer_startup 8 8 (Fin 0, Fin 500000) (Fin 2, Fin 5000) (Fin 0)
             (Fin 3, Fin 1000))\<lparr>densitometer_transmission_d := Fin 2\<rparr>))
     = DENSITOMETER_CAL_ERROR
   \<and> densitometer_transmission_get_last_reading
       (snd (densitometer_transmission_measure
          \<lparr>LIGHT_REFLECTION_IDLE = 8, LIGHT_TRANSMISSION_IDLE = 8\<rparr>
          (HAL_OK, Fin 1000, Fin 0)
          ((densitometer_startup 8 8 (Fin 0, Fin 500000) (Fin 2, Fin 5000) (Fin 0)
             (Fin 3, Fin 1000))\<lparr>densitometer_transmission_d := Fin 2\<rparr>)))
     = Fin 2"
proof -
  let ?lh = "\<lparr>LIGHT_REFLECTION_IDLE = 8, LIGHT_TRANSMISSION_IDLE = 8\<rparr>"
  let ?s1 = "(densitometer_startup 8 8 (Fin 0, Fin 500000) (Fin 2, Fin 5000) (Fin 1000000)
             (Fin 3, Fin 1000))\<lparr>densitometer_reflection_d := Fin 1\<rparr>"
  let ?s2 = "(densitometer_startup 8 8 (Fin 0, Fin 500000) (Fin 2, Fin 5000) (Fin 0)
             (Fin 3, Fin 1000))\<lparr>densitometer_transmission_d := Fin 2\<rparr>"
  have e1: "fst (densitometer_reflection_measure ?lh (HAL_TIMEOUT, Fin 0, Fin 0) ?s1)
          = DENSITOMETER_SENSOR_ERROR"
    by (simp add: densitometer_reflection_measure_def densitometer_startup_def fge_def dens_defs)
  have e2: "fst (densitometer_transmission_measure ?lh (HAL_OK, Fin 1000, Fin 0) ?s2)
          = DENSITOMETER_CAL_ERROR"
    by (simp add: densitometer_transmission_measure_def densitometer_startup_def Let_def)
  from C10_last_reading_frame[of 8 8 "(NaN, NaN)" "(NaN, NaN)" NaN "(NaN, NaN)" ?lh
      "(HAL_TIMEOUT, Fin 0, Fin 0)" ?s1]
    C10_last_reading_frame[of 8 8 "(NaN, NaN)" "(NaN, NaN)" NaN "(NaN, NaN)" ?lh
      "(HAL_OK, Fin 1000, Fin 0)" ?s2]
  show ?thesis
    unfolding e1 e2
    by (simp add: same_last_readings_def densitometer_startup_def dens_defs)
qed

section \<open>The read loop\<close>

lemma next_reading_Cons:
  "pending st = (ret, r) # rest \<Longrightarrow> sensor_get_next_reading st = (ret, r, st\<lparr>pending := rest\<rparr>)"
  by (simp add: sensor_get_next_reading_def)

lemma raw_read_iterations_ok:
  "pending st = map (Pair osOK) rs @ rest \<Longrightarrow> length rs = n
   \<Longrightarrow> \<forall>r\<in>set rs. \<not> sensor_is_reading_saturated k r
   \<Longrightarrow> raw_read_iterations k n s0 s1 st
       = (osOK, False,
          foldl (\<lambda>a r. fadd a (logf (float_of_u16 (ch0_val r)))) s0 rs,
          foldl (\<lambda>a r. fadd a (logf (float_of_u16 (ch1_val r)))) s1 rs,
          st\<lparr>pending := rest\<rparr>)"
proof (induction rs arbitrary: n s0 s1 st)
  case Nil
  thus ?case by simp
next
  case (Cons r rs)
  then obtain m where n: "n = Suc m" "length rs = m" by (cases n) auto
  have next_r: "sensor_get_next_reading st = (osOK, r, st\<lparr>pending := map (Pair osOK) rs @ rest\<rparr>)"
    using Cons.prems(1) by (simp add: sensor_get_next_reading_def)
  have "raw_read_iterations k m (fadd s0 (logf (float_of_u16 (ch0_val r))))
          (fadd s1 (logf (float_of_u16 (ch1_val r))))
          (st\<lparr>pending := map (Pair osOK) rs @ rest\<rparr>)
        = (osOK, False,
           foldl (\<lambda>a r. fadd a (logf (float_of_u16 (ch0_val r))))
             (fadd s0 (logf (float_of_u16 (ch0_val r)))) rs,
           foldl (\<lambda>a r. fadd a (logf (float_of_u16 (ch1_val r))))
             (fadd s1 (logf (float_of_u16 (ch1_val r)))) rs,
           st\<lparr>pending := map (Pair osOK) rs @ rest\<rparr>\<lparr>pending := rest\<rparr>)"
    using Cons.prems n by (intro Cons.IH) simp_all
  thus ?case using Cons.prems(3) by (simp add: n next_r)
qed

lemma raw_read_iterations_saturated:
  "pending st = map (Pair osOK) rs @ (osOK, r) # rest \<Longrightarrow> length rs < n
   \<Longrightarrow> \<forall>r\<in>set rs. \<not> sensor_is_reading_saturated k r
   \<Longrightarrow> sensor_is_reading_saturated k r
   \<Longrightarrow> raw_read_iterations k n s0 s1 st
       = (osOK, True,
          foldl (\<lambda>a r. fadd a (logf (float_of_u16 (ch0_val r)))) s0 rs,
          foldl (\<lambda>a r. fadd a (logf (float_of_u16 (ch1_val r)))) s1 rs,
          st\<lparr>pending := rest\<rparr>)"
proof (induction rs arbitrary: n s0 s1 st)
  case Nil
  then obtain m where n: "n = Suc m" by (cases n) auto
  show ?case using Nil by (simp add: n sensor_get_next_reading_def)
next
  case (Cons r' rs)
  then obtain m where n: "n = Suc m" "length rs < m" by (cases n) auto
  have next_r: "sensor_get_next_reading st
      = (osOK, r', st\<lparr>pending := map (Pair osOK) rs @ (osOK, r) # rest\<rparr>)"
    using Cons.prems(1) by (simp add: sensor_get_next_reading_def)
  have "raw_read_iterations k m (fadd s0 (logf (float_of_u16 (ch0_val r'))))
          (fadd s1 (logf (float_of_u16 (ch1_val r'))))
          (st\<lparr>pending := map (Pair osOK) rs @ (osOK, r) # rest\<rparr>)
        = (osOK, True,
           foldl (\<lambda>a r. fadd a (logf (float_of_u16 (ch0_val r))))
             (fadd s0 (logf (float_of_u16 (ch0_val r')))) rs,
           foldl (\<lambda>a r. fadd a (logf (float_of_u16 (ch1_val r))))
             (fadd s1 (logf (float_of_u16 (ch1_val r')))) rs,
           st\<lparr>pending := map (Pair osOK) rs @ (osOK, r) # rest\<rparr>\<lparr>pending := rest\<rparr>)"
    using Cons.prems n by (intro Cons.IH) simp_all
  thus ?case using Cons.prems(3) by (simp add: n next_r)
qed

lemma logf_float_of_u16:
  assumes "w \<noteq> 0"
  shows "logf (float_of_u16 w) = Fin (ln (real (unat w)))"
proof -
  have "0 < unat w" using assms by (simp add: unat_gt_0)
  hence "0 < real (unat w)" by linarith
  hence "\<not> real (unat w) < 0" "real (unat w) \<noteq> 0" by linarith+
  thus ?thesis unfolding float_of_u16_def logf.simps by (simp only: if_False)
qed

lemma foldl_logf_positive:
  "\<forall>r\<in>set rs. ch r \<noteq> 0
   \<Longrightarrow> foldl (\<lambda>a r. fadd a (logf (float_of_u16 (ch r)))) (Fin a) rs
       = Fin (a + (\<Sum>r\<leftarrow>rs. ln (real (unat (ch r)))))"
  by (induction rs arbitrary: a) (simp_all add: logf_float_of_u16 add.assoc)

lemma u16_le_max: "(w :: 16 word) \<le> 65535"
proof -
  have "(65535 :: 16 word) = - 1" by simp
  thus ?thesis by (simp only: word_n1_ge)
qed

lemma saturated_at_full_scale:
  "ch0_val r = 65535 \<Longrightarrow> sensor_is_reading_saturated k r"
  using u16_le_max by (simp add: sensor_is_reading_saturated_def Let_def)

lemma raw_read_loop_saturated_first:
  assumes "pending st = (osOK, r) # rest" "sensor_is_reading_saturated k r" "0 < count"
  shows "sensor_raw_read_loop k count st = (Inr (NaN, NaN), st\<lparr>pending := rest\<rparr>)"
proof -
  obtain n where n: "count = Suc n" using assms(3) by (cases count) auto
  show ?thesis
    using assms(1,2) by (simp add: sensor_raw_read_loop_def n sensor_get_next_reading_def)
qed

text \<open>
  Claim C3. For a count of at least 1: when the next \<open>count\<close> readings arrive and none
  is saturated, the loop returns \<^verbatim>\<open>osOK\<close> and each channel's average is the exponential
  of the sum of the logarithms of the raw values divided by \<open>count\<close>, which for non-zero
  raw values is the real number \<open>exp ((\<Sum> ln v) / count)\<close>, their geometric mean. When
  the readings before some reading of the run are not saturated and that reading is,
  the loop consumes nothing after it and returns \<^verbatim>\<open>osOK\<close> with NaN for both channels.
  A reading is saturated exactly when one of its channel values is at or above the
  analog ceiling, for the 100 ms integration time, or the digital ceiling, for every
  other.
\<close>

theorem C3_read_average:
  assumes count: "1 \<le> count"
  shows "(\<forall>rs rest.
            pending st = map (Pair osOK) rs @ rest \<and> length rs = count
            \<and> (\<forall>r\<in>set rs. \<not> sensor_is_reading_saturated k r) \<longrightarrow>
            sensor_raw_read_loop k count st
              = (Inr (expf (fdiv (foldl (\<lambda>a r. fadd a (logf (float_of_u16 (ch0_val r))))
                                    (Fin 0) rs) (Fin (real count))),
                      expf (fdiv (foldl (\<lambda>a r. fadd a (logf (float_of_u16 (ch1_val r))))
                                    (Fin 0) rs) (Fin (real count)))),
                 st\<lparr>pending := rest\<rparr>)
            \<and> ((\<forall>r\<in>set rs. ch0_val r \<noteq> 0 \<and> ch1_val r \<noteq> 0) \<longrightarrow>
                 fst (sensor_raw_read_loop k count st)
                   = Inr (Fin (exp ((\<Sum>r\<leftarrow>rs. ln (real (unat (ch0_val r)))) / real count)),
                          Fin (exp ((\<Sum>r\<leftarrow>rs. ln (real (unat (ch1_val r)))) / real count)))))
       \<and> (\<forall>rs r rest.
            pending st = map (Pair osOK) rs @ (osOK, r) # rest \<and> length rs < count
            \<and> (\<forall>r\<in>set rs. \<not> sensor_is_reading_saturated k r)
            \<and> sensor_is_reading_saturated k r \<longrightarrow>
            sensor_raw_read_loop k count st = (Inr (NaN, NaN), st\<lparr>pending := rest\<rparr>))
       \<and> (\<forall>r. sensor_is_reading_saturated k r \<longleftrightarrow>
            (if time r = TSL2591_TIME_100MS
             then unat (TSL2591_ANALOG_SATURATION k) \<le> unat (ch0_val r)
                  \<or> unat (TSL2591_ANALOG_SATURATION k) \<le> unat (ch1_val r)
             else unat (TSL2591_DIGITAL_SATURATION k) \<le> unat (ch0_val r)
                  \<or> unat (TSL2591_DIGITAL_SATURATION k) \<le> unat (ch1_val r)))"
proof (intro conjI allI impI)
  fix rs rest
  assume a: "pending st = map (Pair osOK) rs @ rest \<and> length rs = count
            \<and> (\<forall>r\<in>set rs. \<not> sensor_is_reading_saturated k r)"
  have it: "raw_read_iterations k count (Fin 0) (Fin 0) st
       = (osOK, False,
          foldl (\<lambda>a r. fadd a (logf (float_of_u16 (ch0_val r)))) (Fin 0) rs,
          foldl (\<lambda>a r. fadd a (logf (float_of_u16 (ch1_val r)))) (Fin 0) rs,
          st\<lparr>pending := rest\<rparr>)"
    using a by (intro raw_read_iterations_ok) blast+
  show avg: "sensor_raw_read_loop k count st
              = (Inr (expf (fdiv (foldl (\<lambda>a r. fadd a (logf (float_of_u16 (ch0_val r))))
                                    (Fin 0) rs) (Fin (real count))),
                      expf (fdiv (foldl (\<lambda>a r. fadd a (logf (float_of_u16 (ch1_val r))))
                                    (Fin 0) rs) (Fin (real count)))),
                 st\<lparr>pending := rest\<rparr>)"
    using count by (simp add: sensor_raw_read_loop_def it)
  assume pos: "\<forall>r\<in>set rs. ch0_val r \<noteq> 0 \<and> ch1_val r \<noteq> 0"
  have "foldl (\<lambda>a r. fadd a (logf (float_of_u16 (ch0_val r)))) (Fin 0) rs
          = Fin (0 + (\<Sum>r\<leftarrow>rs. ln (real (unat (ch0_val r)))))"
       "foldl (\<lambda>a r. fadd a (logf (float_of_u16 (ch1_val r)))) (Fin 0) rs
          = Fin (0 + (\<Sum>r\<leftarrow>rs. ln (real (unat (ch1_val r)))))"
    using pos by (intro foldl_logf_positive; simp)+
  thus "fst (sensor_raw_read_loop k count st)
          = Inr (Fin (exp ((\<Sum>r\<leftarrow>rs. ln (real (unat (ch0_val r)))) / real count)),
                 Fin (exp ((\<Sum>r\<leftarrow>rs. ln (real (unat (ch1_val r)))) / real count)))"
    using count by (simp add: avg)
next
  fix rs r rest
  assume a: "pending st = map (Pair osOK) rs @ (osOK, r) # rest \<and> length rs < count
            \<and> (\<forall>r\<in>set rs. \<not> sensor_is_reading_saturated k r)
            \<and> sensor_is_reading_saturated k r"
  have "raw_read_iterations k count (Fin 0) (Fin 0) st
       = (osOK, True,
          foldl (\<lambda>a r. fadd a (logf (float_of_u16 (ch0_val r)))) (Fin 0) rs,
          foldl (\<lambda>a r. fadd a (logf (float_of_u16 (ch1_val r)))) (Fin 0) rs,
          st\<lparr>pending := rest\<rparr>)"
    using a by (intro raw_read_iterations_saturated) blast+
  thus "sensor_raw_read_loop k count st = (Inr (NaN, NaN), st\<lparr>pending := rest\<rparr>)"
    using count by (simp add: sensor_raw_read_loop_def)
next
  fix r
  show "sensor_is_reading_saturated k r \<longleftrightarrow>
            (if time r = TSL2591_TIME_100MS
             then unat (TSL2591_ANALOG_SATURATION k) \<le> unat (ch0_val r)
                  \<or> unat (TSL2591_ANALOG_SATURATION k) \<le> unat (ch1_val r)
             else unat (TSL2591_DIGITAL_SATURATION k) \<le> unat (ch0_val r)
                  \<or> unat (TSL2591_DIGITAL_SATURATION k) \<le> unat (ch1_val r))"
    by (simp add: sensor_is_reading_saturated_def word_le_nat_alt Let_def)
qed

text \<open>
  Witness of C3, with ceilings 37888 and 65535: two readings (100, 50) average to
  (100, 50); a reading (100, 50) followed by (65535, 50) gives NaN for both channels.
\<close>

theorem C3_read_average_witness:
  "sensor_raw_read_loop
     \<lparr>TSL2591_ANALOG_SATURATION = 37888, TSL2591_DIGITAL_SATURATION = 65535\<rparr> 2
     \<lparr>pending =
        [(osOK, \<lparr>ch0_val = 100, ch1_val = 50, gain = TSL2591_GAIN_HIGH,
                  time = TSL2591_TIME_200MS, reading_ticks = 0, reading_count = 0\<rparr>),
         (osOK, \<lparr>ch0_val = 100, ch1_val = 50, gain = TSL2591_GAIN_HIGH,
                  time = TSL2591_TIME_200MS, reading_ticks = 0, reading_count = 1\<rparr>)],
      light_mode = (SENSOR_LIGHT_TRANSMISSION, True, 128), running = True,
      stored_cal_light = \<lparr>reflection = 128, transmission = 128\<rparr>,
      stored_cal_gain = \<lparr>ch0_medium = NaN, ch1_medium = NaN, ch0_high = NaN,
                          ch1_high = NaN, ch0_maximum = NaN, ch1_maximum = NaN\<rparr>\<rparr>
   = (Inr (Fin 100, Fin 50),
      \<lparr>pending = [],
       light_mode = (SENSOR_LIGHT_TRANSMISSION, True, 128), running = True,
       stored_cal_light = \<lparr>reflection = 128, transmission = 128\<rparr>,
       stored_cal_gain = \<lparr>ch0_medium = NaN, ch1_medium = NaN, ch0_high = NaN,
                           ch1_high = NaN, ch0_maximum = NaN, ch1_maximum = NaN\<rparr>\<rparr>)
   \<and> sensor_raw_read_loop
     \<lparr>TSL2591_ANALOG_SATURATION = 37888, TSL2591_DIGITAL_SATURATION = 65535\<rparr> 2
     \<lparr>pending =
        [(osOK, \<lparr>ch0_val = 100, ch1_val = 50, gain = TSL2591_GAIN_HIGH,
                  time = TSL2591_TIME_200MS, reading_ticks = 0, reading_count = 0\<rparr>),
         (osOK, \<lparr>ch0_val = 65535, ch1_val = 50, gain = TSL2591_GAIN_HIGH,
                  time = TSL2591_TIME_200MS, reading_ticks = 0, reading_count = 1\<rparr>)],
      light_mode = (SENSOR_LIGHT_TRANSMISSION, True, 128), running = True,
      stored_cal_light = \<lparr>reflection = 128, transmission = 128\<rparr>,
      stored_cal_gain = \<lparr>ch0_medium = NaN, ch1_medium = NaN, ch0_high = NaN,
                          ch1_high = NaN, ch0_maximum = NaN, ch1_maximum = NaN\<rparr>\<rparr>
   = (Inr (NaN, NaN),
      \<lparr>pending = [],
       light_mode = (SENSOR_LIGHT_TRANSMISSION, True, 128), running = True,
       stored_cal_light = \<lparr>reflection = 128, transmission = 128\<rparr>,
       stored_cal_gain = \<lparr>ch0_medium = NaN, ch1_medium = NaN, ch0_high = NaN,
                           ch1_high = NaN, ch0_maximum = NaN, ch1_maximum = NaN\<rparr>\<rparr>)"
proof -
  let ?k = "\<lparr>TSL2591_ANALOG_SATURATION = 37888, TSL2591_DIGITAL_SATURATION = 65535\<rparr>"
  let ?r = "\<lparr>ch0_val = 100, ch1_val = 50, gain = TSL2591_GAIN_HIGH,
             time = TSL2591_TIME_200MS, reading_ticks = 0, reading_count = 0 :: 32 word\<rparr>"
  let ?r1 = "\<lparr>ch0_val = 100, ch1_val = 50, gain = TSL2591_GAIN_HIGH,
              time = TSL2591_TIME_200MS, reading_ticks = 0, reading_count = 1 :: 32 word\<rparr>"
  let ?sat = "\<lparr>ch0_val = 65535, ch1_val = 50, gain = TSL2591_GAIN_HIGH,
               time = TSL2591_TIME_200MS, reading_ticks = 0, reading_count = 1 :: 32 word\<rparr>"
  let ?st = "\<lambda>p. \<lparr>pending = p,
      light_mode = (SENSOR_LIGHT_TRANSMISSION, True, 128), running = True,
      stored_cal_light = \<lparr>reflection = 128, transmission = 128\<rparr>,
      stored_cal_gain = \<lparr>ch0_medium = NaN, ch1_medium = NaN, ch0_high = NaN,
                          ch1_high = NaN, ch0_maximum = NaN, ch1_maximum = NaN\<rparr>\<rparr>"
  have ns: "\<not> sensor_is_reading_saturated ?k ?r" "\<not> sensor_is_reading_saturated ?k ?r1"
    and sat: "sensor_is_reading_saturated ?k ?sat"
    by (simp_all add: sensor_is_reading_saturated_def)
  have two: "(1::nat) \<le> 2" by simp
  have e: "exp ((ln 100 + ln 100) / 2) = (100::real)" "exp ((ln 50 + ln 50) / 2) = (50::real)"
    by simp_all
  from C3_read_average[OF two, of "?st [(osOK, ?r), (osOK, ?r1)]" ?k]
  have "pending (?st [(osOK, ?r), (osOK, ?r1)]) = map (Pair osOK) [?r, ?r1] @ [] \<and>
        length [?r, ?r1] = 2 \<and> (\<forall>r\<in>set [?r, ?r1]. \<not> sensor_is_reading_saturated ?k r) \<longrightarrow>
        sensor_raw_read_loop ?k 2 (?st [(osOK, ?r), (osOK, ?r1)])
          = (Inr (expf (fdiv (foldl (\<lambda>a r. fadd a (logf (float_of_u16 (ch0_val r))))
                                (Fin 0) [?r, ?r1]) (Fin (real 2))),
                  expf (fdiv (foldl (\<lambda>a r. fadd a (logf (float_of_u16 (ch1_val r))))
                                (Fin 0) [?r, ?r1]) (Fin (real 2)))),
             (?st [(osOK, ?r), (osOK, ?r1)])\<lparr>pending := []\<rparr>)"
    by blast
  hence a: "sensor_raw_read_loop ?k 2 (?st [(osOK, ?r), (osOK, ?r1)])
      = (Inr (Fin 100, Fin 50), ?st [])"
    using ns by (simp add: float_of_u16_def e)
  from C3_read_average[OF two, of "?st [(osOK, ?r), (osOK, ?sat)]" ?k]
  have "pending (?st [(osOK, ?r), (osOK, ?sat)]) = map (Pair osOK) [?r] @ (osOK, ?sat) # [] \<and>
        length [?r] < 2 \<and> (\<forall>r\<in>set [?r]. \<not> sensor_is_reading_saturated ?k r)
        \<and> sensor_is_reading_saturated ?k ?sat \<longrightarrow>
        sensor_raw_read_loop ?k 2 (?st [(osOK, ?r), (osOK, ?sat)])
          = (Inr (NaN, NaN), (?st [(osOK, ?r), (osOK, ?sat)])\<lparr>pending := []\<rparr>)"
    by blast
  hence b: "sensor_raw_read_loop ?k 2 (?st [(osOK, ?r), (osOK, ?sat)]) = (Inr (NaN, NaN), ?st [])"
    using ns sat by simp
  show ?thesis using a b by simp
qed

section \<open>Slope correction\<close>

text \<open>
  Claim C7. With a valid stored calibration and a finite reading \<open>r > 0\<close> the result is
  \<^verbatim>\<open>powf(10, b0 + b1 * l + b2 * l^2)\<close> for \<open>l = log10 r\<close>, which for finite coefficients is
  the real number \<open>10 powr (b0 + b1 * l + b2 * l\<^sup>2)\<close>. With an invalid calibration, or a
  reading that is NaN, infinite or at most 0, the reading is returned as it is. Every
  input is in one of the two cases.
\<close>

theorem C7_slope_correction:
  "(valid \<and> basic_reading = Fin r \<and> 0 < r \<longrightarrow>
      sensor_apply_slope_calibration (valid, cal_slope) basic_reading
        = powf (Fin 10)
            (fadd (fadd (b0 cal_slope) (fmul (b1 cal_slope) (Fin (log 10 r))))
                  (fmul (b2 cal_slope) (Fin ((log 10 r)\<^sup>2))))
      \<and> (b0 cal_slope = Fin c0 \<and> b1 cal_slope = Fin c1 \<and> b2 cal_slope = Fin c2 \<longrightarrow>
           sensor_apply_slope_calibration (valid, cal_slope) basic_reading
             = Fin (10 powr (c0 + c1 * log 10 r + c2 * (log 10 r)\<^sup>2))))
   \<and> (\<not> valid \<or> isnanf basic_reading \<or> isinff basic_reading \<or> fle basic_reading (Fin 0) \<longrightarrow>
        sensor_apply_slope_calibration (valid, cal_slope) basic_reading = basic_reading)
   \<and> (valid \<and> \<not> isnanf basic_reading \<and> \<not> isinff basic_reading \<and> \<not> fle basic_reading (Fin 0)
        \<longrightarrow> (\<exists>x. basic_reading = Fin x \<and> 0 < x))"
proof (intro conjI impI)
  assume a: "valid \<and> basic_reading = Fin r \<and> 0 < r"
  hence l: "log10f basic_reading = Fin (log 10 r)" by simp
  show f: "sensor_apply_slope_calibration (valid, cal_slope) basic_reading
        = powf (Fin 10)
            (fadd (fadd (b0 cal_slope) (fmul (b1 cal_slope) (Fin (log 10 r))))
                  (fmul (b2 cal_slope) (Fin ((log 10 r)\<^sup>2))))"
    using a unfolding sensor_apply_slope_calibration_def
    by (simp add: l powf_square Let_def del: powf.simps)
  assume "b0 cal_slope = Fin c0 \<and> b1 cal_slope = Fin c1 \<and> b2 cal_slope = Fin c2"
  thus "sensor_apply_slope_calibration (valid, cal_slope) basic_reading
             = Fin (10 powr (c0 + c1 * log 10 r + c2 * (log 10 r)\<^sup>2))"
    unfolding f by (simp add: powf_ten del: powf.simps)
next
  assume "\<not> valid \<or> isnanf basic_reading \<or> isinff basic_reading \<or> fle basic_reading (Fin 0)"
  thus "sensor_apply_slope_calibration (valid, cal_slope) basic_reading = basic_reading"
    by (auto simp: sensor_apply_slope_calibration_def)
next
  assume "valid \<and> \<not> isnanf basic_reading \<and> \<not> isinff basic_reading \<and> \<not> fle basic_reading (Fin 0)"
  thus "\<exists>x. basic_reading = Fin x \<and> 0 < x"
    by (cases basic_reading) auto
qed

text \<open>
  Witness of C7: with \<open>b0 = b1 = b2 = 1\<close> a reading of 10 is corrected to 1000; NaN and
  -5 come back unchanged, and so does 10 when the stored calibration is invalid.
\<close>

theorem C7_slope_correction_witness:
  "sensor_apply_slope_calibration (True, \<lparr>b0 = Fin 1, b1 = Fin 1, b2 = Fin 1\<rparr>) (Fin 10)
     = Fin 1000
   \<and> sensor_apply_slope_calibration (True, \<lparr>b0 = Fin 1, b1 = Fin 1, b2 = Fin 1\<rparr>) NaN = NaN
   \<and> sensor_apply_slope_calibration (True, \<lparr>b0 = Fin 1, b1 = Fin 1, b2 = Fin 1\<rparr>) (Fin (- 5))
     = Fin (- 5)
   \<and> sensor_apply_slope_calibration (False, \<lparr>b0 = NaN, b1 = NaN, b2 = NaN\<rparr>) (Fin 10)
     = Fin 10"
proof -
  let ?cs = "\<lparr>b0 = Fin 1, b1 = Fin 1, b2 = Fin 1\<rparr>"
  have p: "(10::real) powr 3 = 1000" by simp
  from C7_slope_correction[of True "Fin 10" 10 ?cs 1 1 1]
  have a: "sensor_apply_slope_calibration (True, ?cs) (Fin 10) = Fin 1000"
    by (simp add: p)
  from C7_slope_correction[of True NaN 0 ?cs 0 0 0]
  have b: "sensor_apply_slope_calibration (True, ?cs) NaN = NaN"
    by simp
  from C7_slope_correction[of True "Fin (- 5)" 0 ?cs 0 0 0]
  have c: "sensor_apply_slope_calibration (True, ?cs) (Fin (- 5)) = Fin (- 5)"
    by simp
  from C7_slope_correction[of False "Fin 10" 0 "\<lparr>b0 = NaN, b1 = NaN, b2 = NaN\<rparr>" 0 0 0]
  have d: "sensor_apply_slope_calibration (False, \<lparr>b0 = NaN, b1 = NaN, b2 = NaN\<rparr>) (Fin 10) = Fin 10"
    by simp
  show ?thesis using a b c d by simp
qed

section \<open>Gain calibration\<close>

lemma gain_ratio_NaN [simp]: "gain_ratio NaN NaN = NaN"
  by (simp add: gain_ratio_def)

text \<open>
  Claim C4 fails on the code. When a read loop meets a saturated reading it returns
  \<^verbatim>\<open>osOK\<close> with NaN averages; \<^verbatim>\<open>sensor_gain_calibration_loop\<close> goes on, the tests
  \<^verbatim>\<open>avg <= 0\<close> are false for NaN, and the ratio it returns is NaN. Two runs that
  complete without a sensor error and return NaN for both channels: one in which every
  reading is at the full scale 65535, saturated whatever the two ceilings are; and one,
  with ceilings 37888 and 65535, in which the first reading of the higher gain setting
  is saturated and the five readings of the lower setting are (3000, 1500).
\<close>

theorem C4_gain_ratio_not_a_number:
  "fst (sensor_gain_calibration_loop
          \<lparr>set_config_status = (\<lambda>g t. osOK), start_status = osOK, callback = None,
           cal_light_accepted = (\<lambda>c. True), cal_gain_accepted = (\<lambda>c. True)\<rparr>
          k TSL2591_GAIN_LOW TSL2591_GAIN_MEDIUM TSL2591_TIME_600MS 128
          SENSOR_GAIN_CALIBRATION_STATUS_MEDIUM
          \<lparr>pending = replicate 6
             (osOK, \<lparr>ch0_val = 65535, ch1_val = 65535, gain = TSL2591_GAIN_MEDIUM,
                      time = TSL2591_TIME_600MS, reading_ticks = 0, reading_count = 0\<rparr>),
           light_mode = (SENSOR_LIGHT_OFF, False, 0), running = True,
           stored_cal_light = \<lparr>reflection = 128, transmission = 128\<rparr>,
           stored_cal_gain = \<lparr>ch0_medium = NaN, ch1_medium = NaN, ch0_high = NaN,
                               ch1_high = NaN, ch0_maximum = NaN, ch1_maximum = NaN\<rparr>\<rparr>)
     = Inr (NaN, NaN)
   \<and> fst (sensor_gain_calibration_loop
          \<lparr>set_config_status = (\<lambda>g t. osOK), start_status = osOK, callback = None,
           cal_light_accepted = (\<lambda>c. True), cal_gain_accepted = (\<lambda>c. True)\<rparr>
          \<lparr>TSL2591_ANALOG_SATURATION = 37888, TSL2591_DIGITAL_SATURATION = 65535\<rparr>
          TSL2591_GAIN_LOW TSL2591_GAIN_MEDIUM TSL2591_TIME_600MS 128
          SENSOR_GAIN_CALIBRATION_STATUS_MEDIUM
          \<lparr>pending =
             replicate 2 (osOK, \<lparr>ch0_val = 100, ch1_val = 50, gain = TSL2591_GAIN_MEDIUM,
                      time = TSL2591_TIME_600MS, reading_ticks = 0, reading_count = 0\<rparr>)
             @ [(osOK, \<lparr>ch0_val = 65535, ch1_val = 40000, gain = TSL2591_GAIN_MEDIUM,
                      time = TSL2591_TIME_600MS, reading_ticks = 0, reading_count = 0\<rparr>)]
             @ replicate 7 (osOK, \<lparr>ch0_val = 3000, ch1_val = 1500, gain = TSL2591_GAIN_LOW,
                      time = TSL2591_TIME_600MS, reading_ticks = 0, reading_count = 0\<rparr>),
           light_mode = (SENSOR_LIGHT_OFF, False, 0), running = True,
           stored_cal_light = \<lparr>reflection = 128, transmission = 128\<rparr>,
           stored_cal_gain = \<lparr>ch0_medium = NaN, ch1_medium = NaN, ch0_high = NaN,
                               ch1_high = NaN, ch0_maximum = NaN, ch1_maximum = NaN\<rparr>\<rparr>)
     = Inr (NaN, NaN)"
proof (rule conjI)
  let ?r = "\<lparr>ch0_val = 65535, ch1_val = 65535, gain = TSL2591_GAIN_MEDIUM,
             time = TSL2591_TIME_600MS, reading_ticks = 0, reading_count = 0 :: 32 word\<rparr>"
  have sat: "sensor_is_reading_saturated k ?r"
    by (rule saturated_at_full_scale) simp
  have six: "replicate 6 (osOK, ?r)
      = [(osOK, ?r), (osOK, ?r), (osOK, ?r), (osOK, ?r), (osOK, ?r), (osOK, ?r)]"
    by (simp add: eval_nat_numeral)
  show "fst (sensor_gain_calibration_loop
          \<lparr>set_config_status = (\<lambda>g t. osOK), start_status = osOK, callback = None,
           cal_light_accepted = (\<lambda>c. True), cal_gain_accepted = (\<lambda>c. True)\<rparr>
          k TSL2591_GAIN_LOW TSL2591_GAIN_MEDIUM TSL2591_TIME_600MS 128
          SENSOR_GAIN_CALIBRATION_STATUS_MEDIUM
          \<lparr>pending = replicate 6 (osOK, ?r),
           light_mode = (SENSOR_LIGHT_OFF, False, 0), running = True,
           stored_cal_light = \<lparr>reflection = 128, transmission = 128\<rparr>,
           stored_cal_gain = \<lparr>ch0_medium = NaN, ch1_medium = NaN, ch0_high = NaN,
                               ch1_high = NaN, ch0_maximum = NaN, ch1_maximum = NaN\<rparr>\<rparr>)
     = Inr (NaN, NaN)"
    unfolding six sensor_gain_calibration_loop_def
    by (simp add: gain_status_callback_def sensor_gain_calibration_cooldown_def
        sensor_set_config_def sensor_set_light_mode_def next_reading_Cons
        raw_read_loop_saturated_first[OF _ sat])
next
  have two: "replicate 2 x = [x, x]" and seven: "replicate 7 x = [x, x, x, x, x, x, x]"
    for x :: "osStatus_t \<times> sensor_reading_t"
    by (simp_all add: eval_nat_numeral)
  have five: "(5::nat) = Suc (Suc (Suc (Suc (Suc 0))))" by simp
  show "fst (sensor_gain_calibration_loop
          \<lparr>set_config_status = (\<lambda>g t. osOK), start_status = osOK, callback = None,
           cal_light_accepted = (\<lambda>c. True), cal_gain_accepted = (\<lambda>c. True)\<rparr>
          \<lparr>TSL2591_ANALOG_SATURATION = 37888, TSL2591_DIGITAL_SATURATION = 65535\<rparr>
          TSL2591_GAIN_LOW TSL2591_GAIN_MEDIUM TSL2591_TIME_600MS 128
          SENSOR_GAIN_CALIBRATION_STATUS_MEDIUM
          \<lparr>pending =
             replicate 2 (osOK, \<lparr>ch0_val = 100, ch1_val = 50, gain = TSL2591_GAIN_MEDIUM,
                      time = TSL2591_TIME_600MS, reading_ticks = 0, reading_count = 0\<rparr>)
             @ [(osOK, \<lparr>ch0_val = 65535, ch1_val = 40000, gain = TSL2591_GAIN_MEDIUM,
                      time = TSL2591_TIME_600MS, reading_ticks = 0, reading_count = 0\<rparr>)]
             @ replicate 7 (osOK, \<lparr>ch0_val = 3000, ch1_val = 1500, gain = TSL2591_GAIN_LOW,
                      time = TSL2591_TIME_600MS, reading_ticks = 0, reading_count = 0\<rparr>),
           light_mode = (SENSOR_LIGHT_OFF, False, 0), running = True,
           stored_cal_light = \<lparr>reflection = 128, transmission = 128\<rparr>,
           stored_cal_gain = \<lparr>ch0_medium = NaN, ch1_medium = NaN, ch0_high = NaN,
                               ch1_high = NaN, ch0_maximum = NaN, ch1_maximum = NaN\<rparr>\<rparr>)
     = Inr (NaN, NaN)"
    unfolding two seven sensor_gain_calibration_loop_def sensor_raw_read_loop_def five
    by (simp add: gain_status_callback_def sensor_gain_calibration_cooldown_def
        sensor_set_config_def sensor_set_light_mode_def sensor_get_next_reading_def
        sensor_is_reading_saturated_def float_of_u16_def gain_ratio_def)
qed

text \<open>
  Beyond the claims: on two averages that are numbers the ratio is as the claim says, 0
  when one of them is at most 0 and their quotient otherwise, and it is neither
  negative nor NaN.
\<close>

theorem gain_ratio_of_numbers:
  "gain_ratio (Fin h) (Fin l) = (if h \<le> 0 \<or> l \<le> 0 then Fin 0 else Fin (h / l))
   \<and> fge (gain_ratio (Fin h) (Fin l)) (Fin 0)
   \<and> \<not> isnanf (gain_ratio (Fin h) (Fin l))"
  by (simp add: gain_ratio_def fge_def)

lemma scan_down_all_saturated:
  assumes cb: "callback env = None" and sat: "sensor_is_reading_saturated k r"
  shows "unat (i - e) = n \<Longrightarrow> pending st = replicate (3 * n) (osOK, r) @ rest
         \<Longrightarrow> fst (find_brightness_loop env k False target e i cl cc st) = Scan_Left osOK cl
             \<and> pending (snd (find_brightness_loop env k False target e i cl cc st)) = rest"
proof (induction n arbitrary: i st)
  case 0
  hence "i = e" by (simp add: unat_eq_0)
  thus ?case using 0 by (subst (1 2) find_brightness_loop.simps) simp
next
  case (Suc n)
  have ne: "i \<noteq> e" using Suc.prems(1) by auto
  have "i - e \<noteq> 0" using ne by simp
  hence "unat (i - e - 1) = unat (i - e) - 1" by (rule unat_minus_one)
  moreover have "i - 1 - e = i - e - 1" by simp
  ultimately have dist: "unat (i - 1 - e) = n"
    using Suc.prems(1) by (simp only: diff_Suc_1)
  let ?st1 = "sensor_set_light_mode SENSOR_LIGHT_TRANSMISSION True i st"
  let ?p = "replicate (3 * n) (osOK, r) @ rest"
  have "3 * Suc n = Suc (Suc (Suc (3 * n)))" by simp
  hence p: "pending st = (osOK, r) # (osOK, r) # (osOK, r) # ?p"
    using Suc.prems(2) by (simp only: replicate_Suc append_Cons)
  let ?st2 = "?st1\<lparr>pending := (osOK, r) # (osOK, r) # ?p\<rparr>"
  let ?st3 = "?st1\<lparr>pending := (osOK, r) # ?p\<rparr>"
  let ?st4 = "?st1\<lparr>pending := ?p\<rparr>"
  let ?st5 = "sensor_set_light_mode SENSOR_LIGHT_OFF False 0 ?st4"
  have r1: "sensor_get_next_reading ?st1 = (osOK, r, ?st2)"
    by (rule next_reading_Cons) (simp add: sensor_set_light_mode_def p)
  have r2: "sensor_get_next_reading ?st2 = (osOK, r, ?st3)"
    using next_reading_Cons[of ?st2 osOK r "(osOK, r) # ?p"] by simp
  have r3: "sensor_raw_read_loop k 2 ?st3 = (Inr (NaN, NaN), ?st4)"
    using raw_read_loop_saturated_first[OF _ sat, of ?st3 ?p 2] by simp
  have step: "find_brightness_loop env k False target e i cl cc st
      = find_brightness_loop env k False target e (i - 1) cl cc ?st5"
    by (subst find_brightness_loop.simps)
       (simp add: ne r1 r2 r3 gain_status_callback_def cb Let_def)
  have "pending ?st5 = ?p" by (simp add: sensor_set_light_mode_def)
  from Suc.IH[OF dist this] show ?case by (simp only: step)
qed

lemma find_gain_brightness_scan_left:
  assumes cb: "callback env = None" and cfg: "set_config_status env g t = osOK"
      and r1: "sensor_get_next_reading st = (osOK, r, st1)"
      and scan: "\<And>target. fst (find_brightness_loop env k False target 64 128 0 NaN st1)
                   = Scan_Left osOK led"
  shows "fst (sensor_find_gain_brightness env k g t 128 64 LIGHT_CAL_CH0_TARGET_FACTOR st)
         = Inr led"
proof -
  have up: "\<not> (128 :: 8 word) < 64" by simp
  show ?thesis
    unfolding sensor_find_gain_brightness_def
    by (simp add: gain_status_callback_def cb sensor_set_config_def cfg r1 up scan fgt_def
        Let_def case_prod_beta LIGHT_CAL_CH0_TARGET_FACTOR_def float_0_98F_def float_0_1F_def)
qed

lemma find_gain_brightness_all_saturated:
  assumes cb: "callback env = None" and cfg: "set_config_status env g t = osOK"
      and sat: "sensor_is_reading_saturated k r"
      and p: "pending st = (osOK, r) # replicate (3 * 64) (osOK, r) @ rest"
  shows "fst (sensor_find_gain_brightness env k g t 128 64 LIGHT_CAL_CH0_TARGET_FACTOR st)
         = Inr 0"
proof -
  let ?st1 = "st\<lparr>pending := replicate (3 * 64) (osOK, r) @ rest\<rparr>"
  have r1: "sensor_get_next_reading st = (osOK, r, ?st1)"
    using p by (rule next_reading_Cons)
  have d: "unat ((128 :: 8 word) - 64) = 64" by simp
  have "pending ?st1 = replicate (3 * 64) (osOK, r) @ rest" by simp
  from scan_down_all_saturated[OF cb sat d this]
  have scan: "fst (find_brightness_loop env k False target 64 128 0 NaN ?st1) = Scan_Left osOK 0"
    for target by blast
  show ?thesis
    using cb cfg r1 scan by (rule find_gain_brightness_scan_left)
qed

lemma gain_calibration_block_no_brightness:
  assumes "set_config_status env TSL2591_GAIN_MAXIMUM TSL2591_TIME_100MS = osOK"
      and "start_status env = osOK"
      and "fst (sensor_find_gain_brightness env k TSL2591_GAIN_HIGH TSL2591_TIME_200MS 128 64
                 LIGHT_CAL_CH0_TARGET_FACTOR (st\<lparr>running := True\<rparr>)) = Inr 0"
  shows "fst (gain_calibration_block env k limits st)
       = (osOK, 0, \<lparr>ch0_medium = NaN, ch1_medium = NaN, ch0_high = NaN, ch1_high = NaN,
                     ch0_maximum = NaN, ch1_maximum = NaN\<rparr>)"
  using assms unfolding gain_calibration_block_def
  by (simp add: sensor_set_config_def sensor_start_def case_prod_beta Let_def)

lemma gain_calibration_stores_block_result:
  assumes "callback env = None"
      and "fst (gain_calibration_block env k limits
                  (sensor_set_light_mode SENSOR_LIGHT_OFF False 0 st)) = (osOK, led, g)"
      and "cal_gain_accepted env g"
  shows "fst (sensor_gain_calibration env k limits st) = osOK
       \<and> stored_cal_gain (snd (sensor_gain_calibration env k limits st)) = g"
  using assms unfolding sensor_gain_calibration_def
  by (simp add: gain_status_callback_def case_prod_beta Let_def settings_set_cal_gain_def
      settings_set_cal_light_def)

text \<open>
  Claim C5 fails on the code. When the first brightness search finds no level (here
  every reading is at the full scale 65535, so every sample of the descending scan
  from 128 to 64 is NaN), \<^verbatim>\<open>sensor_find_gain_brightness\<close> returns \<^verbatim>\<open>osOK\<close> with brightness
  0, and \<^verbatim>\<open>if (ret != osOK || measurement_led_brightness == 0) { break; }\<close> leaves the
  block with \<^verbatim>\<open>ret == osOK\<close>: the run ends as a success and hands the six gain
  variables, still NaN, to the settings store, over a table of plausible values.
\<close>

theorem C5_gain_table_not_a_number:
  "fst (sensor_gain_calibration
          \<lparr>set_config_status = (\<lambda>g t. osOK), start_status = osOK, callback = None,
           cal_light_accepted = (\<lambda>c. True), cal_gain_accepted = (\<lambda>c. True)\<rparr>
          k limits
          \<lparr>pending = replicate 193
             (osOK, \<lparr>ch0_val = 65535, ch1_val = 65535, gain = TSL2591_GAIN_HIGH,
                      time = TSL2591_TIME_200MS, reading_ticks = 0, reading_count = 0\<rparr>),
           light_mode = (SENSOR_LIGHT_OFF, False, 0), running = False,
           stored_cal_light = \<lparr>reflection = 128, transmission = 128\<rparr>,
           stored_cal_gain = \<lparr>ch0_medium = Fin 24.5, ch1_medium = Fin 24.5,
                               ch0_high = Fin 400, ch1_high = Fin 400,
                               ch0_maximum = Fin 9200, ch1_maximum = Fin 9900\<rparr>\<rparr>)
     = osOK
   \<and> stored_cal_gain (snd (sensor_gain_calibration
          \<lparr>set_config_status = (\<lambda>g t. osOK), start_status = osOK, callback = None,
           cal_light_accepted = (\<lambda>c. True), cal_gain_accepted = (\<lambda>c. True)\<rparr>
          k limits
          \<lparr>pending = replicate 193
             (osOK, \<lparr>ch0_val = 65535, ch1_val = 65535, gain = TSL2591_GAIN_HIGH,
                      time = TSL2591_TIME_200MS, reading_ticks = 0, reading_count = 0\<rparr>),
           light_mode = (SENSOR_LIGHT_OFF, False, 0), running = False,
           stored_cal_light = \<lparr>reflection = 128, transmission = 128\<rparr>,
           stored_cal_gain = \<lparr>ch0_medium = Fin 24.5, ch1_medium = Fin 24.5,
                               ch0_high = Fin 400, ch1_high = Fin 400,
                               ch0_maximum = Fin 9200, ch1_maximum = Fin 9900\<rparr>\<rparr>))
     = \<lparr>ch0_medium = NaN, ch1_medium = NaN, ch0_high = NaN, ch1_high = NaN,
        ch0_maximum = NaN, ch1_maximum = NaN\<rparr>"
proof -
  let ?env = "\<lparr>set_config_status = (\<lambda>g t. osOK), start_status = osOK, callback = None,
           cal_light_accepted = (\<lambda>c. True), cal_gain_accepted = (\<lambda>c. True)\<rparr>"
  let ?r = "\<lparr>ch0_val = 65535, ch1_val = 65535, gain = TSL2591_GAIN_HIGH,
             time = TSL2591_TIME_200MS, reading_ticks = 0, reading_count = 0 :: 32 word\<rparr>"
  let ?st = "\<lparr>pending = replicate 193 (osOK, ?r),
           light_mode = (SENSOR_LIGHT_OFF, False, 0), running = False,
           stored_cal_light = \<lparr>reflection = 128, transmission = 128\<rparr>,
           stored_cal_gain = \<lparr>ch0_medium = Fin 24.5, ch1_medium = Fin 24.5,
                               ch0_high = Fin 400, ch1_high = Fin 400,
                               ch0_maximum = Fin 9200, ch1_maximum = Fin 9900\<rparr>\<rparr>"
  let ?st1 = "sensor_set_light_mode SENSOR_LIGHT_OFF False 0 ?st"
  let ?st2 = "?st1\<lparr>running := True\<rparr>"
  have env: "callback ?env = None"
    "set_config_status ?env TSL2591_GAIN_HIGH TSL2591_TIME_200MS = osOK"
    "set_config_status ?env TSL2591_GAIN_MAXIMUM TSL2591_TIME_100MS = osOK"
    "start_status ?env = osOK"
    by simp_all
  have sat: "sensor_is_reading_saturated k ?r"
    by (rule saturated_at_full_scale) simp
  have "(193::nat) = Suc (3 * 64)" by simp
  hence "replicate 193 (osOK, ?r) = (osOK, ?r) # replicate (3 * 64) (osOK, ?r) @ []"
    by (simp only: replicate_Suc append_Nil2)
  hence "pending ?st2 = (osOK, ?r) # replicate (3 * 64) (osOK, ?r) @ []"
    by (simp add: sensor_set_light_mode_def)
  from find_gain_brightness_all_saturated[OF env(1,2) sat this]
  have "fst (gain_calibration_block ?env k limits ?st1)
       = (osOK, 0, \<lparr>ch0_medium = NaN, ch1_medium = NaN, ch0_high = NaN, ch1_high = NaN,
                     ch0_maximum = NaN, ch1_maximum = NaN\<rparr>)"
    by (rule gain_calibration_block_no_brightness[OF env(3,4)])
  from gain_calibration_stores_block_result[OF env(1) this]
  show ?thesis by simp
qed

text \<open>
  Beyond the claims: the range check by itself. A gain that is a number comes out within
  the bounds when the typical value lies within them, a gain outside the bounds comes
  out as the typical value, and NaN passes unchanged.
\<close>

theorem replace_out_of_range_bounds:
  "(lo \<le> typ \<and> typ \<le> hi \<and> \<not> isnanf g \<longrightarrow>
      fle (Fin lo) (replace_out_of_range g lo hi typ)
      \<and> fle (replace_out_of_range g lo hi typ) (Fin hi))
   \<and> (flt g (Fin lo) \<or> fgt g (Fin hi) \<longrightarrow> replace_out_of_range g lo hi typ = Fin typ)
   \<and> replace_out_of_range NaN lo hi typ = NaN"
  by (cases g) (auto simp: replace_out_of_range_def fgt_def)

text \<open>
  Witness: with bounds 22 and 27 and typical value 24.5, a measured gain of 1 is replaced
  by 24.5, and a measured gain of 25 stays within the bounds.
\<close>

theorem replace_out_of_range_bounds_witness:
  "replace_out_of_range (Fin 1) 22 27 24.5 = Fin 24.5
   \<and> fle (Fin 22) (replace_out_of_range (Fin 25) 22 27 24.5)
   \<and> fle (replace_out_of_range (Fin 25) 22 27 24.5) (Fin 27)"
  using replace_out_of_range_bounds[of 22 "24.5" 27 "Fin 1"]
    replace_out_of_range_bounds[of 22 "24.5" 27 "Fin 25"]
  by (simp add: fgt_def)

text \<open>
  Beyond the claims: once the first callback has let the calibration start, it ends with
  the sensor stopped and the light off, whatever happens in between.
\<close>

theorem gain_calibration_powers_down:
  "gain_status_callback env SENSOR_GAIN_CALIBRATION_STATUS_INIT 0 \<longrightarrow>
     running (snd (sensor_gain_calibration env k limits st)) = False
     \<and> light_mode (snd (sensor_gain_calibration env k limits st)) = (SENSOR_LIGHT_OFF, False, 0)"
  by (simp add: sensor_gain_calibration_def sensor_stop_def sensor_set_light_mode_def
      settings_set_cal_light_def settings_set_cal_gain_def Let_def split: prod.split)

text \<open>
  Witness: a run in which no reading arrives ends with the sensor stopped and the light
  off.
\<close>

theorem gain_calibration_powers_down_witness:
  "running (snd (sensor_gain_calibration
      \<lparr>set_config_status = (\<lambda>g t. osOK), start_status = osOK, callback = None,
       cal_light_accepted = (\<lambda>c. True), cal_gain_accepted = (\<lambda>c. True)\<rparr>
      \<lparr>TSL2591_ANALOG_SATURATION = 37888, TSL2591_DIGITAL_SATURATION = 65535\<rparr>
      \<lparr>TSL2591_GAIN_MEDIUM_MIN = 22, TSL2591_GAIN_MEDIUM_MAX = 27,
       TSL2591_GAIN_MEDIUM_TYP = 24.5, TSL2591_GAIN_HIGH_MIN = 360,
       TSL2591_GAIN_HIGH_MAX = 440, TSL2591_GAIN_HIGH_TYP = 400,
       TSL2591_GAIN_MAXIMUM_CH0_MIN = 8500, TSL2591_GAIN_MAXIMUM_CH0_MAX = 10500,
       TSL2591_GAIN_MAXIMUM_CH0_TYP = 9200, TSL2591_GAIN_MAXIMUM_CH1_MIN = 9100,
       TSL2591_GAIN_MAXIMUM_CH1_MAX = 11000, TSL2591_GAIN_MAXIMUM_CH1_TYP = 9900\<rparr>
      \<lparr>pending = [], light_mode = (SENSOR_LIGHT_TRANSMISSION, False, 128), running = True,
       stored_cal_light = \<lparr>reflection = 128, transmission = 128\<rparr>,
       stored_cal_gain = \<lparr>ch0_medium = NaN, ch1_medium = NaN, ch0_high = NaN,
                           ch1_high = NaN, ch0_maximum = NaN, ch1_maximum = NaN\<rparr>\<rparr>))
     = False
   \<and> light_mode (snd (sensor_gain_calibration
      \<lparr>set_config_status = (\<lambda>g t. osOK), start_status = osOK, callback = None,
       cal_light_accepted = (\<lambda>c. True), cal_gain_accepted = (\<lambda>c. True)\<rparr>
      \<lparr>TSL2591_ANALOG_SATURATION = 37888, TSL2591_DIGITAL_SATURATION = 65535\<rparr>
      \<lparr>TSL2591_GAIN_MEDIUM_MIN = 22, TSL2591_GAIN_MEDIUM_MAX = 27,
       TSL2591_GAIN_MEDIUM_TYP = 24.5, TSL2591_GAIN_HIGH_MIN = 360,
       TSL2591_GAIN_HIGH_MAX = 440, TSL2591_GAIN_HIGH_TYP = 400,
       TSL2591_GAIN_MAXIMUM_CH0_MIN = 8500, TSL2591_GAIN_MAXIMUM_CH0_MAX = 10500,
       TSL2591_GAIN_MAXIMUM_CH0_TYP = 9200, TSL2591_GAIN_MAXIMUM_CH1_MIN = 9100,
       TSL2591_GAIN_MAXIMUM_CH1_MAX = 11000, TSL2591_GAIN_MAXIMUM_CH1_TYP = 9900\<rparr>
      \<lparr>pending = [], light_mode = (SENSOR_LIGHT_TRANSMISSION, False, 128), running = True,
       stored_cal_light = \<lparr>reflection = 128, transmission = 128\<rparr>,
       stored_cal_gain = \<lparr>ch0_medium = NaN, ch1_medium = NaN, ch0_high = NaN,
                           ch1_high = NaN, ch0_maximum = NaN, ch1_maximum = NaN\<rparr>\<rparr>))
     = (SENSOR_LIGHT_OFF, False, 0)"
proof -
  let ?env = "\<lparr>set_config_status = (\<lambda>g t. osOK), start_status = osOK, callback = None,
       cal_light_accepted = (\<lambda>c. True), cal_gain_accepted = (\<lambda>c. True)\<rparr>"
  have "gain_status_callback ?env SENSOR_GAIN_CALIBRATION_STATUS_INIT 0"
    by (simp add: gain_status_callback_def)
  with gain_calibration_powers_down[of ?env] show ?thesis by blast
qed

section \<open>The calibration curve fit\<close>

lemma itemValueAsFloat_row_values:
  "row < length model \<Longrightarrow>
     itemValueAsFloat model row 0 = fst (row_values model ! row)
     \<and> itemValueAsFloat model row 1 = snd (row_values model ! row)"
  by (simp add: itemValueAsFloat_def row_values_def split: prod.split)

lemma calculate_rows_from:
  "0 < row \<Longrightarrow> length model - row = n \<Longrightarrow>
   calculate_rows model row xList yList base
     = (xList @ map (\<lambda>(density, reading). log10f reading)
                  (takeWhile (\<lambda>(density, reading). \<not> isnanf density \<and> \<not> isnanf reading)
                     (drop row (row_values model))),
        yList @ map (\<lambda>(density, reading). log10f (fdiv base (powf (Fin 10) density)))
                  (takeWhile (\<lambda>(density, reading). \<not> isnanf density \<and> \<not> isnanf reading)
                     (drop row (row_values model))))"
proof (induction n arbitrary: row xList yList)
  case 0
  hence "length model \<le> row" by simp
  thus ?case
    by (subst calculate_rows.simps) (simp add: row_values_def)
next
  case (Suc n)
  hence lt: "row < length model" by simp
  hence lt': "row < length (row_values model)" by (simp add: row_values_def)
  obtain density reading where v: "row_values model ! row = (density, reading)"
    by (cases "row_values model ! row")
  have items: "itemValueAsFloat model row 0 = density" "itemValueAsFloat model row (Suc 0) = reading"
    using itemValueAsFloat_row_values[OF lt] v by simp_all
  have dr: "drop row (row_values model) = (density, reading) # drop (Suc row) (row_values model)"
    using lt' v by (simp add: Cons_nth_drop_Suc [symmetric])
  have n: "length model - Suc row = n" using Suc.prems by simp
  show ?case
    using Suc.prems(1)
    by (subst calculate_rows.simps)
       (simp add: lt items dr Suc.IH[OF _ n] Let_def)
qed

lemma spec_usable_rows_eq:
  "spec_usable_rows model
     = takeWhile (\<lambda>(density, reading). \<not> isnanf density \<and> \<not> isnanf reading) (row_values model)"
  by (simp add: spec_usable_rows_def row_values_def)

lemma calculate_rows_empty:
  "spec_usable_rows model = [] \<Longrightarrow> calculate_rows model 0 [] [] NaN = ([], [])"
proof (cases model)
  case Nil
  thus ?thesis by (subst calculate_rows.simps) simp
next
  case (Cons c cs)
  assume e: "spec_usable_rows model = []"
  obtain density reading where v: "row_values model ! 0 = (density, reading)"
    by (cases "row_values model ! 0")
  have lt: "0 < length model" using Cons by simp
  have items: "itemValueAsFloat model 0 0 = density" "itemValueAsFloat model 0 (Suc 0) = reading"
    using itemValueAsFloat_row_values[OF lt] v by simp_all
  have "row_values model = (density, reading) # tl (row_values model)"
    using v Cons by (simp add: row_values_def)
  hence "isnanf density \<or> isnanf reading"
    using e unfolding spec_usable_rows_eq
    by (metis (mono_tags, lifting) case_prod_conv list.distinct(1) takeWhile.simps(2))
  moreover have "model \<noteq> []" using Cons by simp
  ultimately show ?thesis
    by (subst calculate_rows.simps) (auto simp: items Let_def)
qed

lemma calculate_rows_first:
  assumes u: "spec_usable_rows model = (density0, reading0) # rest"
  shows "calculate_rows model 0 [] [] NaN
     = (if flt density0 (Fin 0) \<or> fgt density0 (Fin float_0_001F) then ([], [])
        else (log10f reading0 # map (\<lambda>(density, reading). log10f reading) rest,
              log10f reading0
                # map (\<lambda>(density, reading). log10f (fdiv reading0 (powf (Fin 10) density))) rest))"
proof -
  have ne: "row_values model \<noteq> []" using u unfolding spec_usable_rows_eq by auto
  hence lt: "0 < length model" by (simp add: row_values_def)
  from ne obtain v vs where vs: "row_values model = v # vs" by (cases "row_values model") auto
  have v: "v = (density0, reading0)"
    and present: "\<not> isnanf density0" "\<not> isnanf reading0"
    and rest: "rest = takeWhile (\<lambda>(density, reading). \<not> isnanf density \<and> \<not> isnanf reading) vs"
    using u unfolding spec_usable_rows_eq vs by (auto split: if_splits)
  have items: "itemValueAsFloat model 0 0 = density0" "itemValueAsFloat model 0 (Suc 0) = reading0"
    using itemValueAsFloat_row_values[OF lt] vs v by simp_all
  have d1: "drop (Suc 0) (row_values model) = vs" by (simp add: vs)
  have one: "(0::nat) < Suc 0" by simp
  have m: "model \<noteq> []" using lt by simp
  show ?thesis
    by (subst calculate_rows.simps)
       (simp add: m items present calculate_rows_from[OF one refl] d1 rest Let_def)
qed

lemma upt_1_3: "[Suc 0 ..< 3] = [1, 2]" and upt_2_3: "[Suc (Suc 0) ..< 3] = [2]" "[2 ..< 3] = [2]"
  and upt_0_2: "[0 ..< 2] = [0, 1]" and upt_0_3: "[0 ..< 3] = [0, 1, 2]"
  and upt_0_4: "[0 ..< 4] = [0, 1, 2, 3]" and upt_0_5: "[0 ..< 5] = [0, 1, 2, 3, 4]"
  by (simp_all add: upt_rec)

lemma upt_0_3m1: "[0 ..< 3 - 1] = [0, 1::nat]"
  by (simp add: upt_rec)

lemma pivot_rows_3_0:
  "pivot_rows 3 0 [frow p, frow q, frow r] =
     (if \<bar>k0 p\<bar> < \<bar>k0 q\<bar>
      then (if \<bar>k0 q\<bar> < \<bar>k0 r\<bar> then [frow r, frow p, frow q] else [frow q, frow p, frow r])
      else (if \<bar>k0 p\<bar> < \<bar>k0 r\<bar> then [frow r, frow q, frow p] else [frow p, frow q, frow r]))"
  unfolding pivot_rows_def by (simp add: upt_1_3 frow_def)

lemma pivot_rows_3_1:
  "pivot_rows 3 1 [frow p, frow q, frow r] =
     (if \<bar>k1 q\<bar> < \<bar>k1 r\<bar> then [frow p, frow r, frow q] else [frow p, frow q, frow r])"
  unfolding pivot_rows_def by (simp add: upt_2_3 frow_def)

lemma eliminate_rows_3_0:
  "k0 p \<noteq> 0 \<Longrightarrow>
   eliminate_rows 3 4 0 [frow p, frow q, frow r]
     = [frow p, frow (eqn_minus (k0 q / k0 p) p q), frow (eqn_minus (k0 r / k0 p) p r)]"
  unfolding eliminate_rows_def
  by (simp add: upt_1_3 upt_0_4 frow_def eqn_minus_def fsub_def Let_def)

lemma eliminate_rows_3_1:
  "k1 q \<noteq> 0 \<Longrightarrow>
   eliminate_rows 3 4 1 [frow p, frow q, frow r]
     = [frow p, frow q, frow (eqn_minus (k1 r / k1 q) q r)]"
  unfolding eliminate_rows_def
  by (simp add: upt_2_3 upt_0_4 frow_def eqn_minus_def fsub_def Let_def)

lemma back_substitute_3:
  "k0 p \<noteq> 0 \<Longrightarrow> k1 q \<noteq> 0 \<Longrightarrow> k2 r \<noteq> 0 \<Longrightarrow>
   back_substitute 3 4 [frow p, frow q, frow r]
     = [Fin ((kr p - k1 p * ((kr q - k2 q * (kr r / k2 r)) / k1 q) - k2 p * (kr r / k2 r)) / k0 p),
        Fin ((kr q - k2 q * (kr r / k2 r)) / k1 q),
        Fin (kr r / k2 r)]"
  unfolding back_substitute_def
  by (simp add: upt_0_3 upt_1_3 upt_2_3 numeral_3_eq_3 frow_def fsub_def)

lemma solves_eqn_minus:
  assumes "solves x0 x1 x2 p"
  shows "solves x0 x1 x2 (eqn_minus t p q) = solves x0 x1 x2 q"
proof -
  have p: "k0 p * x0 + k1 p * x1 + k2 p * x2 = kr p"
    using assms by (simp add: solves_def)
  have "(k0 q - t * k0 p) * x0 + (k1 q - t * k1 p) * x1 + (k2 q - t * k2 p) * x2
        = (k0 q * x0 + k1 q * x1 + k2 q * x2) - t * (k0 p * x0 + k1 p * x1 + k2 p * x2)"
    by (simp add: algebra_simps)
  hence e: "(k0 q - t * k0 p) * x0 + (k1 q - t * k1 p) * x1 + (k2 q - t * k2 p) * x2
        = (k0 q * x0 + k1 q * x1 + k2 q * x2) - t * kr p"
    by (simp only: p)
  show ?thesis
    unfolding solves_def eqn_minus_def equation3.sel e by auto
qed

lemma det3_eqn_minus:
  "det3 p (eqn_minus t p q) r = det3 p q r"
  "det3 p q (eqn_minus t p r) = det3 p q r"
  "det3 p q (eqn_minus t q r) = det3 p q r"
  by (simp_all add: det3_def eqn_minus_def algebra_simps)

lemma det3_swap:
  "det3 q p r = - det3 p q r" "det3 r q p = - det3 p q r" "det3 p r q = - det3 p q r"
  "det3 r p q = det3 p q r"
  by (simp_all add: det3_def algebra_simps)

lemma det3_first_column:
  "k0 p = 0 \<Longrightarrow> k0 q = 0 \<Longrightarrow> k0 r = 0 \<Longrightarrow> det3 p q r = 0"
  by (simp add: det3_def)

lemma det3_triangular:
  "k0 q = 0 \<Longrightarrow> k0 r = 0 \<Longrightarrow> det3 p q r = k0 p * (k1 q * k2 r - k2 q * k1 r)"
  by (simp add: det3_def)

lemma pivot0_props:
  "\<exists>P Q R. pivot_rows 3 0 [frow a, frow b, frow c] = [frow P, frow Q, frow R]
     \<and> \<bar>k0 Q\<bar> \<le> \<bar>k0 P\<bar> \<and> \<bar>k0 R\<bar> \<le> \<bar>k0 P\<bar>
     \<and> (\<forall>x0 x1 x2. (solves x0 x1 x2 P \<and> solves x0 x1 x2 Q \<and> solves x0 x1 x2 R)
                      = (solves x0 x1 x2 a \<and> solves x0 x1 x2 b \<and> solves x0 x1 x2 c))
     \<and> \<bar>det3 P Q R\<bar> = \<bar>det3 a b c\<bar>"
proof -
  consider (rpq) "\<bar>k0 a\<bar> < \<bar>k0 b\<bar>" "\<bar>k0 b\<bar> < \<bar>k0 c\<bar>"
    | (qpr) "\<bar>k0 a\<bar> < \<bar>k0 b\<bar>" "\<not> \<bar>k0 b\<bar> < \<bar>k0 c\<bar>"
    | (rqp) "\<not> \<bar>k0 a\<bar> < \<bar>k0 b\<bar>" "\<bar>k0 a\<bar> < \<bar>k0 c\<bar>"
    | (pqr) "\<not> \<bar>k0 a\<bar> < \<bar>k0 b\<bar>" "\<not> \<bar>k0 a\<bar> < \<bar>k0 c\<bar>"
    by blast
  thus ?thesis
  proof cases
    case rpq
    have 1: "pivot_rows 3 0 [frow a, frow b, frow c] = [frow c, frow a, frow b]"
      using rpq by (simp add: pivot_rows_3_0)
    have 2: "\<bar>k0 a\<bar> \<le> \<bar>k0 c\<bar>" "\<bar>k0 b\<bar> \<le> \<bar>k0 c\<bar>" using rpq by linarith+
    have 3: "\<bar>det3 c a b\<bar> = \<bar>det3 a b c\<bar>" by (simp only: det3_swap(4)[where p=a and q=b and r=c])
    have 4: "(solves x0 x1 x2 c \<and> solves x0 x1 x2 a \<and> solves x0 x1 x2 b)
           = (solves x0 x1 x2 a \<and> solves x0 x1 x2 b \<and> solves x0 x1 x2 c)" for x0 x1 x2
      by blast
    show ?thesis
      by (intro exI[of _ c] exI[of _ a] exI[of _ b] conjI allI 1 2 3 4)
  next
    case qpr
    have 1: "pivot_rows 3 0 [frow a, frow b, frow c] = [frow b, frow a, frow c]"
      using qpr by (simp add: pivot_rows_3_0)
    have 2: "\<bar>k0 a\<bar> \<le> \<bar>k0 b\<bar>" "\<bar>k0 c\<bar> \<le> \<bar>k0 b\<bar>" using qpr by linarith+
    have 3: "\<bar>det3 b a c\<bar> = \<bar>det3 a b c\<bar>" by (simp only: det3_swap(1)[where p=a and q=b and r=c] abs_minus_cancel)
    have 4: "(solves x0 x1 x2 b \<and> solves x0 x1 x2 a \<and> solves x0 x1 x2 c)
           = (solves x0 x1 x2 a \<and> solves x0 x1 x2 b \<and> solves x0 x1 x2 c)" for x0 x1 x2
      by blast
    show ?thesis
      by (intro exI[of _ b] exI[of _ a] exI[of _ c] conjI allI 1 2 3 4)
  next
    case rqp
    have 1: "pivot_rows 3 0 [frow a, frow b, frow c] = [frow c, frow b, frow a]"
      using rqp by (simp add: pivot_rows_3_0)
    have 2: "\<bar>k0 b\<bar> \<le> \<bar>k0 c\<bar>" "\<bar>k0 a\<bar> \<le> \<bar>k0 c\<bar>" using rqp by linarith+
    have 3: "\<bar>det3 c b a\<bar> = \<bar>det3 a b c\<bar>" by (simp only: det3_swap(2)[where p=a and q=b and r=c] abs_minus_cancel)
    have 4: "(solves x0 x1 x2 c \<and> solves x0 x1 x2 b \<and> solves x0 x1 x2 a)
           = (solves x0 x1 x2 a \<and> solves x0 x1 x2 b \<and> solves x0 x1 x2 c)" for x0 x1 x2
      by blast
    show ?thesis
      by (intro exI[of _ c] exI[of _ b] exI[of _ a] conjI allI 1 2 3 4)
  next
    case pqr
    have 1: "pivot_rows 3 0 [frow a, frow b, frow c] = [frow a, frow b, frow c]"
      using pqr by (simp add: pivot_rows_3_0)
    have 2: "\<bar>k0 b\<bar> \<le> \<bar>k0 a\<bar>" "\<bar>k0 c\<bar> \<le> \<bar>k0 a\<bar>" using pqr by linarith+
    show ?thesis
      by (intro exI[of _ a] exI[of _ b] exI[of _ c] conjI allI 1 2 refl)
  qed
qed

lemma pivot1_props:
  "\<exists>S T. pivot_rows 3 1 [frow p, frow q, frow r] = [frow p, frow S, frow T]
     \<and> \<bar>k1 T\<bar> \<le> \<bar>k1 S\<bar>
     \<and> (k0 q = 0 \<and> k0 r = 0 \<longrightarrow> k0 S = 0 \<and> k0 T = 0)
     \<and> (\<forall>x0 x1 x2. (solves x0 x1 x2 S \<and> solves x0 x1 x2 T)
                      = (solves x0 x1 x2 q \<and> solves x0 x1 x2 r))
     \<and> \<bar>det3 p S T\<bar> = \<bar>det3 p q r\<bar>"
proof (cases "\<bar>k1 q\<bar> < \<bar>k1 r\<bar>")
  case True
  have 1: "pivot_rows 3 1 [frow p, frow q, frow r] = [frow p, frow r, frow q]"
    by (simp only: pivot_rows_3_1 True if_True)
  have 2: "\<bar>k1 q\<bar> \<le> \<bar>k1 r\<bar>" using True by linarith
  have 3: "\<bar>det3 p r q\<bar> = \<bar>det3 p q r\<bar>" by (simp only: det3_swap(3)[where p=p and q=q and r=r] abs_minus_cancel)
  have 4: "(solves x0 x1 x2 r \<and> solves x0 x1 x2 q) = (solves x0 x1 x2 q \<and> solves x0 x1 x2 r)"
    for x0 x1 x2 by blast
  have 5: "k0 q = 0 \<and> k0 r = 0 \<longrightarrow> k0 r = 0 \<and> k0 q = 0" by blast
  show ?thesis
    by (intro exI[of _ r] exI[of _ q] conjI allI 1 2 3 4 5)
next
  case False
  have 1: "pivot_rows 3 1 [frow p, frow q, frow r] = [frow p, frow q, frow r]"
    by (simp only: pivot_rows_3_1 False if_False)
  have 2: "\<bar>k1 r\<bar> \<le> \<bar>k1 q\<bar>" using False by linarith
  have 5: "k0 q = 0 \<and> k0 r = 0 \<longrightarrow> k0 q = 0 \<and> k0 r = 0" by blast
  show ?thesis
    by (intro exI[of _ q] exI[of _ r] conjI allI 1 2 5 refl)
qed

lemma gaussEliminationLS_3:
  assumes det: "det3 a b c \<noteq> 0"
  shows "\<exists>x0 x1 x2. gaussEliminationLS 3 4 [frow a, frow b, frow c] = [Fin x0, Fin x1, Fin x2]
           \<and> solves x0 x1 x2 a \<and> solves x0 x1 x2 b \<and> solves x0 x1 x2 c"
proof -
  obtain P Q R where piv0: "pivot_rows 3 0 [frow a, frow b, frow c] = [frow P, frow Q, frow R]"
    and mx0: "\<bar>k0 Q\<bar> \<le> \<bar>k0 P\<bar>" "\<bar>k0 R\<bar> \<le> \<bar>k0 P\<bar>"
    and sol0: "\<And>x0 x1 x2. (solves x0 x1 x2 P \<and> solves x0 x1 x2 Q \<and> solves x0 x1 x2 R)
                      = (solves x0 x1 x2 a \<and> solves x0 x1 x2 b \<and> solves x0 x1 x2 c)"
    and det0: "\<bar>det3 P Q R\<bar> = \<bar>det3 a b c\<bar>"
    using pivot0_props[of a b c] by blast
  have dPQR: "det3 P Q R \<noteq> 0" using det det0 by auto
  have P0: "k0 P \<noteq> 0"
  proof
    assume z: "k0 P = 0"
    hence "k0 Q = 0" "k0 R = 0" using mx0 by auto
    with z dPQR show False by (simp add: det3_first_column)
  qed
  define Q' where "Q' = eqn_minus (k0 Q / k0 P) P Q"
  define R' where "R' = eqn_minus (k0 R / k0 P) P R"
  have el0: "eliminate_rows 3 4 0 [frow P, frow Q, frow R] = [frow P, frow Q', frow R']"
    unfolding Q'_def R'_def using P0 by (rule eliminate_rows_3_0)
  have z0: "k0 Q' = 0" "k0 R' = 0"
    using P0 by (simp_all add: Q'_def R'_def eqn_minus_def)
  have d1: "det3 P Q' R' = det3 P Q R"
    by (simp add: Q'_def R'_def det3_eqn_minus)
  obtain S T where piv1: "pivot_rows 3 1 [frow P, frow Q', frow R'] = [frow P, frow S, frow T]"
    and mx1: "\<bar>k1 T\<bar> \<le> \<bar>k1 S\<bar>"
    and z1: "k0 S = 0" "k0 T = 0"
    and sol1: "\<And>x0 x1 x2. (solves x0 x1 x2 S \<and> solves x0 x1 x2 T)
                      = (solves x0 x1 x2 Q' \<and> solves x0 x1 x2 R')"
    and det1: "\<bar>det3 P S T\<bar> = \<bar>det3 P Q' R'\<bar>"
    using pivot1_props[of P Q' R'] z0 by blast
  have dPST: "det3 P S T \<noteq> 0" using det1 d1 dPQR by auto
  have S1: "k1 S \<noteq> 0"
  proof
    assume z: "k1 S = 0"
    hence "k1 T = 0" using mx1 by auto
    with z dPST z1 show False by (simp add: det3_triangular)
  qed
  define T' where "T' = eqn_minus (k1 T / k1 S) S T"
  have el1: "eliminate_rows 3 4 1 [frow P, frow S, frow T] = [frow P, frow S, frow T']"
    unfolding T'_def using S1 by (rule eliminate_rows_3_1)
  have zT: "k0 T' = 0" "k1 T' = 0"
    using S1 z1 by (simp_all add: T'_def eqn_minus_def)
  have "det3 P S T' = det3 P S T" by (simp add: T'_def det3_eqn_minus)
  moreover have "det3 P S T' = k0 P * (k1 S * k2 T')"
    using z1 zT by (simp add: det3_triangular)
  ultimately have T2: "k2 T' \<noteq> 0" using dPST by auto
  define x2 where "x2 = kr T' / k2 T'"
  define x1 where "x1 = (kr S - k2 S * x2) / k1 S"
  define x0 where "x0 = (kr P - k1 P * x1 - k2 P * x2) / k0 P"
  have "gaussEliminationLS 3 4 [frow a, frow b, frow c] = back_substitute 3 4 [frow P, frow S, frow T']"
    unfolding gaussEliminationLS_def upt_0_3m1 by (simp only: foldl.simps piv0 el0 piv1 el1)
  also have "\<dots> = [Fin x0, Fin x1, Fin x2]"
    unfolding x0_def x1_def x2_def using P0 S1 T2 by (rule back_substitute_3)
  finally have res: "gaussEliminationLS 3 4 [frow a, frow b, frow c] = [Fin x0, Fin x1, Fin x2]" .
  have sT': "solves x0 x1 x2 T'"
    using T2 zT by (simp add: solves_def x2_def)
  have sS: "solves x0 x1 x2 S"
    using S1 z1 by (simp add: solves_def x1_def)
  have sP: "solves x0 x1 x2 P"
    using P0 by (simp add: solves_def x0_def)
  have sT: "solves x0 x1 x2 T"
    using sT' solves_eqn_minus[OF sS] by (simp add: T'_def)
  have "solves x0 x1 x2 Q'" "solves x0 x1 x2 R'"
    using sol1[of x0 x1 x2] sS sT by simp_all
  hence "solves x0 x1 x2 Q" "solves x0 x1 x2 R"
    using solves_eqn_minus[OF sP] by (simp_all add: Q'_def R'_def)
  hence "solves x0 x1 x2 a \<and> solves x0 x1 x2 b \<and> solves x0 x1 x2 c"
    using sol0[of x0 x1 x2] sP by simp
  with res show ?thesis by blast
qed

lemma fold_powers:
  "foldl (\<lambda>acc x. fadd acc (powf x (Fin (real i)))) (Fin a) (map Fin xr)
     = Fin (a + (\<Sum>x\<leftarrow>xr. x ^ i))"
  by (induction xr arbitrary: a) (simp_all add: powf_nat_power add.assoc del: powf.simps)

lemma fold_products:
  "foldl (\<lambda>acc (x, y). fadd acc (fmul (powf x (Fin (real i))) y)) (Fin a)
         (zip (map Fin xr) (map Fin yr))
     = Fin (a + spec_moment_sum i (zip xr yr))"
proof (induction xr arbitrary: a yr)
  case Nil
  show ?case by (simp add: spec_moment_sum_def)
next
  case (Cons x xr)
  show ?case
  proof (cases yr)
    case Nil
    thus ?thesis by (simp add: spec_moment_sum_def)
  next
    case (Cons y ys)
    have "spec_moment_sum i (zip (x # xr) (y # ys)) = x ^ i * y + spec_moment_sum i (zip xr ys)"
      by (simp add: spec_moment_sum_def)
    thus ?thesis
      unfolding Cons by (simp add: Cons.IH powf_nat_power add.assoc del: powf.simps)
  qed
qed

lemma fold_powers_sum:
  "foldl (\<lambda>acc x. fadd acc (powf x (Fin (real i)))) (Fin 0) (map Fin xr)
     = Fin (spec_power_sum i xr)"
  using fold_powers[of i 0 xr] by (simp only: add_0 spec_power_sum_def)

lemma fold_products_sum:
  "foldl (\<lambda>acc (x, y). fadd acc (fmul (powf x (Fin (real i))) y)) (Fin 0)
         (zip (map Fin xr) (map Fin yr))
     = Fin (spec_moment_sum i (zip xr yr))"
  using fold_products[of i 0 xr yr] by (simp only: add_0)

lemma polyfit_Fin:
  assumes "xr \<noteq> []" "length xr = length yr"
  shows "polyfit (map Fin xr) (map Fin yr)
     = (gaussEliminationLS 3 4
          [frow (Eqn (spec_power_sum 0 xr) (spec_power_sum 1 xr) (spec_power_sum 2 xr)
                   (spec_moment_sum 0 (zip xr yr))),
           frow (Eqn (spec_power_sum 1 xr) (spec_power_sum 2 xr) (spec_power_sum 3 xr)
                   (spec_moment_sum 1 (zip xr yr))),
           frow (Eqn (spec_power_sum 2 xr) (spec_power_sum 3 xr) (spec_power_sum 4 xr)
                   (spec_moment_sum 2 (zip xr yr)))] ! 0,
        gaussEliminationLS 3 4
          [frow (Eqn (spec_power_sum 0 xr) (spec_power_sum 1 xr) (spec_power_sum 2 xr)
                   (spec_moment_sum 0 (zip xr yr))),
           frow (Eqn (spec_power_sum 1 xr) (spec_power_sum 2 xr) (spec_power_sum 3 xr)
                   (spec_moment_sum 1 (zip xr yr))),
           frow (Eqn (spec_power_sum 2 xr) (spec_power_sum 3 xr) (spec_power_sum 4 xr)
                   (spec_moment_sum 2 (zip xr yr)))] ! 1,
        gaussEliminationLS 3 4
          [frow (Eqn (spec_power_sum 0 xr) (spec_power_sum 1 xr) (spec_power_sum 2 xr)
                   (spec_moment_sum 0 (zip xr yr))),
           frow (Eqn (spec_power_sum 1 xr) (spec_power_sum 2 xr) (spec_power_sum 3 xr)
                   (spec_moment_sum 1 (zip xr yr))),
           frow (Eqn (spec_power_sum 2 xr) (spec_power_sum 3 xr) (spec_power_sum 4 xr)
                   (spec_moment_sum 2 (zip xr yr)))] ! 2)"
proof -
  have X: "map (\<lambda>i. foldl (\<lambda>acc x. fadd acc (powf x (Fin (real i)))) (Fin 0) (map Fin xr))
             [0 ..< 5]
           = [Fin (spec_power_sum 0 xr), Fin (spec_power_sum 1 xr), Fin (spec_power_sum 2 xr),
              Fin (spec_power_sum 3 xr), Fin (spec_power_sum 4 xr)]"
    by (simp only: upt_0_5 list.map fold_powers_sum)
  have Y: "map (\<lambda>i. foldl (\<lambda>acc (x, y). fadd acc (fmul (powf x (Fin (real i))) y)) (Fin 0)
                       (zip (map Fin xr) (map Fin yr))) [0 ..< 3]
           = [Fin (spec_moment_sum 0 (zip xr yr)), Fin (spec_moment_sum 1 (zip xr yr)),
              Fin (spec_moment_sum 2 (zip xr yr))]"
    by (simp only: upt_0_3 list.map fold_products_sum)
  have ne: "\<not> (map Fin xr = [] \<or> length (map Fin xr) \<noteq> length (map Fin yr))"
    using assms by simp
  show ?thesis
    unfolding polyfit_def X Y
    by (simp only: ne if_False Let_def) (simp add: upt_0_3 frow_def)
qed

lemma squared_error_diff:
  "spec_squared_error c0 c1 c2 ps - spec_squared_error a0 a1 a2 ps
     = (\<Sum>(x, y)\<leftarrow>ps. ((c0 - a0) + (c1 - a1) * x + (c2 - a2) * x\<^sup>2)\<^sup>2)
       + 2 * ((c0 - a0) * (spec_power_sum 0 (map fst ps) * a0 + spec_power_sum 1 (map fst ps) * a1
                            + spec_power_sum 2 (map fst ps) * a2 - spec_moment_sum 0 ps)
              + (c1 - a1) * (spec_power_sum 1 (map fst ps) * a0 + spec_power_sum 2 (map fst ps) * a1
                            + spec_power_sum 3 (map fst ps) * a2 - spec_moment_sum 1 ps)
              + (c2 - a2) * (spec_power_sum 2 (map fst ps) * a0 + spec_power_sum 3 (map fst ps) * a1
                            + spec_power_sum 4 (map fst ps) * a2 - spec_moment_sum 2 ps))"
proof (induction ps)
  case Nil
  show ?case by (simp add: spec_squared_error_def spec_power_sum_def spec_moment_sum_def)
next
  case (Cons p ps)
  obtain x y where p: "p = (x, y)" by (cases p)
  have pw: "x ^ 3 = x * x * x" "x ^ 4 = x * x * x * x"
    by (simp_all add: power3_eq_cube power4_eq_xxxx)
  have point: "(c0 + c1 * x + c2 * x\<^sup>2 - y)\<^sup>2 - (a0 + a1 * x + a2 * x\<^sup>2 - y)\<^sup>2
      = ((c0 - a0) + (c1 - a1) * x + (c2 - a2) * x\<^sup>2)\<^sup>2
        + 2 * ((c0 - a0) * (1 * a0 + x * a1 + x\<^sup>2 * a2 - y)
               + (c1 - a1) * (x * a0 + x\<^sup>2 * a1 + x ^ 3 * a2 - x * y)
               + (c2 - a2) * (x\<^sup>2 * a0 + x ^ 3 * a1 + x ^ 4 * a2 - x\<^sup>2 * y))"
    unfolding pw by (simp add: power2_eq_square algebra_simps)
  have sums: "spec_power_sum k (map fst (p # ps)) = x ^ k + spec_power_sum k (map fst ps)"
             "spec_moment_sum k (p # ps) = x ^ k * y + spec_moment_sum k ps" for k
    by (simp_all add: spec_power_sum_def spec_moment_sum_def p)
  have "spec_squared_error c0 c1 c2 (p # ps) - spec_squared_error a0 a1 a2 (p # ps)
      = ((c0 + c1 * x + c2 * x\<^sup>2 - y)\<^sup>2 - (a0 + a1 * x + a2 * x\<^sup>2 - y)\<^sup>2)
        + (spec_squared_error c0 c1 c2 ps - spec_squared_error a0 a1 a2 ps)"
    by (simp add: spec_squared_error_def p)
  also note point
  also note Cons.IH
  finally show ?case
    unfolding sums by (simp add: p algebra_simps)
qed

lemma polyfit_least_squares:
  assumes len: "length xr = length yr" and det: "spec_normal_det xr \<noteq> 0"
  shows "\<exists>a0 a1 a2. polyfit (map Fin xr) (map Fin yr) = (Fin a0, Fin a1, Fin a2)
           \<and> (\<forall>c0 c1 c2. spec_squared_error a0 a1 a2 (zip xr yr)
                            \<le> spec_squared_error c0 c1 c2 (zip xr yr))"
proof -
  let ?S = "\<lambda>k. spec_power_sum k xr"
  let ?T = "\<lambda>k. spec_moment_sum k (zip xr yr)"
  let ?e0 = "Eqn (?S 0) (?S 1) (?S 2) (?T 0)"
  let ?e1 = "Eqn (?S 1) (?S 2) (?S 3) (?T 1)"
  let ?e2 = "Eqn (?S 2) (?S 3) (?S 4) (?T 2)"
  have ne: "xr \<noteq> []"
    using det by (auto simp: spec_normal_det_def spec_power_sum_def)
  have "det3 ?e0 ?e1 ?e2 = spec_normal_det xr"
    by (simp add: det3_def spec_normal_det_def Let_def)
  hence "det3 ?e0 ?e1 ?e2 \<noteq> 0" using det by simp
  from gaussEliminationLS_3[OF this]
  obtain a0 a1 a2 where g: "gaussEliminationLS 3 4 [frow ?e0, frow ?e1, frow ?e2]
        = [Fin a0, Fin a1, Fin a2]"
    and s: "solves a0 a1 a2 ?e0" "solves a0 a1 a2 ?e1" "solves a0 a1 a2 ?e2"
    by blast
  have fit: "polyfit (map Fin xr) (map Fin yr) = (Fin a0, Fin a1, Fin a2)"
    unfolding polyfit_Fin[OF ne len] g by simp
  have S: "map fst (zip xr yr) = xr"
    using len by simp
  have n: "?S 0 * a0 + ?S 1 * a1 + ?S 2 * a2 - ?T 0 = 0"
          "?S 1 * a0 + ?S 2 * a1 + ?S 3 * a2 - ?T 1 = 0"
          "?S 2 * a0 + ?S 3 * a1 + ?S 4 * a2 - ?T 2 = 0"
    using s by (simp_all add: solves_def)
  have "spec_squared_error a0 a1 a2 (zip xr yr) \<le> spec_squared_error c0 c1 c2 (zip xr yr)"
    for c0 c1 c2
  proof -
    have "0 \<le> (\<Sum>(x, y)\<leftarrow>zip xr yr. ((c0 - a0) + (c1 - a1) * x + (c2 - a2) * x\<^sup>2)\<^sup>2)"
      by (rule sum_list_nonneg) auto
    moreover have "spec_squared_error c0 c1 c2 (zip xr yr) - spec_squared_error a0 a1 a2 (zip xr yr)
        = (\<Sum>(x, y)\<leftarrow>zip xr yr. ((c0 - a0) + (c1 - a1) * x + (c2 - a2) * x\<^sup>2)\<^sup>2)"
      unfolding squared_error_diff S n by simp
    ultimately show ?thesis by linarith
  qed
  with fit show ?thesis by blast
qed

text \<open>
  Claim C6. The rows the fit consumes are the longest prefix of the table in which both
  the density and the reading are present. With no such row, or with a first density
  outside \<open>[0, 0.001]\<close>, there is no result: the dialog is left as it was; the bound is
  the constant the code compares with, \<^verbatim>\<open>0.001F\<close>, which is what the text 0.001 in a
  cell is read as. Otherwise \<open>x\<^sub>0 = y\<^sub>0 = log10 reading\<^sub>0\<close>, and for the later rows
  \<open>x\<^sub>i = log10 reading\<^sub>i\<close> and \<open>y\<^sub>i = log10 (reading\<^sub>0 / 10 ^ density\<^sub>i)\<close>; with fewer than 5
  rows there is no result, with 5 or more the dialog holds the three coefficients
  \<open>polyfit\<close> returns for these lists. Those are the fitted coefficients: whenever the
  x- and y-values are numbers and the normal matrix of the x-values is not singular,
  \<open>polyfit\<close> returns three numbers, and no quadratic has a smaller sum of squared
  residuals on the data than the one with these coefficients. Calculating twice from the
  same table gives what calculating once gives.
\<close>

theorem C6_curve_fit:
  "(spec_usable_rows model = [] \<longrightarrow> onCalculateResults model d = d)
   \<and> (\<forall>density0 reading0 rest.
        spec_usable_rows model = (density0, reading0) # rest \<longrightarrow>
        (\<not> (fle (Fin 0) density0 \<and> fle density0 (Fin float_0_001F)) \<longrightarrow>
           onCalculateResults model d = d)
        \<and> (fle (Fin 0) density0 \<and> fle density0 (Fin float_0_001F) \<longrightarrow>
             calculate_rows model 0 [] [] NaN
               = (log10f reading0 # map (\<lambda>(density, reading). log10f reading) rest,
                  log10f reading0
                    # map (\<lambda>(density, reading).
                             log10f (fdiv reading0 (powf (Fin 10) density))) rest)
             \<and> (length rest + 1 < 5 \<longrightarrow> onCalculateResults model d = d)
             \<and> (5 \<le> length rest + 1 \<longrightarrow>
                  onCalculateResults model d
                    = d\<lparr>calValues :=
                          polyfit (log10f reading0 # map (\<lambda>(density, reading). log10f reading) rest)
                            (log10f reading0
                               # map (\<lambda>(density, reading).
                                        log10f (fdiv reading0 (powf (Fin 10) density))) rest),
                        lineEdits :=
                          Some (polyfit
                            (log10f reading0 # map (\<lambda>(density, reading). log10f reading) rest)
                            (log10f reading0
                               # map (\<lambda>(density, reading).
                                        log10f (fdiv reading0 (powf (Fin 10) density))) rest)),
                        okEnabled := True\<rparr>)))
   \<and> (\<forall>xr yr.
        length xr = length yr \<and> spec_normal_det xr \<noteq> 0 \<longrightarrow>
        (\<exists>a0 a1 a2.
           polyfit (map Fin xr) (map Fin yr) = (Fin a0, Fin a1, Fin a2)
           \<and> (\<forall>c0 c1 c2. spec_squared_error a0 a1 a2 (zip xr yr)
                            \<le> spec_squared_error c0 c1 c2 (zip xr yr))))
   \<and> onCalculateResults model (onCalculateResults model d) = onCalculateResults model d"
proof (intro conjI allI impI)
  assume "spec_usable_rows model = []"
  thus "onCalculateResults model d = d"
    by (simp add: onCalculateResults_def calculate_rows_empty)
next
  fix density0 reading0 rest
  assume u: "spec_usable_rows model = (density0, reading0) # rest"
  hence "(density0, reading0) \<in> set (spec_usable_rows model)" by simp
  hence present: "\<not> isnanf density0"
    unfolding spec_usable_rows_def by (auto dest: set_takeWhileD)
  note first = calculate_rows_first[OF u]
  {
    assume "\<not> (fle (Fin 0) density0 \<and> fle density0 (Fin float_0_001F))"
    hence "flt density0 (Fin 0) \<or> fgt density0 (Fin float_0_001F)"
      using in_range_iff[OF present] by blast
    thus "onCalculateResults model d = d"
      by (simp add: onCalculateResults_def first)
  }
  assume "fle (Fin 0) density0 \<and> fle density0 (Fin float_0_001F)"
  hence ok: "\<not> (flt density0 (Fin 0) \<or> fgt density0 (Fin float_0_001F))"
    using in_range_iff[OF present] by blast
  show rows: "calculate_rows model 0 [] [] NaN
               = (log10f reading0 # map (\<lambda>(density, reading). log10f reading) rest,
                  log10f reading0
                    # map (\<lambda>(density, reading).
                             log10f (fdiv reading0 (powf (Fin 10) density))) rest)"
    using ok by (simp only: first if_False)
  {
    assume "length rest + 1 < 5"
    thus "onCalculateResults model d = d"
      by (simp add: onCalculateResults_def rows)
  }
  assume "5 \<le> length rest + 1"
  thus "onCalculateResults model d
          = d\<lparr>calValues :=
                polyfit (log10f reading0 # map (\<lambda>(density, reading). log10f reading) rest)
                  (log10f reading0
                     # map (\<lambda>(density, reading).
                              log10f (fdiv reading0 (powf (Fin 10) density))) rest),
              lineEdits :=
                Some (polyfit
                  (log10f reading0 # map (\<lambda>(density, reading). log10f reading) rest)
                  (log10f reading0
                     # map (\<lambda>(density, reading).
                              log10f (fdiv reading0 (powf (Fin 10) density))) rest)),
              okEnabled := True\<rparr>"
    by (simp add: onCalculateResults_def rows Let_def)
next
  fix xr yr :: "real list"
  assume "length xr = length yr \<and> spec_normal_det xr \<noteq> 0"
  hence "length xr = length yr" "spec_normal_det xr \<noteq> 0" by simp_all
  thus "\<exists>a0 a1 a2.
           polyfit (map Fin xr) (map Fin yr) = (Fin a0, Fin a1, Fin a2)
           \<and> (\<forall>c0 c1 c2. spec_squared_error a0 a1 a2 (zip xr yr)
                            \<le> spec_squared_error c0 c1 c2 (zip xr yr))"
    by (rule polyfit_least_squares)
next
  show "onCalculateResults model (onCalculateResults model d) = onCalculateResults model d"
    by (simp add: onCalculateResults_def Let_def split: prod.split)
qed

lemma polyfit_unit_slope:
  "polyfit [Fin 6, Fin 5, Fin 4, Fin 3, Fin 2] [Fin 6, Fin 5, Fin 4, Fin 3, Fin 2]
     = (Fin 0, Fin 1, Fin 0)"
proof -
  have u5: "[0..<5] = [0, 1, 2, 3, 4]" and u3: "[0..<3] = [0, 1, 2]"
    by (simp_all add: upt_rec)
  have X: "map (\<lambda>i. foldl (\<lambda>acc x. fadd acc (powf x (Fin (real i)))) (Fin 0)
                       [Fin 6, Fin 5, Fin 4, Fin 3, Fin 2]) [0 ..< 5]
             = [Fin 5, Fin 20, Fin 90, Fin 440, Fin 2274]"
    unfolding u5 by (simp add: powf_nat_power del: powf.simps)
  have Y: "map (\<lambda>i. foldl (\<lambda>acc (x, y). fadd acc (fmul (powf x (Fin (real i))) y)) (Fin 0)
                       (zip [Fin 6, Fin 5, Fin 4, Fin 3, Fin 2]
                            [Fin 6, Fin 5, Fin 4, Fin 3, Fin 2])) [0 ..< 3]
             = [Fin 20, Fin 90, Fin 440]"
    unfolding u3 by (simp add: powf_nat_power del: powf.simps)
  have B: "map (\<lambda>i. map (\<lambda>j. [Fin 5, Fin 20, Fin 90, Fin 440, Fin 2274] ! (i + j)) [0 ..< 3]
                       @ [[Fin 20, Fin 90, Fin 440] ! i]) [0 ..< 3]
             = [[Fin 5, Fin 20, Fin 90, Fin 20], [Fin 20, Fin 90, Fin 440, Fin 90],
                [Fin 90, Fin 440, Fin 2274, Fin 440]]"
    unfolding u3 by simp
  have G: "gaussEliminationLS 3 4
             [[Fin 5, Fin 20, Fin 90, Fin 20], [Fin 20, Fin 90, Fin 440, Fin 90],
              [Fin 90, Fin 440, Fin 2274, Fin 440]]
             = [Fin 0, Fin 1, Fin 0]"
  proof -
    have r: "replicate 3 NaN = [NaN, NaN, NaN]" by (simp add: numeral_3_eq_3)
    show ?thesis
      unfolding gaussEliminationLS_def back_substitute_def r
      by (simp add: pivot_rows_def eliminate_rows_def upt_rec fsub_def Let_def)
  qed
  show ?thesis
    unfolding polyfit_def by (simp only: X Y B G Let_def) simp
qed

text \<open>
  Witness of C6: the five rows (0, 1000000), (1, 100000), (2, 10000), (3, 1000),
  (4, 100) in a table of 22 rows give \<open>x = y = [6, 5, 4, 3, 2]\<close> and the coefficients
  (0, 1, 0), and no quadratic has a smaller sum of squared residuals on these data; the
  first four of the rows alone give no result.
\<close>

theorem C6_curve_fit_witness:
  "calValues (onCalculateResults
      ([(Some (Fin 0), Some (Fin 1000000)), (Some (Fin 1), Some (Fin 100000)),
        (Some (Fin 2), Some (Fin 10000)), (Some (Fin 3), Some (Fin 1000)),
        (Some (Fin 4), Some (Fin 100))] @ replicate 17 (None, None))
      \<lparr>calValues = (NaN, NaN, NaN), lineEdits = None, okEnabled = False\<rparr>)
     = (Fin 0, Fin 1, Fin 0)
   \<and> (\<forall>c0 c1 c2. spec_squared_error 0 1 0 (zip [6, 5, 4, 3, 2] [6, 5, 4, 3, 2])
                    \<le> spec_squared_error c0 c1 c2 (zip [6, 5, 4, 3, 2] [6, 5, 4, 3, 2]))
   \<and> onCalculateResults
      ([(Some (Fin 0), Some (Fin 1000000)), (Some (Fin 1), Some (Fin 100000)),
        (Some (Fin 2), Some (Fin 10000)), (Some (Fin 3), Some (Fin 1000))]
       @ replicate 18 (None, None))
      \<lparr>calValues = (NaN, NaN, NaN), lineEdits = None, okEnabled = False\<rparr>
     = \<lparr>calValues = (NaN, NaN, NaN), lineEdits = None, okEnabled = False\<rparr>"
proof -
  let ?d = "\<lparr>calValues = (NaN, NaN, NaN), lineEdits = None, okEnabled = False\<rparr>"
  let ?m5 = "[(Some (Fin 0), Some (Fin 1000000)), (Some (Fin 1), Some (Fin 100000)),
        (Some (Fin 2), Some (Fin 10000)), (Some (Fin 3), Some (Fin 1000)),
        (Some (Fin 4), Some (Fin 100))] @ replicate 17 (None, None)"
  let ?m4 = "[(Some (Fin 0), Some (Fin 1000000)), (Some (Fin 1), Some (Fin 100000)),
        (Some (Fin 2), Some (Fin 10000)), (Some (Fin 3), Some (Fin 1000))]
       @ replicate 18 (None, None)"
  let ?xr = "[6, 5, 4, 3, 2] :: real list"
  have r: "replicate 17 (None, None) = (None, None) # replicate 16 (None, None)"
    "replicate 18 (None, None) = (None, None) # replicate 17 (None, None)"
    by (simp_all add: eval_nat_numeral)
  have u5: "spec_usable_rows ?m5
      = (Fin 0, Fin 1000000) # [(Fin 1, Fin 100000), (Fin 2, Fin 10000), (Fin 3, Fin 1000),
                                (Fin 4, Fin 100)]"
    unfolding r by (simp add: spec_usable_rows_def)
  have u4: "spec_usable_rows ?m4
      = (Fin 0, Fin 1000000) # [(Fin 1, Fin 100000), (Fin 2, Fin 10000), (Fin 3, Fin 1000)]"
    unfolding r by (simp add: spec_usable_rows_def)
  have xs: "log10f (Fin 1000000) # map (\<lambda>(density, reading). log10f reading)
              [(Fin 1, Fin 100000), (Fin 2, Fin 10000), (Fin 3, Fin 1000), (Fin 4, Fin 100)]
            = [Fin 6, Fin 5, Fin 4, Fin 3, Fin 2]"
    by (simp add: log10_of_powers)
  have ys: "log10f (Fin 1000000)
              # map (\<lambda>(density, reading). log10f (fdiv (Fin 1000000) (powf (Fin 10) density)))
                  [(Fin 1, Fin 100000), (Fin 2, Fin 10000), (Fin 3, Fin 1000), (Fin 4, Fin 100)]
            = [Fin 6, Fin 5, Fin 4, Fin 3, Fin 2]"
    by (simp add: log10_of_powers)
  note fit = C6_curve_fit[of ?m5 ?d]
  from fit u5
  have "onCalculateResults ?m5 ?d
      = ?d\<lparr>calValues := polyfit [Fin 6, Fin 5, Fin 4, Fin 3, Fin 2] [Fin 6, Fin 5, Fin 4, Fin 3, Fin 2],
            lineEdits := Some (polyfit [Fin 6, Fin 5, Fin 4, Fin 3, Fin 2]
                                 [Fin 6, Fin 5, Fin 4, Fin 3, Fin 2]),
            okEnabled := True\<rparr>"
    unfolding xs [symmetric] ys [symmetric] by (simp add: float_0_001F_def)
  hence a: "calValues (onCalculateResults ?m5 ?d) = (Fin 0, Fin 1, Fin 0)"
    by (simp add: polyfit_unit_slope)
  have det: "length ?xr = length ?xr \<and> spec_normal_det ?xr \<noteq> 0"
    by (simp add: spec_normal_det_def spec_power_sum_def)
  from fit have "length ?xr = length ?xr \<and> spec_normal_det ?xr \<noteq> 0 \<longrightarrow>
        (\<exists>a0 a1 a2.
           polyfit (map Fin ?xr) (map Fin ?xr) = (Fin a0, Fin a1, Fin a2)
           \<and> (\<forall>c0 c1 c2. spec_squared_error a0 a1 a2 (zip ?xr ?xr)
                            \<le> spec_squared_error c0 c1 c2 (zip ?xr ?xr)))"
    by blast
  with det obtain a0 a1 a2 where
    p: "polyfit (map Fin ?xr) (map Fin ?xr) = (Fin a0, Fin a1, Fin a2)"
    and least: "\<And>c0 c1 c2. spec_squared_error a0 a1 a2 (zip ?xr ?xr)
                            \<le> spec_squared_error c0 c1 c2 (zip ?xr ?xr)"
    by blast
  have "map Fin ?xr = [Fin 6, Fin 5, Fin 4, Fin 3, Fin 2]" by simp
  hence "(Fin a0, Fin a1, Fin a2) = (Fin 0, Fin 1, Fin 0)"
    using p by (simp only: polyfit_unit_slope)
  hence "a0 = 0" "a1 = 1" "a2 = 0" by simp_all
  hence c: "\<forall>c0 c1 c2. spec_squared_error 0 1 0 (zip ?xr ?xr)
                    \<le> spec_squared_error c0 c1 c2 (zip ?xr ?xr)"
    using least by simp
  from C6_curve_fit[of ?m4 ?d] u4
  have b: "onCalculateResults ?m4 ?d = ?d"
    by (simp add: float_0_001F_def)
  show ?thesis using a b c by simp
qed

text \<open>
  Beyond the claims: the bound on the first density is the single-precision constant and
  it is included. A table whose first density is \<^verbatim>\<open>0.001F\<close>, what the text 0.001 is read
  as, is fitted; with a first density of 0.002 there is no result.
\<close>

theorem fit_accepts_threshold_density:
  "okEnabled (onCalculateResults
      ([(Some (Fin (8589935 / 8589934592)), Some (Fin 1000000)),
        (Some (Fin 1), Some (Fin 100000)),
        (Some (Fin 2), Some (Fin 10000)), (Some (Fin 3), Some (Fin 1000)),
        (Some (Fin 4), Some (Fin 100))] @ replicate 17 (None, None))
      \<lparr>calValues = (NaN, NaN, NaN), lineEdits = None, okEnabled = False\<rparr>)
   \<and> onCalculateResults
      ([(Some (Fin 0.002), Some (Fin 1000000)),
        (Some (Fin 1), Some (Fin 100000)),
        (Some (Fin 2), Some (Fin 10000)), (Some (Fin 3), Some (Fin 1000)),
        (Some (Fin 4), Some (Fin 100))] @ replicate 17 (None, None))
      \<lparr>calValues = (NaN, NaN, NaN), lineEdits = None, okEnabled = False\<rparr>
     = \<lparr>calValues = (NaN, NaN, NaN), lineEdits = None, okEnabled = False\<rparr>"
proof -
  let ?d = "\<lparr>calValues = (NaN, NaN, NaN), lineEdits = None, okEnabled = False\<rparr>"
  let ?rest = "[(Some (Fin 1), Some (Fin 100000)),
        (Some (Fin 2), Some (Fin 10000)), (Some (Fin 3), Some (Fin 1000)),
        (Some (Fin 4), Some (Fin 100))] @ replicate 17 (None, None)"
  have r: "replicate 17 (None, None) = (None, None) # replicate 16 (None, None)"
    by (simp add: eval_nat_numeral)
  have u: "spec_usable_rows ((Some (Fin t), Some (Fin 1000000)) # ?rest)
      = (Fin t, Fin 1000000) # [(Fin 1, Fin 100000), (Fin 2, Fin 10000), (Fin 3, Fin 1000),
                                (Fin 4, Fin 100)]" for t
    unfolding r by (simp add: spec_usable_rows_def)
  note rows = calculate_rows_first[OF u]
  have a: "okEnabled (onCalculateResults
             ((Some (Fin (8589935 / 8589934592)), Some (Fin 1000000)) # ?rest) ?d)"
    unfolding onCalculateResults_def rows
    by (simp add: float_0_001F_def fgt_def Let_def)
  have b: "onCalculateResults ((Some (Fin 0.002), Some (Fin 1000000)) # ?rest) ?d = ?d"
    unfolding onCalculateResults_def rows
    by (simp add: float_0_001F_def fgt_def Let_def)
  show ?thesis using a b by simp
qed

end
